theory Spec2Isabelle
  imports Main "HOL-Library.Char_ord" "HOL-Library.List_Lexorder" "HOL-Library.AList"
    "HOL-Library.Multiset"
begin

section \<open>Strings\<close>

text \<open>
  Go strings are byte sequences; \<open>string\<close> is a list of 8-bit characters, compared
  bytewise and lexicographically as Go's \<open><\<close> does. The helpers below are the
  functions of package \<open>strings\<close> and the \<open>%d\<close> verb of \<open>fmt.Sprintf\<close> that the
  parser uses.
\<close>

definition HasPrefix :: "string \<Rightarrow> string \<Rightarrow> bool" where
  "HasPrefix s p = (take (length p) s = p)"

fun Contains :: "string \<Rightarrow> string \<Rightarrow> bool" where
  "Contains [] sub = (sub = [])"
| "Contains (c # s) sub = (HasPrefix (c # s) sub \<or> Contains s sub)"

text \<open>\<open>strings.Split s sep\<close> for a one-byte separator: never an empty list.\<close>

fun Split :: "string \<Rightarrow> char \<Rightarrow> string list" where
  "Split [] sep = [[]]"
| "Split (c # s) sep =
     (if c = sep then [] # Split s sep
      else (case Split s sep of [] \<Rightarrow> [[c]] | p # ps \<Rightarrow> (c # p) # ps))"

definition digit_char :: "nat \<Rightarrow> char" where
  "digit_char d = ''0123456789'' ! d"

text \<open>\<open>fmt.Sprintf("%d", n)\<close> for a non-negative \<open>n\<close> (tag numbers and loop indices).\<close>

function Itoa :: "nat \<Rightarrow> string" where
  "Itoa n = (if n < 10 then [digit_char n] else Itoa (n div 10) @ [digit_char (n mod 10)])"
  by pat_completeness auto
termination
  by (relation "measure id") auto

declare Itoa.simps [simp del]

text \<open>The loop \<open>for i, x := range xs\<close> that fills \<open>out[i]\<close> from \<open>i\<close> and \<open>x\<close>.\<close>

fun range_from :: "nat \<Rightarrow> (nat \<Rightarrow> 'a \<Rightarrow> 'b) \<Rightarrow> 'a list \<Rightarrow> 'b list" where
  "range_from i body [] = []"
| "range_from i body (x # xs) = body i x # range_from (Suc i) body xs"

section \<open>The input: descriptor protos\<close>

text \<open>
  The fields of \<open>descriptorpb\<close> that the parser reads. A getter of an unset field
  returns the zero value, so an optional string is a \<open>string\<close> and
  \<open>GetOptions().GetMapEntry()\<close> is a \<open>bool\<close>.
\<close>

record EnumValueDescriptorProto =
  evp_name :: string

record EnumDescriptorProto =
  edp_name :: string
  edp_value :: "EnumValueDescriptorProto list"

record FieldDescriptorProto =
  fdp_name :: string
  fdp_extendee :: string

datatype DescriptorProto = DescriptorProto
  (dp_name: string)
  (dp_field: "FieldDescriptorProto list")
  (dp_nested_type: "DescriptorProto list")
  (dp_enum_type: "EnumDescriptorProto list")
  (dp_extension: "FieldDescriptorProto list")
  (dp_map_entry: bool)

record MethodDescriptorProto =
  mdp_name :: string
  mdp_input_type :: string
  mdp_output_type :: string

record ServiceDescriptorProto =
  sdp_name :: string
  sdp_method :: "MethodDescriptorProto list"

record Location =
  loc_path :: "nat list"
  loc_leading_comments :: string
  loc_trailing_comments :: string
  loc_leading_detached_comments :: "string list"

record FileDescriptorProto =
  file_name :: string
  file_package :: string
  file_dependency :: "string list"
  file_public_dependency :: "int list"
  file_message_type :: "DescriptorProto list"
  file_enum_type :: "EnumDescriptorProto list"
  file_service :: "ServiceDescriptorProto list"
  file_extension :: "FieldDescriptorProto list"
  file_syntax :: string
  file_source_code_info :: "Location list"

record CodeGeneratorRequest =
  FileToGenerate :: "string list"
  ProtoFile :: "FileDescriptorProto list"

section \<open>The Comment Index\<close>

record Comment =
  Leading :: string
  Trailing :: string
  Detached :: "string list"

type_synonym Comments = "string \<rightharpoonup> Comment"

fun join_dot :: "string list \<Rightarrow> string" where
  "join_dot [] = []"
| "join_dot [s] = s"
| "join_dot (s # t # ss) = s @ ''.'' @ join_dot (t # ss)"

text \<open>
  Modelled from the spec: \<open>ParseComments\<close> (its file is not among the sources). The
  positional documentation table of a file becomes a mapping from the location path,
  rendered as a dot-joined string, to the comment text (leading, trailing, detached).
\<close>

definition ParseComments :: "FileDescriptorProto \<Rightarrow> Comments" where
  "ParseComments fd =
     fold (\<lambda>loc m. m(join_dot (map Itoa (loc_path loc)) \<mapsto>
             \<lparr>Leading = loc_leading_comments loc,
              Trailing = loc_trailing_comments loc,
              Detached = loc_leading_detached_comments loc\<rparr>))
          (file_source_code_info fd) Map.empty"

text \<open>
  Modelled from the spec: \<open>Comments.Get\<close> (its file is not among the sources). Lookup
  by exact path string; a missing path yields "no comment", an empty comment, not an
  absent result. The \<open>*Comment\<close> it returns is a \<open>Comment option\<close>, \<open>None\<close> for \<open>nil\<close>.
\<close>

definition Comments_Get :: "Comments \<Rightarrow> string \<Rightarrow> Comment option" where
  "Comments_Get c p =
     (case c p of
        Some v \<Rightarrow> Some v
      | None \<Rightarrow> Some \<lparr>Leading = [], Trailing = [], Detached = []\<rparr>)"

section \<open>The assembled tree\<close>

text \<open>
  Ownership is a tree, so the owned children are values. A pointer that refers back is
  modelled by what identifies its target: a \<open>*PKFileDescriptor\<close> by the file's name,
  the key under which \<open>allFilesMap\<close> holds it (\<open>None\<close> for \<open>nil\<close>), and a pointer to an
  enclosing message, enum or service by that entity's \<open>common\<close> facet. The option
  extensions and the \<open>protoreflect\<close> handles depend on the global registry and are
  left out.
\<close>

record common =
  file' :: string
  path :: string
  LongName :: string
  FullName :: string

record PKEnumValueDescriptor =
  val_common :: common
  val_desc :: EnumValueDescriptorProto
  val_Enum :: common
  val_Comments :: "Comment option"

record PKEnumDescriptor =
  enum_common :: common
  enum_desc :: EnumDescriptorProto
  enum_Parent :: "common option"
  enum_Values :: "PKEnumValueDescriptor list"
  enum_Comments :: "Comment option"

record PKExtensionDescriptor =
  ext_common :: common
  ext_desc :: FieldDescriptorProto
  ext_Parent :: "common option"
  ext_Comments :: "Comment option"

record PKFieldDescriptor =
  fld_common :: common
  fld_desc :: FieldDescriptorProto
  fld_Comments :: "Comment option"
  fld_Message :: common

datatype PKDescriptor = PKDescriptor
  (msg_common: common)
  (msg_desc: DescriptorProto)
  (msg_Parent: "common option")
  (msg_Comments: "Comment option")
  (msg_Enums: "PKEnumDescriptor list")
  (msg_Extensions: "PKExtensionDescriptor list")
  (msg_Fields: "PKFieldDescriptor list")
  (msg_Messages: "PKDescriptor list")

record PKMethodDescriptor =
  mth_common :: common
  mth_desc :: MethodDescriptorProto
  mth_Comments :: "Comment option"
  mth_Service :: common
  mth_InputType :: "PKDescriptor option"
  mth_OutputType :: "PKDescriptor option"

record PKServiceDescriptor =
  svc_common :: common
  svc_desc :: ServiceDescriptorProto
  svc_Comments :: "Comment option"
  svc_Methods :: "PKMethodDescriptor list"

record PKFileDescriptor =
  comments :: Comments
  desc :: FileDescriptorProto
  PackageComments :: "Comment option"
  SyntaxComments :: "Comment option"
  Enums :: "PKEnumDescriptor list"
  Extensions :: "PKExtensionDescriptor list"
  Imports :: "common list"
  Messages :: "PKDescriptor list"
  Services :: "PKServiceDescriptor list"
  Dependencies :: "string option list"
  PublicDependencies :: "string option list"
  IsFileToGenerate :: bool


datatype panic = IndexOutOfRange | NilPointerDereference

section \<open>Accessors and lookups by name\<close>

definition File_GetName :: "PKFileDescriptor \<Rightarrow> string" where
  "File_GetName f = file_name (desc f)"

definition File_GetPackage :: "PKFileDescriptor \<Rightarrow> string" where
  "File_GetPackage f = file_package (desc f)"

definition GetLongName :: "common \<Rightarrow> string" where
  "GetLongName c = LongName c"

definition GetFullName :: "common \<Rightarrow> string" where
  "GetFullName c = FullName c"

definition Enum_GetName :: "PKEnumDescriptor \<Rightarrow> string" where
  "Enum_GetName e = edp_name (enum_desc e)"

definition Value_GetName :: "PKEnumValueDescriptor \<Rightarrow> string" where
  "Value_GetName v = evp_name (val_desc v)"

definition Extension_GetName :: "PKExtensionDescriptor \<Rightarrow> string" where
  "Extension_GetName e = fdp_name (ext_desc e)"

definition Message_GetName :: "PKDescriptor \<Rightarrow> string" where
  "Message_GetName m = dp_name (msg_desc m)"

definition Field_GetName :: "PKFieldDescriptor \<Rightarrow> string" where
  "Field_GetName mf = fdp_name (fld_desc mf)"

definition Service_GetName :: "PKServiceDescriptor \<Rightarrow> string" where
  "Service_GetName s = sdp_name (svc_desc s)"

definition Method_GetName :: "PKMethodDescriptor \<Rightarrow> string" where
  "Method_GetName m = mdp_name (mth_desc m)"

definition Enum_GetComments :: "PKEnumDescriptor \<Rightarrow> Comment option" where
  "Enum_GetComments e = enum_Comments e"

definition Value_GetComments :: "PKEnumValueDescriptor \<Rightarrow> Comment option" where
  "Value_GetComments v = val_Comments v"

definition Extension_GetComments :: "PKExtensionDescriptor \<Rightarrow> Comment option" where
  "Extension_GetComments e = ext_Comments e"

definition Message_GetComments :: "PKDescriptor \<Rightarrow> Comment option" where
  "Message_GetComments m = msg_Comments m"

definition Field_GetComments :: "PKFieldDescriptor \<Rightarrow> Comment option" where
  "Field_GetComments mf = fld_Comments mf"

definition Service_GetComments :: "PKServiceDescriptor \<Rightarrow> Comment option" where
  "Service_GetComments s = svc_Comments s"

definition Method_GetComments :: "PKMethodDescriptor \<Rightarrow> Comment option" where
  "Method_GetComments m = mth_Comments m"

definition GetInputType :: "PKMethodDescriptor \<Rightarrow> PKDescriptor option" where
  "GetInputType m = mth_InputType m"

definition GetOutputType :: "PKMethodDescriptor \<Rightarrow> PKDescriptor option" where
  "GetOutputType m = mth_OutputType m"

text \<open>
  Each lookup walks its list and returns the first entry that matches, \<open>None\<close> (the
  source's \<open>nil\<close>) when no entry does.
\<close>

definition File_GetEnum :: "PKFileDescriptor \<Rightarrow> string \<Rightarrow> PKEnumDescriptor option" where
  "File_GetEnum f name =
     find (\<lambda>e. Enum_GetName e = name \<or> GetLongName (enum_common e) = name) (Enums f)"

definition File_GetMessage :: "PKFileDescriptor \<Rightarrow> string \<Rightarrow> PKDescriptor option" where
  "File_GetMessage f name =
     find (\<lambda>m. Message_GetName m = name \<or> GetLongName (msg_common m) = name
                \<or> GetFullName (msg_common m) = name) (Messages f)"

definition File_GetService :: "PKFileDescriptor \<Rightarrow> string \<Rightarrow> PKServiceDescriptor option" where
  "File_GetService f name =
     find (\<lambda>s. Service_GetName s = name \<or> GetLongName (svc_common s) = name) (Services f)"

definition Enum_GetNamedValue :: "PKEnumDescriptor \<Rightarrow> string \<Rightarrow> PKEnumValueDescriptor option" where
  "Enum_GetNamedValue e name = find (\<lambda>v. Value_GetName v = name) (enum_Values e)"

definition Message_GetEnum :: "PKDescriptor \<Rightarrow> string \<Rightarrow> PKEnumDescriptor option" where
  "Message_GetEnum m name =
     find (\<lambda>e. Enum_GetName e = name \<or> GetLongName (enum_common e) = name) (msg_Enums m)"

definition Message_GetMessage :: "PKDescriptor \<Rightarrow> string \<Rightarrow> PKDescriptor option" where
  "Message_GetMessage m name =
     find (\<lambda>msg. Message_GetName msg = name \<or> GetLongName (msg_common msg) = name)
          (msg_Messages m)"

definition Message_GetMessageField :: "PKDescriptor \<Rightarrow> string \<Rightarrow> PKFieldDescriptor option" where
  "Message_GetMessageField m name =
     find (\<lambda>f. Field_GetName f = name \<or> GetLongName (fld_common f) = name) (msg_Fields m)"

definition Service_GetNamedMethod :: "PKServiceDescriptor \<Rightarrow> string \<Rightarrow> PKMethodDescriptor option" where
  "Service_GetNamedMethod s name =
     find (\<lambda>m. Method_GetName m = name \<or> GetLongName (mth_common m) = name) (svc_Methods s)"

section \<open>The builders\<close>

definition newCommon :: "PKFileDescriptor \<Rightarrow> string \<Rightarrow> string \<Rightarrow> common" where
  "newCommon f p longName =
     (let fn = (if \<not> HasPrefix longName ''.''
                then (let fn1 = File_GetPackage f @ ''.'' @ longName
                      in if \<not> HasPrefix fn1 ''.'' then ''.'' @ fn1 else fn1)
                else longName)
      in \<lparr>file' = File_GetName f, path = p, LongName = longName, FullName = fn\<rparr>)"

definition messageCommentPath :: nat where "messageCommentPath = 4"
definition enumCommentPath :: nat where "enumCommentPath = 5"
definition serviceCommentPath :: nat where "serviceCommentPath = 6"
definition extensionCommentPath :: nat where "extensionCommentPath = 7"
definition packageCommentPath :: nat where "packageCommentPath = 2"
definition syntaxCommentPath :: nat where "syntaxCommentPath = 12"
definition messageFieldCommentPath :: nat where "messageFieldCommentPath = 2"
definition messageMessageCommentPath :: nat where "messageMessageCommentPath = 3"
definition messageEnumCommentPath :: nat where "messageEnumCommentPath = 4"
definition messageExtensionCommentPath :: nat where "messageExtensionCommentPath = 6"
definition enumValueCommentPath :: nat where "enumValueCommentPath = 2"
definition serviceMethodCommentPath :: nat where "serviceMethodCommentPath = 2"

text \<open>
  The context of the source carries the file being built and, inside a message, the
  enclosing message (\<open>hasParent\<close>); here they are the arguments \<open>file\<close> and \<open>parent\<close>.
\<close>

definition parseEnumValues ::
  "PKFileDescriptor \<Rightarrow> common \<Rightarrow> EnumValueDescriptorProto list \<Rightarrow> PKEnumValueDescriptor list" where
  "parseEnumValues f enum protos =
     range_from 0 (\<lambda>i vd.
       let longName = GetLongName enum @ ''.'' @ evp_name vd
       in \<lparr>val_common = newCommon f [] longName,
           val_desc = vd,
           val_Enum = enum,
           val_Comments = Comments_Get (comments f)
             (path enum @ ''.'' @ Itoa enumValueCommentPath @ ''.'' @ Itoa i)\<rparr>) protos"

definition parseEnums ::
  "PKFileDescriptor \<Rightarrow> common option \<Rightarrow> EnumDescriptorProto list \<Rightarrow> PKEnumDescriptor list" where
  "parseEnums f parent protos =
     range_from 0 (\<lambda>i ed.
       let longName = (case parent of None \<Rightarrow> edp_name ed
                       | Some p \<Rightarrow> GetLongName p @ ''.'' @ edp_name ed);
           commentPath = (case parent of None \<Rightarrow> Itoa enumCommentPath @ ''.'' @ Itoa i
                       | Some p \<Rightarrow> path p @ ''.'' @ Itoa messageEnumCommentPath @ ''.'' @ Itoa i);
           c = newCommon f commentPath longName
       in \<lparr>enum_common = c,
           enum_desc = ed,
           enum_Parent = parent,
           enum_Values = parseEnumValues f c (edp_value ed),
           enum_Comments = Comments_Get (comments f) commentPath\<rparr>) protos"

definition parseExtensions ::
  "PKFileDescriptor \<Rightarrow> common option \<Rightarrow> FieldDescriptorProto list \<Rightarrow> PKExtensionDescriptor list" where
  "parseExtensions f parent protos =
     range_from 0 (\<lambda>i ext.
       let longName0 = fdp_extendee ext @ ''.'' @ fdp_name ext;
           longName = (if Contains longName0 (File_GetPackage f)
                       then last (Split (fdp_extendee ext) CHR ''.'') @ ''.'' @ fdp_name ext
                       else longName0);
           commentPath = (case parent of None \<Rightarrow> Itoa extensionCommentPath @ ''.'' @ Itoa i
                       | Some p \<Rightarrow> path p @ ''.'' @ Itoa messageExtensionCommentPath @ ''.'' @ Itoa i)
       in \<lparr>ext_common = newCommon f commentPath longName,
           ext_desc = ext,
           ext_Parent = parent,
           ext_Comments = Comments_Get (comments f) commentPath\<rparr>) protos"

definition parseMessageFields ::
  "PKFileDescriptor \<Rightarrow> common \<Rightarrow> FieldDescriptorProto list \<Rightarrow> PKFieldDescriptor list" where
  "parseMessageFields f message protos =
     range_from 0 (\<lambda>i fd.
       let longName = GetLongName message @ ''.'' @ fdp_name fd
       in \<lparr>fld_common = newCommon f [] longName,
           fld_desc = fd,
           fld_Comments = Comments_Get (comments f)
             (path message @ ''.'' @ Itoa messageFieldCommentPath @ ''.'' @ Itoa i),
           fld_Message = message\<rparr>) protos"

text \<open>
  \<open>parseMessages\<close> calls itself on the nested types of each message. Its loop is
  \<open>parseMessages_from\<close>, started at index 0, and its loop body is \<open>parseMessage\<close>.
\<close>

fun parseMessage ::
      "PKFileDescriptor \<Rightarrow> common option \<Rightarrow> nat \<Rightarrow> DescriptorProto \<Rightarrow> PKDescriptor"
  and parseMessages_from ::
      "PKFileDescriptor \<Rightarrow> common option \<Rightarrow> nat \<Rightarrow> DescriptorProto list \<Rightarrow> PKDescriptor list"
where
  "parseMessage f parent i (DescriptorProto nm flds nested ens exts me) =
     (let md = DescriptorProto nm flds nested ens exts me;
          longName = (case parent of None \<Rightarrow> dp_name md
                      | Some p \<Rightarrow> GetLongName p @ ''.'' @ dp_name md);
          commentPath = (case parent of None \<Rightarrow> Itoa messageCommentPath @ ''.'' @ Itoa i
                      | Some p \<Rightarrow> path p @ ''.'' @ Itoa messageMessageCommentPath @ ''.'' @ Itoa i);
          c = newCommon f commentPath longName
      in PKDescriptor c md parent
           (Comments_Get (comments f) commentPath)
           (parseEnums f (Some c) ens)
           (parseExtensions f (Some c) exts)
           (parseMessageFields f c flds)
           (parseMessages_from f (Some c) 0 nested))"
| "parseMessages_from f parent i [] = []"
| "parseMessages_from f parent i (md # mds) =
     parseMessage f parent i md # parseMessages_from f parent (Suc i) mds"

definition parseMessages ::
  "PKFileDescriptor \<Rightarrow> common option \<Rightarrow> DescriptorProto list \<Rightarrow> PKDescriptor list" where
  "parseMessages f parent protos = parseMessages_from f parent 0 protos"

definition parseServiceMethods ::
  "PKFileDescriptor \<Rightarrow> common \<Rightarrow> MethodDescriptorProto list \<Rightarrow> PKMethodDescriptor list" where
  "parseServiceMethods f svc protos =
     range_from 0 (\<lambda>i md.
       let longName = GetLongName svc @ ''.'' @ mdp_name md
       in \<lparr>mth_common = newCommon f [] longName,
           mth_desc = md,
           mth_Comments = Comments_Get (comments f)
             (path svc @ ''.'' @ Itoa serviceMethodCommentPath @ ''.'' @ Itoa i),
           mth_Service = svc,
           mth_InputType = File_GetMessage f (mdp_input_type md),
           mth_OutputType = File_GetMessage f (mdp_output_type md)\<rparr>) protos"

definition parseServices ::
  "PKFileDescriptor \<Rightarrow> ServiceDescriptorProto list \<Rightarrow> PKServiceDescriptor list" where
  "parseServices f protos =
     range_from 0 (\<lambda>i sd.
       let longName = sdp_name sd;
           commentPath = Itoa serviceCommentPath @ ''.'' @ Itoa i;
           c = newCommon f commentPath longName
       in \<lparr>svc_common = c,
           svc_desc = sd,
           svc_Comments = Comments_Get (comments f) commentPath,
           svc_Methods = parseServiceMethods f c (sdp_method sd)\<rparr>) protos"

section \<open>The file assembler\<close>

text \<open>
  \<open>allFilesMap\<close>, a Go map from file name to \<open>*PKFileDescriptor\<close>, is an association
  list with one entry for each key: \<open>map_of\<close> reads it, \<open>AList.update\<close> assigns to a
  key, and an assignment through a pointer held in the map replaces the entry's value.
  \<open>allFilesMap[dep]\<close> is the pointer stored under \<open>dep\<close>, \<open>nil\<close> when the map has no
  such key; a pointer to a file is the name of its target.
\<close>

type_synonym AllFiles = "(string \<times> PKFileDescriptor) list"

definition file_pointer :: "AllFiles \<Rightarrow> string \<Rightarrow> string option" where
  "file_pointer allFilesMap dep = map_option File_GetName (map_of allFilesMap dep)"

text \<open>
  The loop over the public dependencies indexes \<open>fd.GetDependency()\<close> with an
  \<open>int32\<close> of the input; an index out of range is a run-time panic.
\<close>

fun parsePublicDependencies ::
  "AllFiles \<Rightarrow> string list \<Rightarrow> int list \<Rightarrow> string option list
     \<Rightarrow> panic + string option list" where
  "parsePublicDependencies allFilesMap deps [] acc = Inr acc"
| "parsePublicDependencies allFilesMap deps (d # ds) acc =
     (if 0 \<le> d \<and> nat d < length deps
      then parsePublicDependencies allFilesMap deps ds
             (acc @ [file_pointer allFilesMap (deps ! nat d)])
      else Inl IndexOutOfRange)"

definition parseFile ::
  "AllFiles \<Rightarrow> FileDescriptorProto \<Rightarrow> panic + PKFileDescriptor" where
  "parseFile allFilesMap fd =
     (let cs = ParseComments fd;
          file0 = \<lparr>comments = cs, desc = fd,
                   PackageComments = Comments_Get cs (Itoa packageCommentPath),
                   SyntaxComments = Comments_Get cs (Itoa syntaxCommentPath),
                   Enums = [], Extensions = [], Imports = [], Messages = [], Services = [],
                   Dependencies = [], PublicDependencies = [], IsFileToGenerate = False\<rparr>;
          file1 = file0\<lparr>Enums := parseEnums file0 None (file_enum_type fd)\<rparr>;
          file2 = file1\<lparr>Extensions := parseExtensions file1 None (file_extension fd)\<rparr>;
          file3 = file2\<lparr>Messages := parseMessages file2 None (file_message_type fd)\<rparr>;
          file4 = file3\<lparr>Services := parseServices file3 (file_service fd)\<rparr>;
          file5 = file4\<lparr>Dependencies := map (file_pointer allFilesMap) (file_dependency fd)\<rparr>
      in case parsePublicDependencies allFilesMap (file_dependency fd)
                (file_public_dependency fd) [] of
           Inl e \<Rightarrow> Inl e
         | Inr pubs \<Rightarrow> Inr (file5\<lparr>PublicDependencies := pubs\<rparr>))"

section \<open>The import resolver\<close>

text \<open>
  For each declared dependency, in order: the messages the file of that name returns
  from \<open>GetMessages\<close> that are no map entries, its \<open>GetEnums\<close>, its \<open>GetExtensions\<close>.
  Each import holds the \<open>common\<close> of the entity. A dependency the map does not hold is a
  \<open>nil\<close> file, and calling \<open>GetMessages\<close> on it panics.
\<close>

fun parseAllImports_loop :: "AllFiles \<Rightarrow> string list \<Rightarrow> common list \<Rightarrow> panic + common list" where
  "parseAllImports_loop allFiles [] imps = Inr imps"
| "parseAllImports_loop allFiles (fileName # rest) imps =
     (case map_of allFiles fileName of
        None \<Rightarrow> Inl NilPointerDereference
      | Some d \<Rightarrow>
          parseAllImports_loop allFiles rest
            (imps @ map msg_common (filter (\<lambda>m. \<not> dp_map_entry (msg_desc m)) (Messages d))
                  @ map enum_common (Enums d)
                  @ map ext_common (Extensions d)))"

definition parseAllImports :: "PKFileDescriptor \<Rightarrow> AllFiles \<Rightarrow> panic + PKFileDescriptor" where
  "parseAllImports fd allFiles =
     (case parseAllImports_loop allFiles (file_dependency (desc fd)) [] of
        Inl e \<Rightarrow> Inl e
      | Inr imps \<Rightarrow> Inr (fd\<lparr>Imports := imps\<rparr>))"

section \<open>The batch driver\<close>

text \<open>
  \<open>ParseCodeGenRequestAllFiles\<close> after \<open>getAllFileDescriptor\<close>, \<open>registerAllExtensions\<close>
  and \<open>reUnmarshalReq\<close> have succeeded (they call into the protobuf library, exit the
  process or return its error, and change nothing the rest reads here). A run-time panic
  of the rest is the result \<open>Inl\<close>.

  First loop: each file is parsed with the map as filled so far, then stored.
\<close>

fun building :: "AllFiles \<Rightarrow> FileDescriptorProto list \<Rightarrow> panic + AllFiles" where
  "building allFilesMap [] = Inr allFilesMap"
| "building allFilesMap (pf # pfs) =
     (case parseFile allFilesMap pf of
        Inl e \<Rightarrow> Inl e
      | Inr f \<Rightarrow> building (AList.update (file_name pf) f allFilesMap) pfs)"

text \<open>
  Second loop, over the entries of the map. Go leaves the order of a \<open>range\<close> over a
  map open, so the list of entries to visit is an argument of the driver: \<open>order\<close>
  rearranges the entries of the map into the order of the visit. In \<open>linking\<close>,
  \<open>visited\<close> are the entries already visited, with their imports set, and the map
  that \<open>parseAllImports\<close> reads is all of them followed by the entries still to visit.
  The files are appended to \<open>allFiles\<close> in the order of the visit.
\<close>

fun linking :: "AllFiles \<Rightarrow> AllFiles \<Rightarrow> panic + AllFiles" where
  "linking visited [] = Inr visited"
| "linking visited ((k, f) # rest) =
     (case parseAllImports f (visited @ (k, f) # rest) of
        Inl e \<Rightarrow> Inl e
      | Inr f' \<Rightarrow> linking (visited @ [(k, f')]) rest)"

text \<open>Third loop: \<open>allFilesMap[f].IsFileToGenerate = true\<close>, a panic on a \<open>nil\<close> entry.\<close>

fun marking :: "AllFiles \<Rightarrow> string list \<Rightarrow> panic + AllFiles" where
  "marking allFilesMap [] = Inr allFilesMap"
| "marking allFilesMap (n # ns) =
     (case map_of allFilesMap n of
        None \<Rightarrow> Inl NilPointerDereference
      | Some f \<Rightarrow> marking (AList.update n (f\<lparr>IsFileToGenerate := True\<rparr>) allFilesMap) ns)"

text \<open>
  \<open>sort.Slice\<close> with \<open>GetName\<close> compared by \<open><\<close>: the names of the files of a map are
  distinct, so the sorted slice is the one \<open>sort_key\<close> returns.
\<close>

definition ParseCodeGenRequestAllFiles ::
  "(AllFiles \<Rightarrow> AllFiles) \<Rightarrow> CodeGeneratorRequest \<Rightarrow> panic + PKFileDescriptor list" where
  "ParseCodeGenRequestAllFiles order req =
     (case building [] (ProtoFile req) of
        Inl e \<Rightarrow> Inl e
      | Inr built \<Rightarrow>
          (case linking [] (order built) of
             Inl e \<Rightarrow> Inl e
           | Inr linked \<Rightarrow>
               (case marking linked (FileToGenerate req) of
                  Inl e \<Rightarrow> Inl e
                | Inr marked \<Rightarrow> Inr (sort_key File_GetName (map snd marked)))))"

text \<open>An order of visit is any rearrangement of the entries.\<close>

definition visit_order :: "(AllFiles \<Rightarrow> AllFiles) \<Rightarrow> bool" where
  "visit_order order = (\<forall>al. mset (order al) = mset al)"

section \<open>The entities of a file\<close>

text \<open>
  The \<open>common\<close> facets of every entity below an enum, a message, a service and a
  file: the entity's own and those of everything it owns, at any depth.
\<close>

definition enum_commons :: "PKEnumDescriptor \<Rightarrow> common list" where
  "enum_commons e = enum_common e # map val_common (enum_Values e)"

fun message_commons :: "PKDescriptor \<Rightarrow> common list" where
  "message_commons (PKDescriptor c d p cm ens exts flds msgs) =
     c # concat (map enum_commons ens) @ map ext_common exts @ map fld_common flds
       @ concat (map message_commons msgs)"

definition service_commons :: "PKServiceDescriptor \<Rightarrow> common list" where
  "service_commons s = svc_common s # map mth_common (svc_Methods s)"

definition file_commons :: "PKFileDescriptor \<Rightarrow> common list" where
  "file_commons f =
     concat (map enum_commons (Enums f)) @ map ext_common (Extensions f)
       @ concat (map message_commons (Messages f)) @ concat (map service_commons (Services f))"

text \<open>
  What \<open>newCommon\<close> establishes between the package of the file, the long name and the
  full name of an entity.
\<close>

definition fullname_ok :: "string \<Rightarrow> common \<Rightarrow> bool" where
  "fullname_ok pkg c =
     (HasPrefix (FullName c) ''.'' \<and>
      (HasPrefix (LongName c) ''.'' \<longrightarrow> FullName c = LongName c) \<and>
      (\<not> HasPrefix (LongName c) ''.'' \<longrightarrow>
         FullName c = (if pkg = [] \<or> HasPrefix pkg ''.'' then pkg @ ''.'' @ LongName c
                       else ''.'' @ pkg @ ''.'' @ LongName c)))"

text \<open>
  Every message of a message, itself included, and the messages, enums and extensions
  of a file at any depth.
\<close>

fun message_tree :: "PKDescriptor \<Rightarrow> PKDescriptor list" where
  "message_tree (PKDescriptor c d p cm ens exts flds msgs) =
     PKDescriptor c d p cm ens exts flds msgs # concat (map message_tree msgs)"

definition file_messages :: "PKFileDescriptor \<Rightarrow> PKDescriptor list" where
  "file_messages f = concat (map message_tree (Messages f))"

definition file_enums :: "PKFileDescriptor \<Rightarrow> PKEnumDescriptor list" where
  "file_enums f = Enums f @ concat (map msg_Enums (file_messages f))"

definition file_extensions :: "PKFileDescriptor \<Rightarrow> PKExtensionDescriptor list" where
  "file_extensions f = Extensions f @ concat (map msg_Extensions (file_messages f))"

text \<open>
  In the words of the spec: the last dot-separated segment of a name, and a string
  that appears as a substring of another.
\<close>

definition last_segment :: "string \<Rightarrow> string" where
  "last_segment s = rev (takeWhile (\<lambda>c. c \<noteq> CHR ''.'') (rev s))"

definition substring_of :: "string \<Rightarrow> string \<Rightarrow> bool" where
  "substring_of sub s = (\<exists>pre post. s = pre @ sub @ post)"

text \<open>What a file contributes to the import list of a file that depends on it.\<close>

definition exports :: "PKFileDescriptor \<Rightarrow> common list" where
  "exports d =
     map msg_common (filter (\<lambda>m. \<not> dp_map_entry (msg_desc m)) (Messages d))
       @ map enum_common (Enums d) @ map ext_common (Extensions d)"

text \<open>
  The file under construction, as the builders of the file of \<open>fd\<close> see it through
  the context: its proto and its comment index are in place from the start.
\<close>

definition file_context :: "FileDescriptorProto \<Rightarrow> PKFileDescriptor \<Rightarrow> bool" where
  "file_context fd f = (desc f = fd \<and> comments f = ParseComments fd)"

section \<open>The states of the batch driver\<close>

text \<open>
  A well-formed map: one entry for each key, and each file stored under its own name.
\<close>

definition wf_files :: "AllFiles \<Rightarrow> bool" where
  "wf_files al = (distinct (map fst al) \<and> (\<forall>(k, f) \<in> set al. File_GetName f = k))"

text \<open>
  The map after the first loop over \<open>pfs\<close>: its keys are the names of the protos, and
  each file was parsed from one of them, against a well-formed map that held exactly
  the names of the protos before it.
\<close>

definition built_from :: "FileDescriptorProto list \<Rightarrow> AllFiles \<Rightarrow> bool" where
  "built_from pfs al =
     (wf_files al \<and> fst ` set al = file_name ` set pfs \<and>
      (\<forall>(k, f) \<in> set al. \<exists>j prev. j < length pfs \<and> parseFile prev (pfs ! j) = Inr f \<and>
          wf_files prev \<and> fst ` set prev = file_name ` set (take j pfs)))"

text \<open>The imports that \<open>parseAllImports\<close> computes for a file against a map.\<close>

definition imports_in :: "AllFiles \<Rightarrow> PKFileDescriptor \<Rightarrow> panic + common list" where
  "imports_in al f = parseAllImports_loop al (file_dependency (desc f)) []"

text \<open>
  A file of the map \<open>built\<close> after the second and the third loop: its imports are set
  and it is marked when its key is among the names to generate.
\<close>

definition finished :: "AllFiles \<Rightarrow> string list \<Rightarrow> string \<times> PKFileDescriptor \<Rightarrow> PKFileDescriptor" where
  "finished built names kf =
     (snd kf)\<lparr>Imports := projr (imports_in built (snd kf)),
              IsFileToGenerate := (fst kf \<in> set names)\<rparr>"

section \<open>The older revision\<close>

text \<open>
  The sources hold a second, older body of the same package: \<open>src/types.go\<close> and the
  second document of the parser file. Its \<open>newCommon\<close> has no second \<open>HasPrefix\<close> test,
  its file has a deprecated \<open>Comments\<close> field and no dependency pointers, its methods
  have no input and output type, and its driver returns the files without sorting
  them. The definitions below follow that body; a name that the newer body has too
  carries the suffix \<open>older\<close>. Enums, enum values, extensions, fields and messages have
  the same shape in both.
\<close>

record PKMethodDescriptor_older =
  mth_common_older :: common
  mth_desc_older :: MethodDescriptorProto
  mth_Comments_older :: "Comment option"
  mth_Service_older :: common

record PKServiceDescriptor_older =
  svc_common_older :: common
  svc_desc_older :: ServiceDescriptorProto
  svc_Comments_older :: "Comment option"
  svc_Methods_older :: "PKMethodDescriptor_older list"

record PKFileDescriptor_older =
  comments_older :: Comments
  desc_older :: FileDescriptorProto
  Comments_older :: "Comment option"
  PackageComments_older :: "Comment option"
  SyntaxComments_older :: "Comment option"
  Enums_older :: "PKEnumDescriptor list"
  Extensions_older :: "PKExtensionDescriptor list"
  Imports_older :: "common list"
  Messages_older :: "PKDescriptor list"
  Services_older :: "PKServiceDescriptor_older list"
  IsFileToGenerate_older :: bool

definition File_GetName_older :: "PKFileDescriptor_older \<Rightarrow> string" where
  "File_GetName_older f = file_name (desc_older f)"

definition File_GetPackage_older :: "PKFileDescriptor_older \<Rightarrow> string" where
  "File_GetPackage_older f = file_package (desc_older f)"

definition newCommon_older :: "PKFileDescriptor_older \<Rightarrow> string \<Rightarrow> string \<Rightarrow> common" where
  "newCommon_older f p longName =
     (let fn = (if \<not> HasPrefix longName ''.''
                then File_GetPackage_older f @ ''.'' @ longName
                else longName)
      in \<lparr>file' = File_GetName_older f, path = p, LongName = longName, FullName = fn\<rparr>)"

definition parseEnumValues_older ::
  "PKFileDescriptor_older \<Rightarrow> common \<Rightarrow> EnumValueDescriptorProto list
     \<Rightarrow> PKEnumValueDescriptor list" where
  "parseEnumValues_older f enum protos =
     range_from 0 (\<lambda>i vd.
       let longName = GetLongName enum @ ''.'' @ evp_name vd
       in \<lparr>val_common = newCommon_older f [] longName,
           val_desc = vd,
           val_Enum = enum,
           val_Comments = Comments_Get (comments_older f)
             (path enum @ ''.'' @ Itoa enumValueCommentPath @ ''.'' @ Itoa i)\<rparr>) protos"

definition parseEnums_older ::
  "PKFileDescriptor_older \<Rightarrow> common option \<Rightarrow> EnumDescriptorProto list
     \<Rightarrow> PKEnumDescriptor list" where
  "parseEnums_older f parent protos =
     range_from 0 (\<lambda>i ed.
       let longName = (case parent of None \<Rightarrow> edp_name ed
                       | Some p \<Rightarrow> GetLongName p @ ''.'' @ edp_name ed);
           commentPath = (case parent of None \<Rightarrow> Itoa enumCommentPath @ ''.'' @ Itoa i
                       | Some p \<Rightarrow> path p @ ''.'' @ Itoa messageEnumCommentPath @ ''.'' @ Itoa i);
           c = newCommon_older f commentPath longName
       in \<lparr>enum_common = c,
           enum_desc = ed,
           enum_Parent = parent,
           enum_Values = parseEnumValues_older f c (edp_value ed),
           enum_Comments = Comments_Get (comments_older f) commentPath\<rparr>) protos"

definition parseExtensions_older ::
  "PKFileDescriptor_older \<Rightarrow> common option \<Rightarrow> FieldDescriptorProto list
     \<Rightarrow> PKExtensionDescriptor list" where
  "parseExtensions_older f parent protos =
     range_from 0 (\<lambda>i ext.
       let longName0 = fdp_extendee ext @ ''.'' @ fdp_name ext;
           longName = (if Contains longName0 (File_GetPackage_older f)
                       then last (Split (fdp_extendee ext) CHR ''.'') @ ''.'' @ fdp_name ext
                       else longName0);
           commentPath = (case parent of None \<Rightarrow> Itoa extensionCommentPath @ ''.'' @ Itoa i
                       | Some p \<Rightarrow> path p @ ''.'' @ Itoa messageExtensionCommentPath @ ''.'' @ Itoa i)
       in \<lparr>ext_common = newCommon_older f commentPath longName,
           ext_desc = ext,
           ext_Parent = parent,
           ext_Comments = Comments_Get (comments_older f) commentPath\<rparr>) protos"

definition parseMessageFields_older ::
  "PKFileDescriptor_older \<Rightarrow> common \<Rightarrow> FieldDescriptorProto list \<Rightarrow> PKFieldDescriptor list" where
  "parseMessageFields_older f message protos =
     range_from 0 (\<lambda>i fd.
       let longName = GetLongName message @ ''.'' @ fdp_name fd
       in \<lparr>fld_common = newCommon_older f [] longName,
           fld_desc = fd,
           fld_Comments = Comments_Get (comments_older f)
             (path message @ ''.'' @ Itoa messageFieldCommentPath @ ''.'' @ Itoa i),
           fld_Message = message\<rparr>) protos"

fun parseMessage_older ::
      "PKFileDescriptor_older \<Rightarrow> common option \<Rightarrow> nat \<Rightarrow> DescriptorProto \<Rightarrow> PKDescriptor"
  and parseMessages_from_older ::
      "PKFileDescriptor_older \<Rightarrow> common option \<Rightarrow> nat \<Rightarrow> DescriptorProto list
         \<Rightarrow> PKDescriptor list"
where
  "parseMessage_older f parent i (DescriptorProto nm flds nested ens exts me) =
     (let md = DescriptorProto nm flds nested ens exts me;
          longName = (case parent of None \<Rightarrow> dp_name md
                      | Some p \<Rightarrow> GetLongName p @ ''.'' @ dp_name md);
          commentPath = (case parent of None \<Rightarrow> Itoa messageCommentPath @ ''.'' @ Itoa i
                      | Some p \<Rightarrow> path p @ ''.'' @ Itoa messageMessageCommentPath @ ''.'' @ Itoa i);
          c = newCommon_older f commentPath longName
      in PKDescriptor c md parent
           (Comments_Get (comments_older f) commentPath)
           (parseEnums_older f (Some c) ens)
           (parseExtensions_older f (Some c) exts)
           (parseMessageFields_older f c flds)
           (parseMessages_from_older f (Some c) 0 nested))"
| "parseMessages_from_older f parent i [] = []"
| "parseMessages_from_older f parent i (md # mds) =
     parseMessage_older f parent i md # parseMessages_from_older f parent (Suc i) mds"

definition parseMessages_older ::
  "PKFileDescriptor_older \<Rightarrow> common option \<Rightarrow> DescriptorProto list \<Rightarrow> PKDescriptor list" where
  "parseMessages_older f parent protos = parseMessages_from_older f parent 0 protos"

definition parseServiceMethods_older ::
  "PKFileDescriptor_older \<Rightarrow> common \<Rightarrow> MethodDescriptorProto list
     \<Rightarrow> PKMethodDescriptor_older list" where
  "parseServiceMethods_older f svc protos =
     range_from 0 (\<lambda>i md.
       let longName = GetLongName svc @ ''.'' @ mdp_name md
       in \<lparr>mth_common_older = newCommon_older f [] longName,
           mth_desc_older = md,
           mth_Comments_older = Comments_Get (comments_older f)
             (path svc @ ''.'' @ Itoa serviceMethodCommentPath @ ''.'' @ Itoa i),
           mth_Service_older = svc\<rparr>) protos"

definition parseServices_older ::
  "PKFileDescriptor_older \<Rightarrow> ServiceDescriptorProto list \<Rightarrow> PKServiceDescriptor_older list" where
  "parseServices_older f protos =
     range_from 0 (\<lambda>i sd.
       let longName = sdp_name sd;
           commentPath = Itoa serviceCommentPath @ ''.'' @ Itoa i;
           c = newCommon_older f commentPath longName
       in \<lparr>svc_common_older = c,
           svc_desc_older = sd,
           svc_Comments_older = Comments_Get (comments_older f) commentPath,
           svc_Methods_older = parseServiceMethods_older f c (sdp_method sd)\<rparr>) protos"

definition parseFile_older :: "FileDescriptorProto \<Rightarrow> PKFileDescriptor_older" where
  "parseFile_older fd =
     (let cs = ParseComments fd;
          file0 = \<lparr>comments_older = cs, desc_older = fd,
                   Comments_older = Comments_Get cs (Itoa packageCommentPath),
                   PackageComments_older = Comments_Get cs (Itoa packageCommentPath),
                   SyntaxComments_older = Comments_Get cs (Itoa syntaxCommentPath),
                   Enums_older = [], Extensions_older = [], Imports_older = [],
                   Messages_older = [], Services_older = [], IsFileToGenerate_older = False\<rparr>;
          file1 = file0\<lparr>Enums_older := parseEnums_older file0 None (file_enum_type fd)\<rparr>;
          file2 = file1\<lparr>Extensions_older := parseExtensions_older file1 None (file_extension fd)\<rparr>;
          file3 = file2\<lparr>Messages_older := parseMessages_older file2 None (file_message_type fd)\<rparr>
      in file3\<lparr>Services_older := parseServices_older file3 (file_service fd)\<rparr>)"

type_synonym AllFiles_older = "(string \<times> PKFileDescriptor_older) list"

fun parseAllImports_loop_older ::
  "AllFiles_older \<Rightarrow> string list \<Rightarrow> common list \<Rightarrow> panic + common list" where
  "parseAllImports_loop_older allFiles [] imps = Inr imps"
| "parseAllImports_loop_older allFiles (fileName # rest) imps =
     (case map_of allFiles fileName of
        None \<Rightarrow> Inl NilPointerDereference
      | Some d \<Rightarrow>
          parseAllImports_loop_older allFiles rest
            (imps @ map msg_common (filter (\<lambda>m. \<not> dp_map_entry (msg_desc m)) (Messages_older d))
                  @ map enum_common (Enums_older d)
                  @ map ext_common (Extensions_older d)))"

definition parseAllImports_older ::
  "PKFileDescriptor_older \<Rightarrow> AllFiles_older \<Rightarrow> panic + PKFileDescriptor_older" where
  "parseAllImports_older fd allFiles =
     (case parseAllImports_loop_older allFiles (file_dependency (desc_older fd)) [] of
        Inl e \<Rightarrow> Inl e
      | Inr imps \<Rightarrow> Inr (fd\<lparr>Imports_older := imps\<rparr>))"

fun building_older :: "AllFiles_older \<Rightarrow> FileDescriptorProto list \<Rightarrow> AllFiles_older" where
  "building_older allFiles [] = allFiles"
| "building_older allFiles (pf # pfs) =
     building_older (AList.update (file_name pf) (parseFile_older pf) allFiles) pfs"

fun linking_older :: "AllFiles_older \<Rightarrow> AllFiles_older \<Rightarrow> panic + AllFiles_older" where
  "linking_older visited [] = Inr visited"
| "linking_older visited ((k, f) # rest) =
     (case parseAllImports_older f (visited @ (k, f) # rest) of
        Inl e \<Rightarrow> Inl e
      | Inr f' \<Rightarrow> linking_older (visited @ [(k, f')]) rest)"

fun marking_older :: "AllFiles_older \<Rightarrow> string list \<Rightarrow> panic + AllFiles_older" where
  "marking_older allFiles [] = Inr allFiles"
| "marking_older allFiles (n # ns) =
     (case map_of allFiles n of
        None \<Rightarrow> Inl NilPointerDereference
      | Some f \<Rightarrow>
          marking_older (AList.update n (f\<lparr>IsFileToGenerate_older := True\<rparr>) allFiles) ns)"

text \<open>
  The older driver appends each file to \<open>genFiles\<close> as the second loop visits it and
  returns \<open>genFiles\<close> as it is: the files stand in the order of the visit.
\<close>

definition ParseCodeGenRequestAllFiles_older ::
  "(AllFiles_older \<Rightarrow> AllFiles_older) \<Rightarrow> CodeGeneratorRequest
     \<Rightarrow> panic + PKFileDescriptor_older list" where
  "ParseCodeGenRequestAllFiles_older order req =
     (case linking_older [] (order (building_older [] (ProtoFile req))) of
        Inl e \<Rightarrow> Inl e
      | Inr linked \<Rightarrow>
          (case marking_older linked (FileToGenerate req) of
             Inl e \<Rightarrow> Inl e
           | Inr marked \<Rightarrow> Inr (map snd marked)))"

definition visit_order_older :: "(AllFiles_older \<Rightarrow> AllFiles_older) \<Rightarrow> bool" where
  "visit_order_older order = (\<forall>al. mset (order al) = mset al)"

definition service_commons_older :: "PKServiceDescriptor_older \<Rightarrow> common list" where
  "service_commons_older s = svc_common_older s # map mth_common_older (svc_Methods_older s)"

definition file_commons_older :: "PKFileDescriptor_older \<Rightarrow> common list" where
  "file_commons_older f =
     concat (map enum_commons (Enums_older f)) @ map ext_common (Extensions_older f)
       @ concat (map message_commons (Messages_older f))
       @ concat (map service_commons_older (Services_older f))"

text \<open>What the older \<open>newCommon\<close> establishes.\<close>

definition fullname_older :: "string \<Rightarrow> common \<Rightarrow> bool" where
  "fullname_older pkg c =
     ((HasPrefix (LongName c) ''.'' \<longrightarrow> FullName c = LongName c) \<and>
      (\<not> HasPrefix (LongName c) ''.'' \<longrightarrow> FullName c = pkg @ ''.'' @ LongName c))"

section \<open>Loops and strings\<close>

lemma length_range_from [simp]: "length (range_from i body xs) = length xs"
  by (induction xs arbitrary: i) auto

lemma nth_range_from: "k < length xs \<Longrightarrow> range_from i body xs ! k = body (i + k) (xs ! k)"
proof (induction xs arbitrary: i k)
  case Nil
  then show ?case by simp
next
  case (Cons x xs)
  then show ?case by (cases k) auto
qed

lemma in_range_fromE:
  assumes "y \<in> set (range_from i body xs)"
  obtains k where "k < length xs" and "y = body (i + k) (xs ! k)"
  using assms by (metis in_set_conv_nth length_range_from nth_range_from)

lemma HasPrefix_dot: "HasPrefix s ''.'' \<longleftrightarrow> (\<exists>t. s = CHR ''.'' # t)"
  by (cases s) (auto simp: HasPrefix_def)

lemma Contains_iff: "Contains s sub \<longleftrightarrow> substring_of sub s"
proof (induction s)
  case Nil
  then show ?case by (auto simp: substring_of_def)
next
  case (Cons c s)
  have "substring_of sub (c # s) \<longleftrightarrow> HasPrefix (c # s) sub \<or> substring_of sub s"
  proof
    assume "substring_of sub (c # s)"
    then obtain pre post where e: "c # s = pre @ sub @ post" by (auto simp: substring_of_def)
    show "HasPrefix (c # s) sub \<or> substring_of sub s"
    proof (cases pre)
      case Nil
      then show ?thesis using e by (simp add: HasPrefix_def)
    next
      case (Cons a pre')
      then have "s = pre' @ sub @ post" using e by simp
      then show ?thesis by (auto simp: substring_of_def)
    qed
  next
    assume "HasPrefix (c # s) sub \<or> substring_of sub s"
    then show "substring_of sub (c # s)"
    proof
      assume "HasPrefix (c # s) sub"
      then have "c # s = [] @ sub @ drop (length sub) (c # s)"
        unfolding HasPrefix_def by (metis append_Nil append_take_drop_id)
      then show ?thesis unfolding substring_of_def by blast
    next
      assume "substring_of sub s"
      then obtain pre post where "s = pre @ sub @ post" by (auto simp: substring_of_def)
      then have "c # s = (c # pre) @ sub @ post" by simp
      then show ?thesis unfolding substring_of_def by blast
    qed
  qed
  with Cons show ?case by simp
qed

lemma Split_not_Nil [simp]: "Split s sep \<noteq> []"
  by (induction s) (auto split: list.splits)

lemma Split_single: "Split s sep = [p] \<longleftrightarrow> sep \<notin> set s \<and> p = s"
proof (induction s arbitrary: p)
  case Nil
  then show ?case by auto
next
  case (Cons c s)
  then show ?case by (cases "Split s sep") (auto split: list.splits)
qed

lemma last_Split: "last (Split s sep) = rev (takeWhile (\<lambda>c. c \<noteq> sep) (rev s))"
proof (induction s)
  case Nil
  then show ?case by simp
next
  case (Cons c s)
  show ?case
  proof (cases "c = sep")
    case True
    then show ?thesis using Cons by (simp add: takeWhile_append)
  next
    case False
    obtain p ps where sp: "Split s sep = p # ps" by (cases "Split s sep") auto
    show ?thesis
    proof (cases "ps = []")
      case True
      with sp have "sep \<notin> set s" "p = s" using Split_single[of s sep p] by auto
      then show ?thesis using False sp True by (simp add: takeWhile_append)
    next
      case False2: False
      then have "sep \<in> set s" using sp Split_single[of s sep s] by auto
      then show ?thesis using False sp False2 Cons by (auto simp: takeWhile_append)
    qed
  qed
qed

section \<open>What each builder stores\<close>

lemma tags:
  "Itoa messageCommentPath = ''4''" "Itoa enumCommentPath = ''5''"
  "Itoa serviceCommentPath = ''6''" "Itoa extensionCommentPath = ''7''"
  "Itoa messageFieldCommentPath = ''2''" "Itoa messageMessageCommentPath = ''3''"
  "Itoa messageEnumCommentPath = ''4''" "Itoa messageExtensionCommentPath = ''6''"
  "Itoa enumValueCommentPath = ''2''" "Itoa serviceMethodCommentPath = ''2''"
  by (simp_all add: messageCommentPath_def enumCommentPath_def serviceCommentPath_def
      extensionCommentPath_def messageFieldCommentPath_def messageMessageCommentPath_def
      messageEnumCommentPath_def messageExtensionCommentPath_def enumValueCommentPath_def
      serviceMethodCommentPath_def Itoa.simps digit_char_def)

lemma parseMessage_sel:
  "msg_common (parseMessage f parent i md) =
     newCommon f (case parent of None \<Rightarrow> ''4.'' @ Itoa i | Some p \<Rightarrow> path p @ ''.3.'' @ Itoa i)
       (case parent of None \<Rightarrow> dp_name md | Some p \<Rightarrow> GetLongName p @ ''.'' @ dp_name md)"
  "msg_desc (parseMessage f parent i md) = md"
  "msg_Parent (parseMessage f parent i md) = parent"
  "msg_Comments (parseMessage f parent i md) =
     Comments_Get (comments f)
       (case parent of None \<Rightarrow> ''4.'' @ Itoa i | Some p \<Rightarrow> path p @ ''.3.'' @ Itoa i)"
  "msg_Enums (parseMessage f parent i md) =
     parseEnums f (Some (msg_common (parseMessage f parent i md))) (dp_enum_type md)"
  "msg_Extensions (parseMessage f parent i md) =
     parseExtensions f (Some (msg_common (parseMessage f parent i md))) (dp_extension md)"
  "msg_Fields (parseMessage f parent i md) =
     parseMessageFields f (msg_common (parseMessage f parent i md)) (dp_field md)"
  "msg_Messages (parseMessage f parent i md) =
     parseMessages_from f (Some (msg_common (parseMessage f parent i md))) 0 (dp_nested_type md)"
  by (cases md; cases parent; simp add: Let_def tags)+

lemma length_parseMessages_from [simp]: "length (parseMessages_from f parent i mds) = length mds"
  by (induction mds arbitrary: i) auto

lemma nth_parseMessages_from:
  "k < length mds \<Longrightarrow> parseMessages_from f parent i mds ! k = parseMessage f parent (i + k) (mds ! k)"
proof (induction mds arbitrary: i k)
  case Nil
  then show ?case by simp
next
  case (Cons md mds)
  then show ?case by (cases k) auto
qed

lemma message_tree_unfold: "message_tree M = M # concat (map message_tree (msg_Messages M))"
  by (cases M) simp

lemma message_tree_parsed:
  "\<forall>M \<in> set (message_tree (parseMessage f parent i md)). \<exists>p j d. M = parseMessage f p j d"
  "\<forall>m \<in> set (parseMessages_from f parent i mds). \<forall>M \<in> set (message_tree m).
     \<exists>p j d. M = parseMessage f p j d"
proof (induction f parent i md and f parent i mds rule: parseMessage_parseMessages_from.induct)
  case (1 f parent i nm flds nested ens exts me)
  let ?md = "DescriptorProto nm flds nested ens exts me"
  let ?M = "parseMessage f parent i ?md"
  have sub: "\<forall>m \<in> set (msg_Messages ?M). \<forall>M \<in> set (message_tree m).
     \<exists>p j d. M = parseMessage f p j d"
    using 1[OF refl refl refl refl] by (simp add: Let_def)
  have "\<exists>p j d. ?M = parseMessage f p j d"
    by blast
  with sub show ?case
    by (subst message_tree_unfold) (auto simp del: parseMessage.simps)
next
  case (2 f parent i)
  then show ?case by simp
next
  case (3 f parent i md mds)
  then show ?case by simp
qed

lemma newCommon_sel [simp]:
  "file' (newCommon f p ln) = File_GetName f"
  "path (newCommon f p ln) = p"
  "LongName (newCommon f p ln) = ln"
  by (simp_all add: newCommon_def Let_def)

lemma parseEnumValues_nth:
  assumes "i < length protos"
  shows "path (val_common (parseEnumValues f e protos ! i)) = []"
    and "LongName (val_common (parseEnumValues f e protos ! i)) =
           LongName e @ ''.'' @ evp_name (protos ! i)"
    and "val_Comments (parseEnumValues f e protos ! i) =
           Comments_Get (comments f) (path e @ ''.2.'' @ Itoa i)"
    and "val_desc (parseEnumValues f e protos ! i) = protos ! i"
    and "val_Enum (parseEnumValues f e protos ! i) = e"
  using assms by (simp_all add: parseEnumValues_def nth_range_from Let_def tags GetLongName_def)

lemma parseEnums_nth:
  assumes "i < length protos"
  shows "path (enum_common (parseEnums f parent protos ! i)) =
           (case parent of None \<Rightarrow> ''5.'' @ Itoa i | Some p \<Rightarrow> path p @ ''.4.'' @ Itoa i)"
    and "LongName (enum_common (parseEnums f parent protos ! i)) =
           (case parent of None \<Rightarrow> edp_name (protos ! i)
            | Some p \<Rightarrow> LongName p @ ''.'' @ edp_name (protos ! i))"
    and "enum_Comments (parseEnums f parent protos ! i) =
           Comments_Get (comments f)
             (case parent of None \<Rightarrow> ''5.'' @ Itoa i | Some p \<Rightarrow> path p @ ''.4.'' @ Itoa i)"
    and "enum_Values (parseEnums f parent protos ! i) =
           parseEnumValues f (enum_common (parseEnums f parent protos ! i)) (edp_value (protos ! i))"
    and "enum_desc (parseEnums f parent protos ! i) = protos ! i"
    and "enum_Parent (parseEnums f parent protos ! i) = parent"
  using assms
  by (simp_all add: parseEnums_def nth_range_from Let_def tags GetLongName_def split: option.splits)

lemma parseExtensions_nth:
  assumes "i < length protos"
  shows "path (ext_common (parseExtensions f parent protos ! i)) =
           (case parent of None \<Rightarrow> ''7.'' @ Itoa i | Some p \<Rightarrow> path p @ ''.6.'' @ Itoa i)"
    and "LongName (ext_common (parseExtensions f parent protos ! i)) =
           (if Contains (fdp_extendee (protos ! i) @ ''.'' @ fdp_name (protos ! i)) (File_GetPackage f)
            then last (Split (fdp_extendee (protos ! i)) CHR ''.'') @ ''.'' @ fdp_name (protos ! i)
            else fdp_extendee (protos ! i) @ ''.'' @ fdp_name (protos ! i))"
    and "ext_Comments (parseExtensions f parent protos ! i) =
           Comments_Get (comments f)
             (case parent of None \<Rightarrow> ''7.'' @ Itoa i | Some p \<Rightarrow> path p @ ''.6.'' @ Itoa i)"
    and "ext_desc (parseExtensions f parent protos ! i) = protos ! i"
    and "ext_Parent (parseExtensions f parent protos ! i) = parent"
  using assms
  by (simp_all add: parseExtensions_def nth_range_from Let_def tags split: option.splits)

lemma parseMessageFields_nth:
  assumes "i < length protos"
  shows "path (fld_common (parseMessageFields f m protos ! i)) = []"
    and "LongName (fld_common (parseMessageFields f m protos ! i)) =
           LongName m @ ''.'' @ fdp_name (protos ! i)"
    and "fld_Comments (parseMessageFields f m protos ! i) =
           Comments_Get (comments f) (path m @ ''.2.'' @ Itoa i)"
    and "fld_desc (parseMessageFields f m protos ! i) = protos ! i"
    and "fld_Message (parseMessageFields f m protos ! i) = m"
  using assms by (simp_all add: parseMessageFields_def nth_range_from Let_def tags GetLongName_def)

lemma parseServiceMethods_nth:
  assumes "i < length protos"
  shows "path (mth_common (parseServiceMethods f s protos ! i)) = []"
    and "LongName (mth_common (parseServiceMethods f s protos ! i)) =
           LongName s @ ''.'' @ mdp_name (protos ! i)"
    and "mth_Comments (parseServiceMethods f s protos ! i) =
           Comments_Get (comments f) (path s @ ''.2.'' @ Itoa i)"
    and "mth_desc (parseServiceMethods f s protos ! i) = protos ! i"
    and "mth_Service (parseServiceMethods f s protos ! i) = s"
    and "mth_InputType (parseServiceMethods f s protos ! i) =
           File_GetMessage f (mdp_input_type (protos ! i))"
    and "mth_OutputType (parseServiceMethods f s protos ! i) =
           File_GetMessage f (mdp_output_type (protos ! i))"
  using assms by (simp_all add: parseServiceMethods_def nth_range_from Let_def tags GetLongName_def)

lemma parseServices_nth:
  assumes "i < length protos"
  shows "path (svc_common (parseServices f protos ! i)) = ''6.'' @ Itoa i"
    and "LongName (svc_common (parseServices f protos ! i)) = sdp_name (protos ! i)"
    and "svc_Comments (parseServices f protos ! i) = Comments_Get (comments f) (''6.'' @ Itoa i)"
    and "svc_Methods (parseServices f protos ! i) =
           parseServiceMethods f (svc_common (parseServices f protos ! i)) (sdp_method (protos ! i))"
    and "svc_desc (parseServices f protos ! i) = protos ! i"
  using assms by (simp_all add: parseServices_def nth_range_from Let_def tags)

lemma length_builders [simp]:
  "length (parseEnumValues f e vs) = length vs"
  "length (parseEnums f parent es) = length es"
  "length (parseExtensions f parent xs) = length xs"
  "length (parseMessageFields f m fs) = length fs"
  "length (parseServiceMethods f s ms) = length ms"
  "length (parseServices f ss) = length ss"
  "length (parseMessages f parent mds) = length mds"
  by (simp_all add: parseEnumValues_def parseEnums_def parseExtensions_def parseMessageFields_def
      parseServiceMethods_def parseServices_def parseMessages_def)

section \<open>The stages of \<open>parseFile\<close>\<close>

text \<open>
  \<open>parseFile\<close> hands the file under construction to each builder: all of them see
  the proto and the comment index of the file, and \<open>parseServices\<close> sees the
  finished top-level messages.
\<close>

lemma parseFile_fields:
  assumes "parseFile allFilesMap fd = Inr F"
  shows "\<exists>f0 f1 f2 f3. desc f0 = fd \<and> desc f1 = fd \<and> desc f2 = fd \<and> desc f3 = fd \<and> desc F = fd
     \<and> comments f0 = ParseComments fd \<and> comments f1 = ParseComments fd
     \<and> comments f2 = ParseComments fd \<and> comments f3 = ParseComments fd
     \<and> Messages f3 = Messages F
     \<and> Enums F = parseEnums f0 None (file_enum_type fd)
     \<and> Extensions F = parseExtensions f1 None (file_extension fd)
     \<and> Messages F = parseMessages f2 None (file_message_type fd)
     \<and> Services F = parseServices f3 (file_service fd)"
proof -
  define f0 where "f0 = \<lparr>comments = ParseComments fd, desc = fd,
                   PackageComments = Comments_Get (ParseComments fd) (Itoa packageCommentPath),
                   SyntaxComments = Comments_Get (ParseComments fd) (Itoa syntaxCommentPath),
                   Enums = [], Extensions = [], Imports = [], Messages = [], Services = [],
                   Dependencies = [], PublicDependencies = [], IsFileToGenerate = False\<rparr>"
  define f1 where "f1 = f0\<lparr>Enums := parseEnums f0 None (file_enum_type fd)\<rparr>"
  define f2 where "f2 = f1\<lparr>Extensions := parseExtensions f1 None (file_extension fd)\<rparr>"
  define f3 where "f3 = f2\<lparr>Messages := parseMessages f2 None (file_message_type fd)\<rparr>"
  from assms obtain pubs where
    F: "F = f3\<lparr>Services := parseServices f3 (file_service fd),
              Dependencies := map (file_pointer allFilesMap) (file_dependency fd),
              PublicDependencies := pubs\<rparr>"
    unfolding parseFile_def Let_def f0_def f1_def f2_def f3_def
    by (auto split: sum.splits)
  have "desc f0 = fd \<and> desc f1 = fd \<and> desc f2 = fd \<and> desc f3 = fd \<and> desc F = fd
     \<and> comments f0 = ParseComments fd \<and> comments f1 = ParseComments fd
     \<and> comments f2 = ParseComments fd \<and> comments f3 = ParseComments fd
     \<and> Messages f3 = Messages F
     \<and> Enums F = parseEnums f0 None (file_enum_type fd)
     \<and> Extensions F = parseExtensions f1 None (file_extension fd)
     \<and> Messages F = parseMessages f2 None (file_message_type fd)
     \<and> Services F = parseServices f3 (file_service fd)"
    unfolding F f3_def f2_def f1_def by (simp add: f0_def)
  then show ?thesis by blast
qed

lemma parseFile_entities:
  assumes "parseFile allFilesMap fd = Inr F"
  shows "desc F = fd" and "comments F = ParseComments fd"
    and "\<exists>f. file_context fd f \<and> Enums F = parseEnums f None (file_enum_type fd)"
    and "\<exists>f. file_context fd f \<and> Extensions F = parseExtensions f None (file_extension fd)"
    and "\<exists>f. file_context fd f \<and> Messages F = parseMessages_from f None 0 (file_message_type fd)"
    and "\<exists>f. file_context fd f \<and> Messages f = Messages F
           \<and> Services F = parseServices f (file_service fd)"
    and "Dependencies F = map (file_pointer allFilesMap) (file_dependency fd)"
    and "Imports F = []" and "\<not> IsFileToGenerate F"
proof -
  define f0 where "f0 = \<lparr>comments = ParseComments fd, desc = fd,
                   PackageComments = Comments_Get (ParseComments fd) (Itoa packageCommentPath),
                   SyntaxComments = Comments_Get (ParseComments fd) (Itoa syntaxCommentPath),
                   Enums = [], Extensions = [], Imports = [], Messages = [], Services = [],
                   Dependencies = [], PublicDependencies = [], IsFileToGenerate = False\<rparr>"
  define f1 where "f1 = f0\<lparr>Enums := parseEnums f0 None (file_enum_type fd)\<rparr>"
  define f2 where "f2 = f1\<lparr>Extensions := parseExtensions f1 None (file_extension fd)\<rparr>"
  define f3 where "f3 = f2\<lparr>Messages := parseMessages f2 None (file_message_type fd)\<rparr>"
  from assms obtain pubs where
    F: "F = f3\<lparr>Services := parseServices f3 (file_service fd),
              Dependencies := map (file_pointer allFilesMap) (file_dependency fd),
              PublicDependencies := pubs\<rparr>"
    unfolding parseFile_def Let_def f0_def f1_def f2_def f3_def
    by (auto split: sum.splits)
  have c: "file_context fd f0" "file_context fd f1" "file_context fd f2" "file_context fd f3"
    unfolding file_context_def f3_def f2_def f1_def by (simp_all add: f0_def)
  show "desc F = fd" "comments F = ParseComments fd"
    unfolding F f3_def f2_def f1_def by (simp_all add: f0_def)
  show "Dependencies F = map (file_pointer allFilesMap) (file_dependency fd)"
    "Imports F = []" "\<not> IsFileToGenerate F"
    unfolding F f3_def f2_def f1_def by (simp_all add: f0_def)
  have "Enums F = parseEnums f0 None (file_enum_type fd)"
    unfolding F f3_def f2_def f1_def by simp
  with c show "\<exists>f. file_context fd f \<and> Enums F = parseEnums f None (file_enum_type fd)"
    by blast
  have "Extensions F = parseExtensions f1 None (file_extension fd)"
    unfolding F f3_def f2_def by simp
  with c show "\<exists>f. file_context fd f \<and> Extensions F = parseExtensions f None (file_extension fd)"
    by blast
  have "Messages F = parseMessages_from f2 None 0 (file_message_type fd)"
    unfolding F f3_def by (simp add: parseMessages_def)
  with c show "\<exists>f. file_context fd f \<and> Messages F = parseMessages_from f None 0 (file_message_type fd)"
    by blast
  have "Messages f3 = Messages F \<and> Services F = parseServices f3 (file_service fd)"
    unfolding F by simp
  with c show "\<exists>f. file_context fd f \<and> Messages f = Messages F
           \<and> Services F = parseServices f (file_service fd)"
    by blast
qed

lemma file_messages_parsed:
  assumes "parseFile allFilesMap fd = Inr F" and "M \<in> set (file_messages F)"
  shows "\<exists>f p j d. file_context fd f \<and> M = parseMessage f p j d"
proof -
  from parseFile_entities(5)[OF assms(1)] obtain f where
    f: "file_context fd f" "Messages F = parseMessages_from f None 0 (file_message_type fd)"
    by blast
  from assms(2) obtain m where "m \<in> set (Messages F)" "M \<in> set (message_tree m)"
    by (auto simp: file_messages_def)
  with f(2) message_tree_parsed(2)[of f None 0 "file_message_type fd"]
  have "\<exists>p j d. M = parseMessage f p j d" by auto
  with f(1) show ?thesis by blast
qed

lemma file_enums_parsed:
  assumes "parseFile allFilesMap fd = Inr F" and "E \<in> set (file_enums F)"
  shows "\<exists>f parent protos i. file_context fd f \<and> i < length protos
           \<and> E = parseEnums f parent protos ! i"
proof -
  from assms(2) consider "E \<in> set (Enums F)"
    | M where "M \<in> set (file_messages F)" "E \<in> set (msg_Enums M)"
    by (auto simp: file_enums_def)
  then show ?thesis
  proof cases
    case 1
    from parseFile_entities(3)[OF assms(1)] obtain f where
      "file_context fd f" "Enums F = parseEnums f None (file_enum_type fd)" by blast
    with 1 show ?thesis
      by (metis in_set_conv_nth length_builders(2))
  next
    case 2
    from file_messages_parsed[OF assms(1) 2(1)] obtain f p j d where
      "file_context fd f" "M = parseMessage f p j d" by blast
    with 2(2) show ?thesis
      by (metis in_set_conv_nth length_builders(2) parseMessage_sel(5))
  qed
qed

lemma file_extensions_parsed:
  assumes "parseFile allFilesMap fd = Inr F" and "X \<in> set (file_extensions F)"
  shows "\<exists>f parent protos i. file_context fd f \<and> i < length protos
           \<and> X = parseExtensions f parent protos ! i"
proof -
  from assms(2) consider "X \<in> set (Extensions F)"
    | M where "M \<in> set (file_messages F)" "X \<in> set (msg_Extensions M)"
    by (auto simp: file_extensions_def)
  then show ?thesis
  proof cases
    case 1
    from parseFile_entities(4)[OF assms(1)] obtain f where
      "file_context fd f" "Extensions F = parseExtensions f None (file_extension fd)" by blast
    with 1 show ?thesis
      by (metis in_set_conv_nth length_builders(3))
  next
    case 2
    from file_messages_parsed[OF assms(1) 2(1)] obtain f p j d where
      "file_context fd f" "M = parseMessage f p j d" by blast
    with 2(2) show ?thesis
      by (metis in_set_conv_nth length_builders(3) parseMessage_sel(6))
  qed
qed

section \<open>Full names\<close>

lemma newCommon_ok: "fullname_ok (File_GetPackage f) (newCommon f p ln)"
  by (cases "File_GetPackage f") (auto simp: fullname_ok_def newCommon_def Let_def HasPrefix_dot)

lemma parseEnumValues_ok:
  "\<forall>v \<in> set (parseEnumValues f e protos). fullname_ok (File_GetPackage f) (val_common v)"
  by (auto simp: parseEnumValues_def Let_def newCommon_ok elim!: in_range_fromE)

lemma parseEnums_ok:
  "\<forall>e \<in> set (parseEnums f parent protos). \<forall>c \<in> set (enum_commons e).
     fullname_ok (File_GetPackage f) c"
  using parseEnumValues_ok
  by (auto simp: parseEnums_def enum_commons_def Let_def newCommon_ok elim!: in_range_fromE)

lemma parseExtensions_ok:
  "\<forall>e \<in> set (parseExtensions f parent protos). fullname_ok (File_GetPackage f) (ext_common e)"
  by (auto simp: parseExtensions_def Let_def newCommon_ok elim!: in_range_fromE)

lemma parseMessageFields_ok:
  "\<forall>x \<in> set (parseMessageFields f m protos). fullname_ok (File_GetPackage f) (fld_common x)"
  by (auto simp: parseMessageFields_def Let_def newCommon_ok elim!: in_range_fromE)

lemma parseMessages_from_ok:
  "\<forall>c \<in> set (message_commons (parseMessage f parent i md)). fullname_ok (File_GetPackage f) c"
  "\<forall>m \<in> set (parseMessages_from f parent i mds). \<forall>c \<in> set (message_commons m).
     fullname_ok (File_GetPackage f) c"
proof (induction f parent i md and f parent i mds rule: parseMessage_parseMessages_from.induct)
  case (1 f parent i nm flds nested ens exts me)
  then show ?case
    using parseEnums_ok parseExtensions_ok parseMessageFields_ok
    by (auto simp: Let_def newCommon_ok)
next
  case (2 f parent i)
  then show ?case by simp
next
  case (3 f parent i md mds)
  then show ?case by simp
qed

lemma parseServices_ok:
  "\<forall>s \<in> set (parseServices f protos). \<forall>c \<in> set (service_commons s).
     fullname_ok (File_GetPackage f) c"
  by (auto simp: parseServices_def parseServiceMethods_def service_commons_def Let_def newCommon_ok
      elim!: in_range_fromE)

lemma full_name_newer:
  assumes "parseFile allFilesMap fd = Inr F" and "c \<in> set (file_commons F)"
  shows "HasPrefix (FullName c) ''.'' \<and>
      (HasPrefix (LongName c) ''.'' \<longrightarrow> FullName c = LongName c) \<and>
      (\<not> HasPrefix (LongName c) ''.'' \<longrightarrow>
         FullName c = (if file_package fd = [] \<or> HasPrefix (file_package fd) ''.''
                       then file_package fd @ ''.'' @ LongName c
                       else ''.'' @ file_package fd @ ''.'' @ LongName c))"
proof -
  from parseFile_fields[OF assms(1)] obtain f0 f1 f2 f3 where
    d: "desc f0 = fd" "desc f1 = fd" "desc f2 = fd" "desc f3 = fd" and
    e: "Enums F = parseEnums f0 None (file_enum_type fd)"
       "Extensions F = parseExtensions f1 None (file_extension fd)"
       "Messages F = parseMessages f2 None (file_message_type fd)"
       "Services F = parseServices f3 (file_service fd)"
    by blast
  have p: "File_GetPackage f0 = file_package fd" "File_GetPackage f1 = file_package fd"
     "File_GetPackage f2 = file_package fd" "File_GetPackage f3 = file_package fd"
    using d by (simp_all add: File_GetPackage_def)
  have "fullname_ok (file_package fd) c"
    using assms(2) parseEnums_ok[of f0 None "file_enum_type fd"]
      parseExtensions_ok[of f1 None "file_extension fd"]
      parseMessages_from_ok(2)[of f2 None 0 "file_message_type fd"]
      parseServices_ok[of f3 "file_service fd"]
    unfolding file_commons_def e p parseMessages_def by auto
  then show ?thesis unfolding fullname_ok_def .
qed

lemma newCommon_older_ok: "fullname_older (File_GetPackage_older f) (newCommon_older f p ln)"
  by (simp add: fullname_older_def newCommon_older_def Let_def)

lemma parseEnumValues_older_ok:
  "\<forall>v \<in> set (parseEnumValues_older f e protos).
     fullname_older (File_GetPackage_older f) (val_common v)"
  by (auto simp: parseEnumValues_older_def Let_def newCommon_older_ok elim!: in_range_fromE)

lemma parseEnums_older_ok:
  "\<forall>e \<in> set (parseEnums_older f parent protos). \<forall>c \<in> set (enum_commons e).
     fullname_older (File_GetPackage_older f) c"
  using parseEnumValues_older_ok
  by (auto simp: parseEnums_older_def enum_commons_def Let_def newCommon_older_ok
      elim!: in_range_fromE)

lemma parseExtensions_older_ok:
  "\<forall>e \<in> set (parseExtensions_older f parent protos).
     fullname_older (File_GetPackage_older f) (ext_common e)"
  by (auto simp: parseExtensions_older_def Let_def newCommon_older_ok elim!: in_range_fromE)

lemma parseMessageFields_older_ok:
  "\<forall>x \<in> set (parseMessageFields_older f m protos).
     fullname_older (File_GetPackage_older f) (fld_common x)"
  by (auto simp: parseMessageFields_older_def Let_def newCommon_older_ok elim!: in_range_fromE)

lemma parseMessages_from_older_ok:
  "\<forall>c \<in> set (message_commons (parseMessage_older f parent i md)).
     fullname_older (File_GetPackage_older f) c"
  "\<forall>m \<in> set (parseMessages_from_older f parent i mds). \<forall>c \<in> set (message_commons m).
     fullname_older (File_GetPackage_older f) c"
proof (induction f parent i md and f parent i mds
    rule: parseMessage_older_parseMessages_from_older.induct)
  case (1 f parent i nm flds nested ens exts me)
  then show ?case
    using parseEnums_older_ok parseExtensions_older_ok parseMessageFields_older_ok
    by (auto simp: Let_def newCommon_older_ok)
next
  case (2 f parent i)
  then show ?case by simp
next
  case (3 f parent i md mds)
  then show ?case by simp
qed

lemma parseServices_older_ok:
  "\<forall>s \<in> set (parseServices_older f protos). \<forall>c \<in> set (service_commons_older s).
     fullname_older (File_GetPackage_older f) c"
  by (auto simp: parseServices_older_def parseServiceMethods_older_def service_commons_older_def
      Let_def newCommon_older_ok elim!: in_range_fromE)

lemma parseFile_older_fields:
  "\<exists>f0 f1 f2 f3. desc_older f0 = fd \<and> desc_older f1 = fd \<and> desc_older f2 = fd \<and> desc_older f3 = fd
     \<and> desc_older (parseFile_older fd) = fd
     \<and> Enums_older (parseFile_older fd) = parseEnums_older f0 None (file_enum_type fd)
     \<and> Extensions_older (parseFile_older fd) = parseExtensions_older f1 None (file_extension fd)
     \<and> Messages_older (parseFile_older fd) = parseMessages_older f2 None (file_message_type fd)
     \<and> Services_older (parseFile_older fd) = parseServices_older f3 (file_service fd)"
proof -
  define f0 where "f0 = \<lparr>comments_older = ParseComments fd, desc_older = fd,
                   Comments_older = Comments_Get (ParseComments fd) (Itoa packageCommentPath),
                   PackageComments_older = Comments_Get (ParseComments fd) (Itoa packageCommentPath),
                   SyntaxComments_older = Comments_Get (ParseComments fd) (Itoa syntaxCommentPath),
                   Enums_older = [], Extensions_older = [], Imports_older = [],
                   Messages_older = [], Services_older = [], IsFileToGenerate_older = False\<rparr>"
  define f1 where "f1 = f0\<lparr>Enums_older := parseEnums_older f0 None (file_enum_type fd)\<rparr>"
  define f2 where "f2 = f1\<lparr>Extensions_older := parseExtensions_older f1 None (file_extension fd)\<rparr>"
  define f3 where "f3 = f2\<lparr>Messages_older := parseMessages_older f2 None (file_message_type fd)\<rparr>"
  have F: "parseFile_older fd = f3\<lparr>Services_older := parseServices_older f3 (file_service fd)\<rparr>"
    unfolding parseFile_older_def Let_def f0_def f1_def f2_def f3_def by simp
  have "desc_older f0 = fd \<and> desc_older f1 = fd \<and> desc_older f2 = fd \<and> desc_older f3 = fd
     \<and> desc_older (parseFile_older fd) = fd
     \<and> Enums_older (parseFile_older fd) = parseEnums_older f0 None (file_enum_type fd)
     \<and> Extensions_older (parseFile_older fd) = parseExtensions_older f1 None (file_extension fd)
     \<and> Messages_older (parseFile_older fd) = parseMessages_older f2 None (file_message_type fd)
     \<and> Services_older (parseFile_older fd) = parseServices_older f3 (file_service fd)"
    unfolding F f3_def f2_def f1_def by (simp add: f0_def)
  then show ?thesis by blast
qed

lemma full_name_older:
  assumes "c \<in> set (file_commons_older (parseFile_older fd))"
  shows "(HasPrefix (LongName c) ''.'' \<longrightarrow> FullName c = LongName c) \<and>
      (\<not> HasPrefix (LongName c) ''.'' \<longrightarrow> FullName c = file_package fd @ ''.'' @ LongName c)"
proof -
  from parseFile_older_fields[of fd] obtain f0 f1 f2 f3 where
    d: "desc_older f0 = fd" "desc_older f1 = fd" "desc_older f2 = fd" "desc_older f3 = fd" and
    e: "Enums_older (parseFile_older fd) = parseEnums_older f0 None (file_enum_type fd)"
       "Extensions_older (parseFile_older fd) = parseExtensions_older f1 None (file_extension fd)"
       "Messages_older (parseFile_older fd) = parseMessages_older f2 None (file_message_type fd)"
       "Services_older (parseFile_older fd) = parseServices_older f3 (file_service fd)"
    by blast
  have p: "File_GetPackage_older f0 = file_package fd" "File_GetPackage_older f1 = file_package fd"
     "File_GetPackage_older f2 = file_package fd" "File_GetPackage_older f3 = file_package fd"
    using d by (simp_all add: File_GetPackage_older_def)
  have "fullname_older (file_package fd) c"
    using assms parseEnums_older_ok[of f0 None "file_enum_type fd"]
      parseExtensions_older_ok[of f1 None "file_extension fd"]
      parseMessages_from_older_ok(2)[of f2 None 0 "file_message_type fd"]
      parseServices_older_ok[of f3 "file_service fd"]
    unfolding file_commons_older_def e p parseMessages_older_def by auto
  then show ?thesis unfolding fullname_older_def .
qed

text \<open>
  C1, as the code has it. The newer \<open>newCommon\<close>: every entity of an assembled file
  (message, enum, enum value, field, extension, service, method, at any depth) has a
  full name that begins with a dot. A long name that begins with a dot is the full name.
  Otherwise the full name is package, dot, long name, and a dot is put in front only
  when that string does not begin with one already: for a package that is neither empty
  nor dot-prefixed the full name is dot, package, dot, long name; for the empty package
  it is dot, long name. The older \<open>newCommon\<close> puts no dot in front: a long name that
  begins with a dot is the full name, and otherwise the full name is package, dot, long
  name.
\<close>

theorem C1_full_name:
  "(\<forall>allFilesMap F c. parseFile allFilesMap fd = Inr F \<longrightarrow> c \<in> set (file_commons F) \<longrightarrow>
      HasPrefix (FullName c) ''.'' \<and>
      (HasPrefix (LongName c) ''.'' \<longrightarrow> FullName c = LongName c) \<and>
      (\<not> HasPrefix (LongName c) ''.'' \<longrightarrow>
         FullName c = (if file_package fd = [] \<or> HasPrefix (file_package fd) ''.''
                       then file_package fd @ ''.'' @ LongName c
                       else ''.'' @ file_package fd @ ''.'' @ LongName c))) \<and>
   (\<forall>c \<in> set (file_commons_older (parseFile_older fd)).
      (HasPrefix (LongName c) ''.'' \<longrightarrow> FullName c = LongName c) \<and>
      (\<not> HasPrefix (LongName c) ''.'' \<longrightarrow> FullName c = file_package fd @ ''.'' @ LongName c))"
  using full_name_newer full_name_older by blast

text \<open>
  The scenario of the spec: package \<open>a.b\<close>, message \<open>M\<close> with nested message \<open>N\<close> with
  field \<open>f\<close>. The field is the last entity of the file; its full name is dot, \<open>a.b\<close>,
  dot, \<open>M.N.f\<close> under the newer \<open>newCommon\<close> and \<open>a.b\<close>, dot, \<open>M.N.f\<close> under the older.
\<close>

theorem C1_full_name_witness:
  "LongName (last (file_commons (projr (parseFile []
         \<lparr>file_name = ''x.proto'', file_package = ''a.b'', file_dependency = [],
          file_public_dependency = [],
          file_message_type = [DescriptorProto ''M'' []
             [DescriptorProto ''N'' [\<lparr>fdp_name = ''f'', fdp_extendee = []\<rparr>] [] [] [] False]
             [] [] False],
          file_enum_type = [], file_service = [], file_extension = [],
          file_syntax = ''proto3'', file_source_code_info = []\<rparr>)))) = ''M.N.f''
   \<and> FullName (last (file_commons (projr (parseFile []
         \<lparr>file_name = ''x.proto'', file_package = ''a.b'', file_dependency = [],
          file_public_dependency = [],
          file_message_type = [DescriptorProto ''M'' []
             [DescriptorProto ''N'' [\<lparr>fdp_name = ''f'', fdp_extendee = []\<rparr>] [] [] [] False]
             [] [] False],
          file_enum_type = [], file_service = [], file_extension = [],
          file_syntax = ''proto3'', file_source_code_info = []\<rparr>))))
       = ''.'' @ ''a.b'' @ ''.'' @ LongName (last (file_commons (projr (parseFile []
         \<lparr>file_name = ''x.proto'', file_package = ''a.b'', file_dependency = [],
          file_public_dependency = [],
          file_message_type = [DescriptorProto ''M'' []
             [DescriptorProto ''N'' [\<lparr>fdp_name = ''f'', fdp_extendee = []\<rparr>] [] [] [] False]
             [] [] False],
          file_enum_type = [], file_service = [], file_extension = [],
          file_syntax = ''proto3'', file_source_code_info = []\<rparr>))))
   \<and> LongName (last (file_commons_older (parseFile_older
         \<lparr>file_name = ''x.proto'', file_package = ''a.b'', file_dependency = [],
          file_public_dependency = [],
          file_message_type = [DescriptorProto ''M'' []
             [DescriptorProto ''N'' [\<lparr>fdp_name = ''f'', fdp_extendee = []\<rparr>] [] [] [] False]
             [] [] False],
          file_enum_type = [], file_service = [], file_extension = [],
          file_syntax = ''proto3'', file_source_code_info = []\<rparr>))) = ''M.N.f''
   \<and> FullName (last (file_commons_older (parseFile_older
         \<lparr>file_name = ''x.proto'', file_package = ''a.b'', file_dependency = [],
          file_public_dependency = [],
          file_message_type = [DescriptorProto ''M'' []
             [DescriptorProto ''N'' [\<lparr>fdp_name = ''f'', fdp_extendee = []\<rparr>] [] [] [] False]
             [] [] False],
          file_enum_type = [], file_service = [], file_extension = [],
          file_syntax = ''proto3'', file_source_code_info = []\<rparr>)))
       = ''a.b'' @ ''.'' @ LongName (last (file_commons_older (parseFile_older
         \<lparr>file_name = ''x.proto'', file_package = ''a.b'', file_dependency = [],
          file_public_dependency = [],
          file_message_type = [DescriptorProto ''M'' []
             [DescriptorProto ''N'' [\<lparr>fdp_name = ''f'', fdp_extendee = []\<rparr>] [] [] [] False]
             [] [] False],
          file_enum_type = [], file_service = [], file_extension = [],
          file_syntax = ''proto3'', file_source_code_info = []\<rparr>)))"
proof -
  let ?fd = "\<lparr>file_name = ''x.proto'', file_package = ''a.b'', file_dependency = [],
          file_public_dependency = [],
          file_message_type = [DescriptorProto ''M'' []
             [DescriptorProto ''N'' [\<lparr>fdp_name = ''f'', fdp_extendee = []\<rparr>] [] [] [] False]
             [] [] False],
          file_enum_type = [], file_service = [], file_extension = [],
          file_syntax = ''proto3'', file_source_code_info = []\<rparr>"
  let ?c = "last (file_commons (projr (parseFile [] ?fd)))"
  let ?c' = "last (file_commons_older (parseFile_older ?fd))"
  have "\<not> isl (parseFile [] ?fd)"
    by code_simp
  then have 1: "parseFile [] ?fd = Inr (projr (parseFile [] ?fd))"
    by simp
  have 2: "?c \<in> set (file_commons (projr (parseFile [] ?fd)))"
    and o2: "?c' \<in> set (file_commons_older (parseFile_older ?fd))"
    by code_simp+
  have 3: "\<not> HasPrefix (LongName ?c) ''.''" and o3: "\<not> HasPrefix (LongName ?c') ''.''"
    by code_simp+
  have 4: "\<not> (''a.b'' = [] \<or> HasPrefix ''a.b'' ''.'')"
    by (simp add: HasPrefix_def)
  have 5: "file_package ?fd = ''a.b''"
    by simp
  have 6: "LongName ?c = ''M.N.f''" and o6: "LongName ?c' = ''M.N.f''"
    by code_simp+
  note n = C1_full_name[of ?fd, THEN conjunct1, THEN spec, THEN spec, THEN spec, THEN mp, OF 1,
      THEN mp, OF 2, THEN conjunct2, THEN conjunct2, THEN mp, OF 3, unfolded 5, unfolded if_not_P[OF 4]]
  note o = C1_full_name[of ?fd, THEN conjunct2, THEN bspec, OF o2, THEN conjunct2, THEN mp, OF o3,
      unfolded 5]
  show ?thesis
    using 6 n o6 o by (intro conjI)
qed

text \<open>
  C1 as the spec words it fails under both bodies. Under the newer \<open>newCommon\<close> the
  message \<open>M\<close> of a file without a package has the full name \<open>.M\<close>, which is not dot,
  package, dot, long name. Under the older \<open>newCommon\<close> the message \<open>M\<close> of a file of
  package \<open>a.b\<close> has the full name \<open>a.b.M\<close>, which does not begin with a dot.
\<close>

theorem C1_counterexample:
  "\<not> isl (parseFile []
       \<lparr>file_name = ''x.proto'', file_package = '''', file_dependency = [],
        file_public_dependency = [],
        file_message_type = [DescriptorProto ''M'' [] [] [] [] False],
        file_enum_type = [], file_service = [], file_extension = [],
        file_syntax = ''proto3'', file_source_code_info = []\<rparr>) \<and>
   map LongName (file_commons (projr (parseFile []
       \<lparr>file_name = ''x.proto'', file_package = '''', file_dependency = [],
        file_public_dependency = [],
        file_message_type = [DescriptorProto ''M'' [] [] [] [] False],
        file_enum_type = [], file_service = [], file_extension = [],
        file_syntax = ''proto3'', file_source_code_info = []\<rparr>))) = [''M''] \<and>
   map FullName (file_commons (projr (parseFile []
       \<lparr>file_name = ''x.proto'', file_package = '''', file_dependency = [],
        file_public_dependency = [],
        file_message_type = [DescriptorProto ''M'' [] [] [] [] False],
        file_enum_type = [], file_service = [], file_extension = [],
        file_syntax = ''proto3'', file_source_code_info = []\<rparr>))) = [''.M''] \<and>
   ''.M'' \<noteq> ''.'' @ '''' @ ''.'' @ ''M'' \<and>
   map LongName (file_commons_older (parseFile_older
       \<lparr>file_name = ''x.proto'', file_package = ''a.b'', file_dependency = [],
        file_public_dependency = [],
        file_message_type = [DescriptorProto ''M'' [] [] [] [] False],
        file_enum_type = [], file_service = [], file_extension = [],
        file_syntax = ''proto3'', file_source_code_info = []\<rparr>)) = [''M''] \<and>
   map FullName (file_commons_older (parseFile_older
       \<lparr>file_name = ''x.proto'', file_package = ''a.b'', file_dependency = [],
        file_public_dependency = [],
        file_message_type = [DescriptorProto ''M'' [] [] [] [] False],
        file_enum_type = [], file_service = [], file_extension = [],
        file_syntax = ''proto3'', file_source_code_info = []\<rparr>)) = [''a.b.M''] \<and>
   \<not> HasPrefix ''a.b.M'' ''.''"
  by code_simp

section \<open>Long names of extensions\<close>

lemma last_segment_Split: "last (Split s CHR ''.'') = last_segment s"
  by (simp add: last_Split last_segment_def)

text \<open>
  C6. For every extension of an assembled file, at the top level or inside a message:
  the long name is extendee, dot, name, unless the package of the file is a substring
  of that string; then it is the last dot-separated segment of the extendee, dot, name.
\<close>

theorem C6_extension_long_name:
  assumes "parseFile allFilesMap fd = Inr F" and "X \<in> set (file_extensions F)"
  shows "LongName (ext_common X) =
     (if substring_of (file_package fd) (fdp_extendee (ext_desc X) @ ''.'' @ Extension_GetName X)
      then last_segment (fdp_extendee (ext_desc X)) @ ''.'' @ Extension_GetName X
      else fdp_extendee (ext_desc X) @ ''.'' @ Extension_GetName X)"
proof -
  from file_extensions_parsed[OF assms] obtain f parent protos i where
    f: "file_context fd f" and i: "i < length protos" and X: "X = parseExtensions f parent protos ! i"
    by blast
  have "File_GetPackage f = file_package fd"
    using f by (simp add: file_context_def File_GetPackage_def)
  then show ?thesis
    unfolding X Extension_GetName_def
    by (simp add: parseExtensions_nth[OF i] Contains_iff last_segment_Split)
qed

text \<open>
  The scenario of the spec: the extension \<open>ext\<close> of \<open>a.b.Base\<close>, declared in package
  \<open>a.b\<close>, has the long name \<open>Base.ext\<close>.
\<close>

theorem C6_extension_long_name_witness:
  "hd (Extensions (projr (parseFile []
       \<lparr>file_name = ''x.proto'', file_package = ''a.b'', file_dependency = [],
        file_public_dependency = [], file_message_type = [], file_enum_type = [],
        file_service = [],
        file_extension = [\<lparr>fdp_name = ''ext'', fdp_extendee = ''a.b.Base''\<rparr>],
        file_syntax = ''proto2'', file_source_code_info = []\<rparr>)))
     \<in> set (file_extensions (projr (parseFile []
       \<lparr>file_name = ''x.proto'', file_package = ''a.b'', file_dependency = [],
        file_public_dependency = [], file_message_type = [], file_enum_type = [],
        file_service = [],
        file_extension = [\<lparr>fdp_name = ''ext'', fdp_extendee = ''a.b.Base''\<rparr>],
        file_syntax = ''proto2'', file_source_code_info = []\<rparr>)))
   \<and> LongName (ext_common (hd (Extensions (projr (parseFile []
       \<lparr>file_name = ''x.proto'', file_package = ''a.b'', file_dependency = [],
        file_public_dependency = [], file_message_type = [], file_enum_type = [],
        file_service = [],
        file_extension = [\<lparr>fdp_name = ''ext'', fdp_extendee = ''a.b.Base''\<rparr>],
        file_syntax = ''proto2'', file_source_code_info = []\<rparr>))))) = ''Base.ext''"
proof -
  let ?fd = "\<lparr>file_name = ''x.proto'', file_package = ''a.b'', file_dependency = [],
        file_public_dependency = [], file_message_type = [], file_enum_type = [],
        file_service = [],
        file_extension = [\<lparr>fdp_name = ''ext'', fdp_extendee = ''a.b.Base''\<rparr>],
        file_syntax = ''proto2'', file_source_code_info = []\<rparr>"
  let ?X = "hd (Extensions (projr (parseFile [] ?fd)))"
  have "\<not> isl (parseFile [] ?fd)"
    by code_simp
  then have 1: "parseFile [] ?fd = Inr (projr (parseFile [] ?fd))"
    by simp
  have 2: "?X \<in> set (file_extensions (projr (parseFile [] ?fd)))"
    by code_simp
  have 3: "ext_desc ?X = \<lparr>fdp_name = ''ext'', fdp_extendee = ''a.b.Base''\<rparr>"
    by code_simp
  have 4: "substring_of ''a.b'' ''a.b.Base.ext''"
    unfolding Contains_iff[symmetric] by code_simp
  have 5: "last_segment ''a.b.Base'' = ''Base''"
    by code_simp
  show ?thesis
    using 2 C6_extension_long_name[OF 1 2] 4 5 by (simp add: 3 Extension_GetName_def)
qed

section \<open>Comments and their paths\<close>

lemma Comments_Get_Some [simp]: "Comments_Get c p \<noteq> None"
  by (simp add: Comments_Get_def split: option.splits)

lemma comment_paths_top:
  assumes "parseFile allFilesMap fd = Inr F"
  shows "\<forall>i<length (Messages F).
           path (msg_common (Messages F ! i)) = ''4.'' @ Itoa i \<and>
           msg_Comments (Messages F ! i) = Comments_Get (comments F) (''4.'' @ Itoa i)"
    and "\<forall>i<length (Enums F).
           path (enum_common (Enums F ! i)) = ''5.'' @ Itoa i \<and>
           enum_Comments (Enums F ! i) = Comments_Get (comments F) (''5.'' @ Itoa i)"
    and "\<forall>i<length (Services F).
           path (svc_common (Services F ! i)) = ''6.'' @ Itoa i \<and>
           svc_Comments (Services F ! i) = Comments_Get (comments F) (''6.'' @ Itoa i)"
    and "\<forall>i<length (Extensions F).
           path (ext_common (Extensions F ! i)) = ''7.'' @ Itoa i \<and>
           ext_Comments (Extensions F ! i) = Comments_Get (comments F) (''7.'' @ Itoa i)"
proof -
  note e = parseFile_entities[OF assms]
  from e(5) obtain f where "file_context fd f"
    "Messages F = parseMessages_from f None 0 (file_message_type fd)" by blast
  then show "\<forall>i<length (Messages F).
           path (msg_common (Messages F ! i)) = ''4.'' @ Itoa i \<and>
           msg_Comments (Messages F ! i) = Comments_Get (comments F) (''4.'' @ Itoa i)"
    using e(2) by (simp add: nth_parseMessages_from parseMessage_sel file_context_def)
  from e(3) obtain f where "file_context fd f"
    "Enums F = parseEnums f None (file_enum_type fd)" by blast
  then show "\<forall>i<length (Enums F).
           path (enum_common (Enums F ! i)) = ''5.'' @ Itoa i \<and>
           enum_Comments (Enums F ! i) = Comments_Get (comments F) (''5.'' @ Itoa i)"
    using e(2) by (simp add: parseEnums_nth file_context_def)
  from e(6) obtain f where "file_context fd f"
    "Services F = parseServices f (file_service fd)" by blast
  then show "\<forall>i<length (Services F).
           path (svc_common (Services F ! i)) = ''6.'' @ Itoa i \<and>
           svc_Comments (Services F ! i) = Comments_Get (comments F) (''6.'' @ Itoa i)"
    using e(2) by (simp add: parseServices_nth file_context_def)
  from e(4) obtain f where "file_context fd f"
    "Extensions F = parseExtensions f None (file_extension fd)" by blast
  then show "\<forall>i<length (Extensions F).
           path (ext_common (Extensions F ! i)) = ''7.'' @ Itoa i \<and>
           ext_Comments (Extensions F ! i) = Comments_Get (comments F) (''7.'' @ Itoa i)"
    using e(2) by (simp add: parseExtensions_nth file_context_def)
qed

lemma comment_paths_message:
  assumes "parseFile allFilesMap fd = Inr F" and "M \<in> set (file_messages F)"
  shows "\<forall>i<length (msg_Fields M).
           path (fld_common (msg_Fields M ! i)) = [] \<and>
           fld_Comments (msg_Fields M ! i) =
             Comments_Get (comments F) (path (msg_common M) @ ''.2.'' @ Itoa i)"
    and "\<forall>i<length (msg_Messages M).
           path (msg_common (msg_Messages M ! i)) = path (msg_common M) @ ''.3.'' @ Itoa i \<and>
           msg_Comments (msg_Messages M ! i) =
             Comments_Get (comments F) (path (msg_common M) @ ''.3.'' @ Itoa i)"
    and "\<forall>i<length (msg_Enums M).
           path (enum_common (msg_Enums M ! i)) = path (msg_common M) @ ''.4.'' @ Itoa i \<and>
           enum_Comments (msg_Enums M ! i) =
             Comments_Get (comments F) (path (msg_common M) @ ''.4.'' @ Itoa i)"
    and "\<forall>i<length (msg_Extensions M).
           path (ext_common (msg_Extensions M ! i)) = path (msg_common M) @ ''.6.'' @ Itoa i \<and>
           ext_Comments (msg_Extensions M ! i) =
             Comments_Get (comments F) (path (msg_common M) @ ''.6.'' @ Itoa i)"
proof -
  from file_messages_parsed[OF assms] obtain f p j d where
    f: "file_context fd f" and M: "M = parseMessage f p j d" by blast
  have c: "comments f = comments F"
    using f parseFile_entities(2)[OF assms(1)] by (simp add: file_context_def)
  show "\<forall>i<length (msg_Fields M).
           path (fld_common (msg_Fields M ! i)) = [] \<and>
           fld_Comments (msg_Fields M ! i) =
             Comments_Get (comments F) (path (msg_common M) @ ''.2.'' @ Itoa i)"
    unfolding M parseMessage_sel(7) by (simp add: parseMessageFields_nth c)
  show "\<forall>i<length (msg_Messages M).
           path (msg_common (msg_Messages M ! i)) = path (msg_common M) @ ''.3.'' @ Itoa i \<and>
           msg_Comments (msg_Messages M ! i) =
             Comments_Get (comments F) (path (msg_common M) @ ''.3.'' @ Itoa i)"
    unfolding M parseMessage_sel(8)
    by (simp add: nth_parseMessages_from parseMessage_sel(1,4) c)
  show "\<forall>i<length (msg_Enums M).
           path (enum_common (msg_Enums M ! i)) = path (msg_common M) @ ''.4.'' @ Itoa i \<and>
           enum_Comments (msg_Enums M ! i) =
             Comments_Get (comments F) (path (msg_common M) @ ''.4.'' @ Itoa i)"
    unfolding M parseMessage_sel(5) by (simp add: parseEnums_nth c)
  show "\<forall>i<length (msg_Extensions M).
           path (ext_common (msg_Extensions M ! i)) = path (msg_common M) @ ''.6.'' @ Itoa i \<and>
           ext_Comments (msg_Extensions M ! i) =
             Comments_Get (comments F) (path (msg_common M) @ ''.6.'' @ Itoa i)"
    unfolding M parseMessage_sel(6) by (simp add: parseExtensions_nth c)
qed

lemma comment_paths_enum:
  assumes "parseFile allFilesMap fd = Inr F" and "E \<in> set (file_enums F)"
  shows "\<forall>i<length (enum_Values E).
           path (val_common (enum_Values E ! i)) = [] \<and>
           val_Comments (enum_Values E ! i) =
             Comments_Get (comments F) (path (enum_common E) @ ''.2.'' @ Itoa i)"
proof -
  from file_enums_parsed[OF assms] obtain f parent protos k where
    f: "file_context fd f" and k: "k < length protos" and E: "E = parseEnums f parent protos ! k"
    by blast
  have c: "comments f = comments F"
    using f parseFile_entities(2)[OF assms(1)] by (simp add: file_context_def)
  show ?thesis
    unfolding E parseEnums_nth(4)[OF k] by (simp add: parseEnumValues_nth c)
qed

lemma comment_paths_service:
  assumes "parseFile allFilesMap fd = Inr F" and "S \<in> set (Services F)"
  shows "\<forall>i<length (svc_Methods S).
           path (mth_common (svc_Methods S ! i)) = [] \<and>
           mth_Comments (svc_Methods S ! i) =
             Comments_Get (comments F) (path (svc_common S) @ ''.2.'' @ Itoa i)"
proof -
  from parseFile_entities(6)[OF assms(1)] obtain f where
    f: "file_context fd f" and S: "Services F = parseServices f (file_service fd)" by blast
  from assms(2) S obtain k where k: "k < length (file_service fd)"
    and Sk: "S = parseServices f (file_service fd) ! k"
    by (metis in_set_conv_nth length_builders(6))
  have c: "comments f = comments F"
    using f parseFile_entities(2)[OF assms(1)] by (simp add: file_context_def)
  show ?thesis
    unfolding Sk parseServices_nth(4)[OF k] by (simp add: parseServiceMethods_nth c)
qed

text \<open>
  C8, as the code has it. In an assembled file, the entity at index \<open>i\<close> among its
  siblings has this documentation path and comment. At the top level of the file the
  path stored in the entity is tag, dot, \<open>i\<close> (message 4, enum 5, service 6, extension
  7); for a message, an enum or an extension nested in a message it is the path of that
  message, dot, tag, dot, \<open>i\<close> (message 3, enum 4, extension 6); in both cases the comment
  is the entry of the comment index of the file for that path. A field, an enum value
  and a method store the empty path; their comment is the entry of the comment index
  for the path of the message, enum or service that owns them, dot, 2, dot, \<open>i\<close>.
\<close>

theorem C8_comment_paths:
  assumes "parseFile allFilesMap fd = Inr F"
  shows
    "(\<forall>i<length (Messages F).
        path (msg_common (Messages F ! i)) = ''4.'' @ Itoa i \<and>
        Message_GetComments (Messages F ! i) = Comments_Get (comments F) (''4.'' @ Itoa i)) \<and>
     (\<forall>i<length (Enums F).
        path (enum_common (Enums F ! i)) = ''5.'' @ Itoa i \<and>
        Enum_GetComments (Enums F ! i) = Comments_Get (comments F) (''5.'' @ Itoa i)) \<and>
     (\<forall>i<length (Services F).
        path (svc_common (Services F ! i)) = ''6.'' @ Itoa i \<and>
        Service_GetComments (Services F ! i) = Comments_Get (comments F) (''6.'' @ Itoa i)) \<and>
     (\<forall>i<length (Extensions F).
        path (ext_common (Extensions F ! i)) = ''7.'' @ Itoa i \<and>
        Extension_GetComments (Extensions F ! i) = Comments_Get (comments F) (''7.'' @ Itoa i)) \<and>
     (\<forall>M\<in>set (file_messages F).
        (\<forall>i<length (msg_Fields M).
           path (fld_common (msg_Fields M ! i)) = [] \<and>
           Field_GetComments (msg_Fields M ! i) =
             Comments_Get (comments F) (path (msg_common M) @ ''.2.'' @ Itoa i)) \<and>
        (\<forall>i<length (msg_Messages M).
           path (msg_common (msg_Messages M ! i)) = path (msg_common M) @ ''.3.'' @ Itoa i \<and>
           Message_GetComments (msg_Messages M ! i) =
             Comments_Get (comments F) (path (msg_common M) @ ''.3.'' @ Itoa i)) \<and>
        (\<forall>i<length (msg_Enums M).
           path (enum_common (msg_Enums M ! i)) = path (msg_common M) @ ''.4.'' @ Itoa i \<and>
           Enum_GetComments (msg_Enums M ! i) =
             Comments_Get (comments F) (path (msg_common M) @ ''.4.'' @ Itoa i)) \<and>
        (\<forall>i<length (msg_Extensions M).
           path (ext_common (msg_Extensions M ! i)) = path (msg_common M) @ ''.6.'' @ Itoa i \<and>
           Extension_GetComments (msg_Extensions M ! i) =
             Comments_Get (comments F) (path (msg_common M) @ ''.6.'' @ Itoa i))) \<and>
     (\<forall>E\<in>set (file_enums F). \<forall>i<length (enum_Values E).
        path (val_common (enum_Values E ! i)) = [] \<and>
        Value_GetComments (enum_Values E ! i) =
          Comments_Get (comments F) (path (enum_common E) @ ''.2.'' @ Itoa i)) \<and>
     (\<forall>S\<in>set (Services F). \<forall>i<length (svc_Methods S).
        path (mth_common (svc_Methods S ! i)) = [] \<and>
        Method_GetComments (svc_Methods S ! i) =
          Comments_Get (comments F) (path (svc_common S) @ ''.2.'' @ Itoa i))"
  unfolding Message_GetComments_def Enum_GetComments_def Service_GetComments_def
    Extension_GetComments_def Field_GetComments_def Value_GetComments_def Method_GetComments_def
proof (intro conjI ballI)
  show "\<forall>i<length (Messages F).
        path (msg_common (Messages F ! i)) = ''4.'' @ Itoa i \<and>
        msg_Comments (Messages F ! i) = Comments_Get (comments F) (''4.'' @ Itoa i)"
    by (rule comment_paths_top(1)[OF assms])
  show "\<forall>i<length (Enums F).
        path (enum_common (Enums F ! i)) = ''5.'' @ Itoa i \<and>
        enum_Comments (Enums F ! i) = Comments_Get (comments F) (''5.'' @ Itoa i)"
    by (rule comment_paths_top(2)[OF assms])
  show "\<forall>i<length (Services F).
        path (svc_common (Services F ! i)) = ''6.'' @ Itoa i \<and>
        svc_Comments (Services F ! i) = Comments_Get (comments F) (''6.'' @ Itoa i)"
    by (rule comment_paths_top(3)[OF assms])
  show "\<forall>i<length (Extensions F).
        path (ext_common (Extensions F ! i)) = ''7.'' @ Itoa i \<and>
        ext_Comments (Extensions F ! i) = Comments_Get (comments F) (''7.'' @ Itoa i)"
    by (rule comment_paths_top(4)[OF assms])
next
  fix M assume M: "M \<in> set (file_messages F)"
  show "\<forall>i<length (msg_Fields M).
           path (fld_common (msg_Fields M ! i)) = [] \<and>
           fld_Comments (msg_Fields M ! i) =
             Comments_Get (comments F) (path (msg_common M) @ ''.2.'' @ Itoa i)"
    by (rule comment_paths_message(1)[OF assms M])
  show "\<forall>i<length (msg_Messages M).
           path (msg_common (msg_Messages M ! i)) = path (msg_common M) @ ''.3.'' @ Itoa i \<and>
           msg_Comments (msg_Messages M ! i) =
             Comments_Get (comments F) (path (msg_common M) @ ''.3.'' @ Itoa i)"
    by (rule comment_paths_message(2)[OF assms M])
  show "\<forall>i<length (msg_Enums M).
           path (enum_common (msg_Enums M ! i)) = path (msg_common M) @ ''.4.'' @ Itoa i \<and>
           enum_Comments (msg_Enums M ! i) =
             Comments_Get (comments F) (path (msg_common M) @ ''.4.'' @ Itoa i)"
    by (rule comment_paths_message(3)[OF assms M])
  show "\<forall>i<length (msg_Extensions M).
           path (ext_common (msg_Extensions M ! i)) = path (msg_common M) @ ''.6.'' @ Itoa i \<and>
           ext_Comments (msg_Extensions M ! i) =
             Comments_Get (comments F) (path (msg_common M) @ ''.6.'' @ Itoa i)"
    by (rule comment_paths_message(4)[OF assms M])
next
  fix E assume "E \<in> set (file_enums F)"
  then show "\<forall>i<length (enum_Values E).
        path (val_common (enum_Values E ! i)) = [] \<and>
        val_Comments (enum_Values E ! i) =
          Comments_Get (comments F) (path (enum_common E) @ ''.2.'' @ Itoa i)"
    by (rule comment_paths_enum[OF assms])
next
  fix S assume "S \<in> set (Services F)"
  then show "\<forall>i<length (svc_Methods S).
        path (mth_common (svc_Methods S ! i)) = [] \<and>
        mth_Comments (svc_Methods S ! i) =
          Comments_Get (comments F) (path (svc_common S) @ ''.2.'' @ Itoa i)"
    by (rule comment_paths_service[OF assms])
qed

text \<open>
  A file whose documentation table has an entry for the path 4.0.2.0: the first field
  of the first message carries it, and the first nested message has the path 4.0.3.0.
\<close>

theorem C8_comment_paths_witness:
  "hd (Messages (projr (parseFile []
       \<lparr>file_name = ''x.proto'', file_package = ''a.b'', file_dependency = [],
        file_public_dependency = [],
        file_message_type = [DescriptorProto ''M'' [\<lparr>fdp_name = ''f'', fdp_extendee = []\<rparr>]
             [DescriptorProto ''N'' [] [] [] [] False] [] [] False],
        file_enum_type = [], file_service = [], file_extension = [],
        file_syntax = ''proto3'',
        file_source_code_info = [\<lparr>loc_path = [4, 0, 2, 0], loc_leading_comments = ''doc'',
          loc_trailing_comments = [], loc_leading_detached_comments = []\<rparr>]\<rparr>)))
     \<in> set (file_messages (projr (parseFile []
       \<lparr>file_name = ''x.proto'', file_package = ''a.b'', file_dependency = [],
        file_public_dependency = [],
        file_message_type = [DescriptorProto ''M'' [\<lparr>fdp_name = ''f'', fdp_extendee = []\<rparr>]
             [DescriptorProto ''N'' [] [] [] [] False] [] [] False],
        file_enum_type = [], file_service = [], file_extension = [],
        file_syntax = ''proto3'',
        file_source_code_info = [\<lparr>loc_path = [4, 0, 2, 0], loc_leading_comments = ''doc'',
          loc_trailing_comments = [], loc_leading_detached_comments = []\<rparr>]\<rparr>)))
   \<and> Field_GetComments (msg_Fields (hd (Messages (projr (parseFile []
       \<lparr>file_name = ''x.proto'', file_package = ''a.b'', file_dependency = [],
        file_public_dependency = [],
        file_message_type = [DescriptorProto ''M'' [\<lparr>fdp_name = ''f'', fdp_extendee = []\<rparr>]
             [DescriptorProto ''N'' [] [] [] [] False] [] [] False],
        file_enum_type = [], file_service = [], file_extension = [],
        file_syntax = ''proto3'',
        file_source_code_info = [\<lparr>loc_path = [4, 0, 2, 0], loc_leading_comments = ''doc'',
          loc_trailing_comments = [], loc_leading_detached_comments = []\<rparr>]\<rparr>)))) ! 0)
       = Some \<lparr>Leading = ''doc'', Trailing = [], Detached = []\<rparr>
   \<and> path (msg_common (msg_Messages (hd (Messages (projr (parseFile []
       \<lparr>file_name = ''x.proto'', file_package = ''a.b'', file_dependency = [],
        file_public_dependency = [],
        file_message_type = [DescriptorProto ''M'' [\<lparr>fdp_name = ''f'', fdp_extendee = []\<rparr>]
             [DescriptorProto ''N'' [] [] [] [] False] [] [] False],
        file_enum_type = [], file_service = [], file_extension = [],
        file_syntax = ''proto3'',
        file_source_code_info = [\<lparr>loc_path = [4, 0, 2, 0], loc_leading_comments = ''doc'',
          loc_trailing_comments = [], loc_leading_detached_comments = []\<rparr>]\<rparr>)))) ! 0))
       = ''4.0.3.0''"
proof -
  let ?fd = "\<lparr>file_name = ''x.proto'', file_package = ''a.b'', file_dependency = [],
        file_public_dependency = [],
        file_message_type = [DescriptorProto ''M'' [\<lparr>fdp_name = ''f'', fdp_extendee = []\<rparr>]
             [DescriptorProto ''N'' [] [] [] [] False] [] [] False],
        file_enum_type = [], file_service = [], file_extension = [],
        file_syntax = ''proto3'',
        file_source_code_info = [\<lparr>loc_path = [4, 0, 2, 0], loc_leading_comments = ''doc'',
          loc_trailing_comments = [], loc_leading_detached_comments = []\<rparr>]\<rparr>"
  let ?F = "projr (parseFile [] ?fd)"
  let ?M = "hd (Messages ?F)"
  have "\<not> isl (parseFile [] ?fd)"
    by code_simp
  then have 1: "parseFile [] ?fd = Inr ?F"
    by simp
  have 2: "?M \<in> set (file_messages ?F)"
    by code_simp
  have 3: "0 < length (msg_Fields ?M)" and 4: "0 < length (msg_Messages ?M)"
    by code_simp+
  have 5: "Comments_Get (comments ?F) (path (msg_common ?M) @ ''.2.'' @ Itoa 0)
             = Some \<lparr>Leading = ''doc'', Trailing = [], Detached = []\<rparr>"
    by code_simp
  have 6: "path (msg_common ?M) @ ''.3.'' @ Itoa 0 = ''4.0.3.0''"
    by code_simp
  note m = C8_comment_paths[OF 1, THEN conjunct2, THEN conjunct2, THEN conjunct2,
      THEN conjunct2, THEN conjunct1, THEN bspec, OF 2]
  note f = m[THEN conjunct1, THEN spec, THEN mp, OF 3, THEN conjunct2]
  note n = m[THEN conjunct2, THEN conjunct1, THEN spec, THEN mp, OF 4, THEN conjunct1]
  show ?thesis
    using 2 f n unfolding 5 6 by (intro conjI)
qed

text \<open>
  C8 as the spec words it fails for a field: the path stored in the first field of the
  first message is empty, not 4.0.2.0.
\<close>

theorem C8_counterexample:
  "path (fld_common (msg_Fields (hd (Messages (projr (parseFile []
       \<lparr>file_name = ''x.proto'', file_package = ''a.b'', file_dependency = [],
        file_public_dependency = [],
        file_message_type = [DescriptorProto ''M'' [\<lparr>fdp_name = ''f'', fdp_extendee = []\<rparr>]
             [] [] [] False],
        file_enum_type = [], file_service = [], file_extension = [],
        file_syntax = ''proto3'', file_source_code_info = []\<rparr>)))) ! 0)) = []
   \<and> path (msg_common (hd (Messages (projr (parseFile []
       \<lparr>file_name = ''x.proto'', file_package = ''a.b'', file_dependency = [],
        file_public_dependency = [],
        file_message_type = [DescriptorProto ''M'' [\<lparr>fdp_name = ''f'', fdp_extendee = []\<rparr>]
             [] [] [] False],
        file_enum_type = [], file_service = [], file_extension = [],
        file_syntax = ''proto3'', file_source_code_info = []\<rparr>))))) @ ''.'' @ Itoa 2 @ ''.'' @ Itoa 0
       = ''4.0.2.0''
   \<and> [] \<noteq> ''4.0.2.0''"
  by code_simp


text \<open>
  C9. \<open>Comments_Get\<close> never returns an absent result, and returns the empty comment
  for a path without an entry. Every message, field, enum, enum value, extension,
  service and method of an assembled file carries a comment: \<open>GetComments\<close> is not
  \<open>nil\<close>.
\<close>

theorem C9_comments_total:
  assumes "parseFile allFilesMap fd = Inr F"
  shows
    "(\<forall>p. Comments_Get (comments F) p \<noteq> None) \<and>
     (\<forall>p. comments F p = None \<longrightarrow>
        Comments_Get (comments F) p = Some \<lparr>Leading = [], Trailing = [], Detached = []\<rparr>) \<and>
     (\<forall>M\<in>set (file_messages F).
        Message_GetComments M \<noteq> None \<and>
        (\<forall>x\<in>set (msg_Fields M). Field_GetComments x \<noteq> None)) \<and>
     (\<forall>E\<in>set (file_enums F).
        Enum_GetComments E \<noteq> None \<and>
        (\<forall>v\<in>set (enum_Values E). Value_GetComments v \<noteq> None)) \<and>
     (\<forall>X\<in>set (file_extensions F). Extension_GetComments X \<noteq> None) \<and>
     (\<forall>S\<in>set (Services F).
        Service_GetComments S \<noteq> None \<and>
        (\<forall>m\<in>set (svc_Methods S). Method_GetComments m \<noteq> None))"
proof (intro conjI ballI allI impI)
  fix p show "Comments_Get (comments F) p \<noteq> None" by simp
next
  fix p assume "comments F p = None"
  then show "Comments_Get (comments F) p = Some \<lparr>Leading = [], Trailing = [], Detached = []\<rparr>"
    by (simp add: Comments_Get_def)
next
  fix M assume M: "M \<in> set (file_messages F)"
  from file_messages_parsed[OF assms M] obtain f p j d where "M = parseMessage f p j d" by blast
  then show "Message_GetComments M \<noteq> None"
    by (simp add: Message_GetComments_def parseMessage_sel(4))
  fix x assume "x \<in> set (msg_Fields M)"
  then obtain i where "i < length (msg_Fields M)" "x = msg_Fields M ! i"
    by (metis in_set_conv_nth)
  then show "Field_GetComments x \<noteq> None"
    using comment_paths_message(1)[OF assms M] by (simp add: Field_GetComments_def)
next
  fix E assume E: "E \<in> set (file_enums F)"
  from file_enums_parsed[OF assms E] obtain f parent protos k where
    "k < length protos" "E = parseEnums f parent protos ! k" by blast
  then show "Enum_GetComments E \<noteq> None"
    by (simp add: Enum_GetComments_def parseEnums_nth(3))
  fix v assume "v \<in> set (enum_Values E)"
  then obtain i where "i < length (enum_Values E)" "v = enum_Values E ! i"
    by (metis in_set_conv_nth)
  then show "Value_GetComments v \<noteq> None"
    using comment_paths_enum[OF assms E] by (simp add: Value_GetComments_def)
next
  fix X assume X: "X \<in> set (file_extensions F)"
  from file_extensions_parsed[OF assms X] obtain f parent protos k where
    "k < length protos" "X = parseExtensions f parent protos ! k" by blast
  then show "Extension_GetComments X \<noteq> None"
    by (simp add: Extension_GetComments_def parseExtensions_nth(3))
next
  fix S assume S: "S \<in> set (Services F)"
  then obtain k where k: "k < length (Services F)" "S = Services F ! k"
    by (metis in_set_conv_nth)
  then show "Service_GetComments S \<noteq> None"
    using comment_paths_top(3)[OF assms] by (simp add: Service_GetComments_def)
  fix m assume "m \<in> set (svc_Methods S)"
  then obtain i where "i < length (svc_Methods S)" "m = svc_Methods S ! i"
    by (metis in_set_conv_nth)
  then show "Method_GetComments m \<noteq> None"
    using comment_paths_service[OF assms S] by (simp add: Method_GetComments_def)
qed

text \<open>
  A file without documentation: the path 4.0 has no entry, and the message and its
  field carry the empty comment.
\<close>

theorem C9_comments_total_witness:
  "comments (projr (parseFile []
       \<lparr>file_name = ''x.proto'', file_package = ''a.b'', file_dependency = [],
        file_public_dependency = [],
        file_message_type = [DescriptorProto ''M'' [\<lparr>fdp_name = ''f'', fdp_extendee = []\<rparr>]
             [] [] [] False],
        file_enum_type = [], file_service = [], file_extension = [],
        file_syntax = ''proto3'', file_source_code_info = []\<rparr>)) ''4.0'' = None
   \<and> Message_GetComments (hd (Messages (projr (parseFile []
       \<lparr>file_name = ''x.proto'', file_package = ''a.b'', file_dependency = [],
        file_public_dependency = [],
        file_message_type = [DescriptorProto ''M'' [\<lparr>fdp_name = ''f'', fdp_extendee = []\<rparr>]
             [] [] [] False],
        file_enum_type = [], file_service = [], file_extension = [],
        file_syntax = ''proto3'', file_source_code_info = []\<rparr>)))) \<noteq> None
   \<and> Field_GetComments (hd (msg_Fields (hd (Messages (projr (parseFile []
       \<lparr>file_name = ''x.proto'', file_package = ''a.b'', file_dependency = [],
        file_public_dependency = [],
        file_message_type = [DescriptorProto ''M'' [\<lparr>fdp_name = ''f'', fdp_extendee = []\<rparr>]
             [] [] [] False],
        file_enum_type = [], file_service = [], file_extension = [],
        file_syntax = ''proto3'', file_source_code_info = []\<rparr>)))))) \<noteq> None
   \<and> Comments_Get (comments (projr (parseFile []
       \<lparr>file_name = ''x.proto'', file_package = ''a.b'', file_dependency = [],
        file_public_dependency = [],
        file_message_type = [DescriptorProto ''M'' [\<lparr>fdp_name = ''f'', fdp_extendee = []\<rparr>]
             [] [] [] False],
        file_enum_type = [], file_service = [], file_extension = [],
        file_syntax = ''proto3'', file_source_code_info = []\<rparr>))) ''4.0''
       = Some \<lparr>Leading = [], Trailing = [], Detached = []\<rparr>"
proof -
  let ?fd = "\<lparr>file_name = ''x.proto'', file_package = ''a.b'', file_dependency = [],
        file_public_dependency = [],
        file_message_type = [DescriptorProto ''M'' [\<lparr>fdp_name = ''f'', fdp_extendee = []\<rparr>]
             [] [] [] False],
        file_enum_type = [], file_service = [], file_extension = [],
        file_syntax = ''proto3'', file_source_code_info = []\<rparr>"
  let ?F = "projr (parseFile [] ?fd)"
  let ?M = "hd (Messages ?F)"
  have "\<not> isl (parseFile [] ?fd)"
    by code_simp
  then have 1: "parseFile [] ?fd = Inr ?F"
    by simp
  have 2: "?M \<in> set (file_messages ?F)"
    by code_simp
  have 3: "hd (msg_Fields ?M) \<in> set (msg_Fields ?M)"
    by code_simp
  have 4: "comments ?F ''4.0'' = None"
    by code_simp
  note t = C9_comments_total[OF 1]
  note e = t[THEN conjunct2, THEN conjunct1, THEN spec, THEN mp, OF 4]
  note m = t[THEN conjunct2, THEN conjunct2, THEN conjunct1, THEN bspec, OF 2]
  note f = m[THEN conjunct2, THEN bspec, OF 3]
  show ?thesis
    using 4 m[THEN conjunct1] f e by (intro conjI)
qed

section \<open>The three loops of the driver\<close>

lemma file_pointer_wf:
  assumes "wf_files al"
  shows "file_pointer al d = (if d \<in> fst ` set al then Some d else None)"
proof (cases "map_of al d")
  case None
  then show ?thesis by (simp add: file_pointer_def map_of_eq_None_iff)
next
  case (Some f)
  then have "(d, f) \<in> set al" by (rule map_of_SomeD)
  then have "File_GetName f = d" "d \<in> fst ` set al"
    using assms by (auto simp: wf_files_def intro: rev_image_eqI)
  then show ?thesis using Some by (simp add: file_pointer_def)
qed

lemma set_update_cases:
  "(k', g) \<in> set (AList.update k v al) \<Longrightarrow> (k', g) = (k, v) \<or> (k', g) \<in> set al"
  by (induction al) (auto split: if_splits)

lemma wf_files_update:
  assumes "wf_files al" and "File_GetName f = k"
  shows "wf_files (AList.update k f al)"
  using assms set_update_cases[of _ _ k f al]
  unfolding wf_files_def by (fastforce simp: distinct_update)

lemma parseFile_name:
  "parseFile al pf = Inr f \<Longrightarrow> File_GetName f = file_name pf"
  by (simp add: File_GetName_def parseFile_entities(1))

lemma building_built_from:
  assumes "built_from seen al0" and "building al0 rest = Inr al"
  shows "built_from (seen @ rest) al"
  using assms
proof (induction rest arbitrary: seen al0)
  case Nil
  then show ?case by simp
next
  case (Cons pf rest)
  from Cons.prems(2) obtain f where f: "parseFile al0 pf = Inr f"
    and b: "building (AList.update (file_name pf) f al0) rest = Inr al"
    by (auto split: sum.splits)
  let ?al1 = "AList.update (file_name pf) f al0"
  from Cons.prems(1) have wf0: "wf_files al0" and keys0: "fst ` set al0 = file_name ` set seen"
    and ent0: "\<forall>(k, g) \<in> set al0. \<exists>j prev. j < length seen \<and> parseFile prev (seen ! j) = Inr g \<and>
          wf_files prev \<and> fst ` set prev = file_name ` set (take j seen)"
    by (auto simp: built_from_def)
  have wf1: "wf_files ?al1"
    using wf0 parseFile_name[OF f] by (rule wf_files_update)
  have keys1: "fst ` set ?al1 = file_name ` set (seen @ [pf])"
    using keys0 by (simp add: dom_update)
  have ent1: "\<exists>j prev. j < length (seen @ [pf]) \<and> parseFile prev ((seen @ [pf]) ! j) = Inr g \<and>
          wf_files prev \<and> fst ` set prev = file_name ` set (take j (seen @ [pf]))"
    if "(k, g) \<in> set ?al1" for k g
  proof -
    from set_update_cases[OF that] show ?thesis
    proof
      assume "(k, g) = (file_name pf, f)"
      then have "parseFile al0 ((seen @ [pf]) ! length seen) = Inr g"
        using f by simp
      moreover have "fst ` set al0 = file_name ` set (take (length seen) (seen @ [pf]))"
        using keys0 by simp
      ultimately show ?thesis using wf0
        by (intro exI[of _ "length seen"] exI[of _ al0]) simp
    next
      assume "(k, g) \<in> set al0"
      with ent0 obtain j prev where "j < length seen" "parseFile prev (seen ! j) = Inr g"
        "wf_files prev" "fst ` set prev = file_name ` set (take j seen)"
        by blast
      then show ?thesis
        by (intro exI[of _ j] exI[of _ prev]) (simp add: nth_append)
    qed
  qed
  have "built_from (seen @ [pf]) ?al1"
    unfolding built_from_def using wf1 keys1 ent1 by blast
  from Cons.IH[OF this b] show ?case by simp
qed

lemma built_from_Nil: "built_from [] []"
  by (simp add: built_from_def wf_files_def)

lemma building_built:
  "building [] pfs = Inr al \<Longrightarrow> built_from pfs al"
  using building_built_from[OF built_from_Nil] by fastforce

lemma exports_Imports [simp]: "exports (f\<lparr>Imports := i\<rparr>) = exports f"
  by (simp add: exports_def)

lemma parseAllImports_loop_char:
  "parseAllImports_loop al deps acc =
     (if \<forall>d \<in> set deps. map_of al d \<noteq> None
      then Inr (acc @ concat (map (\<lambda>d. exports (the (map_of al d))) deps))
      else Inl NilPointerDereference)"
  by (induction deps arbitrary: acc) (auto simp: exports_def split: option.splits)

lemma imports_in_char:
  "imports_in al f =
     (if \<forall>d \<in> set (file_dependency (desc f)). map_of al d \<noteq> None
      then Inr (concat (map (\<lambda>d. exports (the (map_of al d))) (file_dependency (desc f))))
      else Inl NilPointerDereference)"
  by (simp add: imports_in_def parseAllImports_loop_char)

lemma imports_in_cong:
  assumes "\<And>d. map_option exports (map_of al d) = map_option exports (map_of al' d)"
  shows "imports_in al f = imports_in al' f"
proof -
  have n: "map_of al d = None \<longleftrightarrow> map_of al' d = None" for d
    using assms[of d] by (metis option.map_disc_iff)
  have e: "exports (the (map_of al d)) = exports (the (map_of al' d))" if "map_of al d \<noteq> None" for d
    using assms[of d] that n[of d] by (auto simp: option.map_sel)
  have m: "map (\<lambda>d. exports (the (map_of al d))) ds = map (\<lambda>d. exports (the (map_of al' d))) ds"
    if "\<forall>d \<in> set ds. map_of al d \<noteq> None" for ds
    using that e by (induction ds) auto
  show ?thesis
  proof (cases "\<forall>d \<in> set (file_dependency (desc f)). map_of al d \<noteq> None")
    case True
    then have T': "\<forall>d \<in> set (file_dependency (desc f)). map_of al' d \<noteq> None"
      using n by simp
    have c: "concat (map (\<lambda>d. exports (the (map_of al d))) (file_dependency (desc f))) =
             concat (map (\<lambda>d. exports (the (map_of al' d))) (file_dependency (desc f)))"
      using m[OF True] by (rule arg_cong)
    show ?thesis
      unfolding imports_in_char by (simp only: if_P[OF True] if_P[OF T'] c)
  next
    case False
    then have F': "\<not> (\<forall>d \<in> set (file_dependency (desc f)). map_of al' d \<noteq> None)"
      using n by simp
    show ?thesis
      unfolding imports_in_char by (simp only: if_not_P[OF False] if_not_P[OF F'])
  qed
qed

lemma imports_in_Imports [simp]: "imports_in al (f\<lparr>Imports := i\<rparr>) = imports_in al f"
  by (simp add: imports_in_def)

lemma parseAllImports_char:
  "parseAllImports f al =
     (case imports_in al f of Inl e \<Rightarrow> Inl e | Inr imps \<Rightarrow> Inr (f\<lparr>Imports := imps\<rparr>))"
  by (simp add: parseAllImports_def imports_in_def)

lemma imports_in_Inl: "imports_in al f = Inl e \<Longrightarrow> e = NilPointerDereference"
  by (simp add: imports_in_char split: if_splits)

lemma map_of_visited:
  "map_option exports (map_of (visited @ (k, f\<lparr>Imports := i\<rparr>) # rest) d) =
   map_option exports (map_of (visited @ (k, f) # rest) d)"
  by (cases "map_of visited d") (simp_all add: map_of_append map_add_def)

lemma linking_char:
  assumes "\<And>d. map_option exports (map_of A d) = map_option exports (map_of (visited @ rest) d)"
  shows "linking visited rest =
     (if \<forall>(k, f) \<in> set rest. \<not> isl (imports_in A f)
      then Inr (visited @ map (\<lambda>(k, f). (k, f\<lparr>Imports := projr (imports_in A f)\<rparr>)) rest)
      else Inl NilPointerDereference)"
  using assms
proof (induction rest arbitrary: visited)
  case Nil
  then show ?case by simp
next
  case (Cons kf rest)
  obtain k f where kf: "kf = (k, f)" by (cases kf)
  have eq: "imports_in (visited @ (k, f) # rest) f = imports_in A f"
    using Cons.prems[symmetric] unfolding kf by (rule imports_in_cong)
  show ?case
  proof (cases "imports_in A f")
    case (Inl e)
    then show ?thesis
      using eq imports_in_Inl[OF Inl] by (simp add: kf parseAllImports_char)
  next
    case (Inr imps)
    have "map_option exports (map_of A d) =
          map_option exports (map_of ((visited @ [(k, f\<lparr>Imports := imps\<rparr>)]) @ rest) d)" for d
      using Cons.prems[of d] map_of_visited[where visited=visited and k=k and f=f and i=imps and rest=rest and d=d] by (simp add: kf)
    from Cons.IH[OF this] show ?thesis
      using eq Inr by (simp add: kf parseAllImports_char)
  qed
qed

lemma update_existing:
  assumes "distinct (map fst al)" and "k \<in> fst ` set al"
  shows "AList.update k v al = map (\<lambda>(k', g). if k' = k then (k, v) else (k', g)) al"
  using assms
proof (induction al)
  case Nil
  then show ?case by simp
next
  case (Cons a al)
  obtain k' g where a: "a = (k', g)" by (cases a)
  show ?case
  proof (cases "k' = k")
    case True
    then have "k \<notin> fst ` set al" using Cons.prems(1) a by auto
    then have "map (\<lambda>(k', g). if k' = k then (k, v) else (k', g)) al = al"
      by (induction al) auto
    then show ?thesis using True a by simp
  next
    case False
    then show ?thesis using Cons a by auto
  qed
qed

lemma marking_char:
  assumes "distinct (map fst al)"
  shows "marking al ns =
     (if set ns \<subseteq> fst ` set al
      then Inr (map (\<lambda>(k, f). (k, if k \<in> set ns then f\<lparr>IsFileToGenerate := True\<rparr> else f)) al)
      else Inl NilPointerDereference)"
  using assms
proof (induction ns arbitrary: al)
  case Nil
  then show ?case by simp
next
  case (Cons n ns)
  show ?case
  proof (cases "map_of al n")
    case None
    then have "n \<notin> fst ` set al" by (simp add: map_of_eq_None_iff)
    then show ?thesis by (simp add: None)
  next
    case (Some f)
    let ?v = "f\<lparr>IsFileToGenerate := True\<rparr>"
    let ?al1 = "AList.update n ?v al"
    have nin: "n \<in> fst ` set al"
      using Some by (metis map_of_eq_None_iff option.distinct(1))
    have al1: "?al1 = map (\<lambda>(k', g). if k' = n then (n, ?v) else (k', g)) al"
      using Cons.prems nin by (rule update_existing)
    have d1: "distinct (map fst ?al1)"
      using Cons.prems by (rule distinct_update)
    have keys: "fst ` set ?al1 = fst ` set al"
      using nin by (auto simp: dom_update)
    have ent: "(k, g) \<in> set al \<Longrightarrow> k = n \<Longrightarrow> g = f" for k g
      using Some Cons.prems by simp
    have "map (\<lambda>(k, f). (k, if k \<in> set ns then f\<lparr>IsFileToGenerate := True\<rparr> else f)) ?al1 =
          map (\<lambda>(k, f). (k, if k \<in> set (n # ns) then f\<lparr>IsFileToGenerate := True\<rparr> else f)) al"
      unfolding al1 using ent by (auto simp: case_prod_unfold)
    then show ?thesis
      using Some Cons.IH[OF d1] keys nin by simp
  qed
qed

lemma filter_key_single:
  assumes "distinct (map f zs)" and "k \<in> set zs"
  shows "filter (\<lambda>x. f k = f x) zs = [k]"
  using assms
proof (induction zs)
  case Nil
  then show ?case by simp
next
  case (Cons z zs)
  show ?case
  proof (cases "z = k")
    case True
    then have "\<forall>x \<in> set zs. f k \<noteq> f x" using Cons.prems(1) by auto
    then have "filter (\<lambda>x. f k = f x) zs = []" by (simp add: filter_empty_conv)
    then show ?thesis using True by simp
  next
    case False
    then have "k \<in> set zs" using Cons.prems(2) by simp
    moreover have "f k \<noteq> f z" using Cons.prems(1) \<open>k \<in> set zs\<close>
      by (metis distinct.simps(2) imageI list.simps(9) list.set_map)
    ultimately show ?thesis using Cons by simp
  qed
qed

lemma sort_key_mset_eq:
  fixes f :: "'a \<Rightarrow> 'b::linorder"
  assumes "mset xs = mset ys" and "distinct (map f xs)"
  shows "sort_key f xs = sort_key f ys"
proof (rule properties_for_sort_key)
  show "mset (sort_key f ys) = mset xs" using assms(1) by simp
  show "sorted (map f (sort_key f ys))" by simp
  fix k assume k: "k \<in> set (sort_key f ys)"
  have "mset (map f xs) = mset (map f ys)" using assms(1) by simp
  then have dy: "distinct (map f ys)" using assms(2) by (metis mset_eq_imp_distinct_iff)
  have "mset (map f (sort_key f ys)) = mset (map f ys)" by simp
  then have ds: "distinct (map f (sort_key f ys))" using dy by (metis mset_eq_imp_distinct_iff)
  have "k \<in> set xs" using k assms(1) by (metis mset_eq_setD set_sort)
  then show "filter (\<lambda>x. f k = f x) (sort_key f ys) = filter (\<lambda>x. f k = f x) xs"
    using filter_key_single[OF ds k] filter_key_single[OF assms(2)] by simp
qed

lemma sorted_distinct_strict:
  fixes xs :: "'b::linorder list"
  shows "sorted xs \<Longrightarrow> distinct xs \<Longrightarrow> sorted_wrt (<) xs"
  by (simp add: strict_sorted_iff)

lemma built_from_flag:
  assumes "built_from pfs B" and "(k, f) \<in> set B"
  shows "\<not> IsFileToGenerate f" and "Imports f = []"
proof -
  from assms obtain j prev where "parseFile prev (pfs ! j) = Inr f"
    unfolding built_from_def by blast
  then show "\<not> IsFileToGenerate f" and "Imports f = []"
    by (simp_all add: parseFile_entities)
qed

lemma finished_name [simp]: "File_GetName (finished B ns (k, f)) = File_GetName f"
  by (simp add: finished_def File_GetName_def)

lemma finished_names:
  assumes "wf_files B"
  shows "map File_GetName (map (finished B ns) B) = map fst B"
  using assms unfolding wf_files_def by (induction B) auto

lemma visit_order_facts:
  assumes "visit_order order" and "distinct (map fst B)"
  shows "set (order B) = set B" and "distinct (map fst (order B))"
    and "map_of (order B) = map_of B"
proof -
  have m: "mset (order B) = mset B" using assms(1) by (simp add: visit_order_def)
  then show s: "set (order B) = set B" by (rule mset_eq_setD)
  have "mset (map fst (order B)) = mset (map fst B)" using m by simp
  then show d: "distinct (map fst (order B))"
    using assms(2) by (metis mset_eq_imp_distinct_iff)
  show "map_of (order B) = map_of B"
    using d assms(2) s by (simp add: map_of_inject_set)
qed

lemma loops_char:
  assumes "visit_order order" and "wf_files B"
  shows "linking [] (order B) =
     (if \<forall>(k, f) \<in> set B. \<not> isl (imports_in B f)
      then Inr (map (\<lambda>(k, f). (k, f\<lparr>Imports := projr (imports_in B f)\<rparr>)) (order B))
      else Inl NilPointerDereference)"
    and "marking (map (\<lambda>(k, f). (k, f\<lparr>Imports := projr (imports_in B f)\<rparr>)) (order B)) ns =
     (if set ns \<subseteq> fst ` set B
      then Inr (map (\<lambda>(k, f). (k, if k \<in> set ns then f\<lparr>IsFileToGenerate := True\<rparr> else f))
                 (map (\<lambda>(k, f). (k, f\<lparr>Imports := projr (imports_in B f)\<rparr>)) (order B)))
      else Inl NilPointerDereference)"
proof -
  let ?P = "order B"
  let ?phi = "\<lambda>(k, f). (k, f\<lparr>Imports := projr (imports_in B f)\<rparr>)"
  have dB: "distinct (map fst B)" using assms(2) by (simp add: wf_files_def)
  note vo = visit_order_facts[OF assms(1) dB]
  show "linking [] ?P =
     (if \<forall>(k, f) \<in> set B. \<not> isl (imports_in B f) then Inr (map ?phi ?P)
      else Inl NilPointerDereference)"
    using linking_char[of B "[]" ?P] vo(1,3) by simp
  have keysL: "map fst (map ?phi ?P) = map fst ?P"
    by (induction ?P) auto
  have d: "distinct (map fst (map ?phi ?P))" unfolding keysL by (rule vo(2))
  have "set (map fst (map ?phi ?P)) = set (map fst B)"
    unfolding keysL using vo(1) by (simp only: set_map)
  then have "fst ` set (map ?phi ?P) = fst ` set B"
    by (simp only: set_map)
  then show "marking (map ?phi ?P) ns =
     (if set ns \<subseteq> fst ` set B
      then Inr (map (\<lambda>(k, f). (k, if k \<in> set ns then f\<lparr>IsFileToGenerate := True\<rparr> else f))
                 (map ?phi ?P))
      else Inl NilPointerDereference)"
    using marking_char[OF d, of ns] by (simp only:)
qed

lemma driver_char:
  assumes "visit_order order"
  shows "ParseCodeGenRequestAllFiles order req =
     (case building [] (ProtoFile req) of
        Inl e \<Rightarrow> Inl e
      | Inr B \<Rightarrow>
          if (\<forall>(k, f) \<in> set B. \<not> isl (imports_in B f)) \<and> set (FileToGenerate req) \<subseteq> fst ` set B
          then Inr (sort_key File_GetName (map (finished B (FileToGenerate req)) B))
          else Inl NilPointerDereference)"
proof (cases "building [] (ProtoFile req)")
  case (Inl e)
  then show ?thesis by (simp add: ParseCodeGenRequestAllFiles_def)
next
  case (Inr B)
  let ?ns = "FileToGenerate req"
  let ?P = "order B"
  let ?phi = "\<lambda>(k, f). (k, f\<lparr>Imports := projr (imports_in B f)\<rparr>)"
  let ?psi = "\<lambda>(k, f). (k, if k \<in> set ?ns then f\<lparr>IsFileToGenerate := True\<rparr> else f)"
  have bf: "built_from (ProtoFile req) B" using Inr by (rule building_built)
  then have wf: "wf_files B" by (simp add: built_from_def)
  then have dB: "distinct (map fst B)" by (simp add: wf_files_def)
  note vo = visit_order_facts[OF assms dB]
  note link = loops_char(1)[OF assms wf]
  note mark = loops_char(2)[OF assms wf, of ?ns]
  have fin: "snd (?psi (?phi kf)) = finished B ?ns kf" if "kf \<in> set B" for kf
  proof -
    obtain k f where kf: "kf = (k, f)" by (cases kf)
    have "\<not> IsFileToGenerate f" using built_from_flag(1)[OF bf] that kf by simp
    then show ?thesis
      unfolding kf finished_def by (cases f) simp
  qed
  have msnd: "map snd (map ?psi (map ?phi ?P)) = map (finished B ?ns) ?P"
    using fin vo(1) by (induction ?P) auto
  have srt: "sort_key File_GetName (map (finished B ?ns) ?P) =
             sort_key File_GetName (map (finished B ?ns) B)"
  proof (rule sort_key_mset_eq)
    show "mset (map (finished B ?ns) ?P) = mset (map (finished B ?ns) B)"
      using assms by (simp add: visit_order_def)
    have eq: "map File_GetName (map (finished B ?ns) ?P) = map fst ?P"
      using wf vo(1) unfolding wf_files_def by (induction ?P) auto
    show "distinct (map File_GetName (map (finished B ?ns) ?P))"
      unfolding eq by (rule vo(2))
  qed
  consider (ok) "\<forall>(k, f) \<in> set B. \<not> isl (imports_in B f)" "set ?ns \<subseteq> fst ` set B"
    | (imp) "\<not> (\<forall>(k, f) \<in> set B. \<not> isl (imports_in B f))"
    | (gen) "\<forall>(k, f) \<in> set B. \<not> isl (imports_in B f)" "\<not> set ?ns \<subseteq> fst ` set B"
    by blast
  then show ?thesis
  proof cases
    case ok
    have c: "(\<forall>(k, f) \<in> set B. \<not> isl (imports_in B f)) \<and> set ?ns \<subseteq> fst ` set B"
      using ok by simp
    show ?thesis
      by (simp only: ParseCodeGenRequestAllFiles_def Inr sum.case link if_P[OF ok(1)] mark
          if_P[OF ok(2)] if_P[OF c] msnd srt)
  next
    case imp
    have c: "\<not> ((\<forall>(k, f) \<in> set B. \<not> isl (imports_in B f)) \<and> set ?ns \<subseteq> fst ` set B)"
      using imp by simp
    show ?thesis
      by (simp only: ParseCodeGenRequestAllFiles_def Inr sum.case link if_not_P[OF imp]
          if_not_P[OF c])
  next
    case gen
    have c: "\<not> ((\<forall>(k, f) \<in> set B. \<not> isl (imports_in B f)) \<and> set ?ns \<subseteq> fst ` set B)"
      using gen by simp
    show ?thesis
      by (simp only: ParseCodeGenRequestAllFiles_def Inr sum.case link if_P[OF gen(1)] mark
          if_not_P[OF gen(2)] if_not_P[OF c])
  qed
qed

section \<open>The result of the driver\<close>

lemma finished_sel [simp]:
  "desc (finished B ns kf) = desc (snd kf)"
  "comments (finished B ns kf) = comments (snd kf)"
  "Messages (finished B ns kf) = Messages (snd kf)"
  "Enums (finished B ns kf) = Enums (snd kf)"
  "Extensions (finished B ns kf) = Extensions (snd kf)"
  "Services (finished B ns kf) = Services (snd kf)"
  "Dependencies (finished B ns kf) = Dependencies (snd kf)"
  "PublicDependencies (finished B ns kf) = PublicDependencies (snd kf)"
  "Imports (finished B ns kf) = projr (imports_in B (snd kf))"
  "IsFileToGenerate (finished B ns kf) = (fst kf \<in> set ns)"
  by (simp_all add: finished_def)

lemma exports_finished [simp]: "exports (finished B ns kf) = exports (snd kf)"
  by (simp add: exports_def)

lemma returned_files:
  assumes "visit_order order" and "ParseCodeGenRequestAllFiles order req = Inr files"
  shows "\<exists>B. building [] (ProtoFile req) = Inr B \<and> built_from (ProtoFile req) B
           \<and> (\<forall>(k, f) \<in> set B. \<not> isl (imports_in B f))
           \<and> set (FileToGenerate req) \<subseteq> fst ` set B
           \<and> files = sort_key File_GetName (map (finished B (FileToGenerate req)) B)"
proof (cases "building [] (ProtoFile req)")
  case (Inl e)
  then show ?thesis using assms(2) by (simp add: driver_char[OF assms(1)])
next
  case (Inr B)
  then show ?thesis
    using assms(2) building_built[OF Inr]
    by (simp add: driver_char[OF assms(1)] split: if_splits)
qed

lemma returned_file:
  assumes "visit_order order" and "ParseCodeGenRequestAllFiles order req = Inr files"
    and "F \<in> set files"
  shows "\<exists>B k f. building [] (ProtoFile req) = Inr B \<and> built_from (ProtoFile req) B
           \<and> (\<forall>(k, f) \<in> set B. \<not> isl (imports_in B f))
           \<and> set files = finished B (FileToGenerate req) ` set B
           \<and> (k, f) \<in> set B \<and> F = finished B (FileToGenerate req) (k, f)"
proof -
  from returned_files[OF assms(1,2)] obtain B where
    B: "building [] (ProtoFile req) = Inr B" "built_from (ProtoFile req) B"
       "\<forall>(k, f) \<in> set B. \<not> isl (imports_in B f)"
       "files = sort_key File_GetName (map (finished B (FileToGenerate req)) B)"
    by blast
  have s: "set files = finished B (FileToGenerate req) ` set B"
    unfolding B(4) by simp
  with assms(3) obtain kf where kf: "kf \<in> set B" "F = finished B (FileToGenerate req) kf"
    by auto
  obtain k f where "kf = (k, f)" by (cases kf)
  with kf B s show ?thesis by blast
qed

lemma sorted_by_name_newer:
  assumes "visit_order order" and "visit_order order'"
    and "ParseCodeGenRequestAllFiles order req = Inr files"
  shows "sorted_wrt (<) (map File_GetName files)
       \<and> ParseCodeGenRequestAllFiles order' req = Inr files"
proof
  from returned_files[OF assms(1,3)] obtain B where
    B: "built_from (ProtoFile req) B"
       "files = sort_key File_GetName (map (finished B (FileToGenerate req)) B)"
    by blast
  have wf: "wf_files B" using B(1) by (simp add: built_from_def)
  then have "distinct (map fst B)" by (simp add: wf_files_def)
  then have "distinct (map File_GetName (map (finished B (FileToGenerate req)) B))"
    by (simp only: finished_names[OF wf])
  then have "distinct (map File_GetName files)"
    unfolding B(2) by (metis distinct_map distinct_sort inj_on_cong set_sort)
  moreover have "sorted (map File_GetName files)"
    unfolding B(2) by simp
  ultimately show "sorted_wrt (<) (map File_GetName files)"
    by (rule sorted_distinct_strict[rotated])
  show "ParseCodeGenRequestAllFiles order' req = Inr files"
    using assms(3) unfolding driver_char[OF assms(1)] driver_char[OF assms(2)] .
qed

lemma parseFile_older_name: "File_GetName_older (parseFile_older pf) = file_name pf"
  using parseFile_older_fields[of pf] by (auto simp: File_GetName_older_def)

lemma building_older_names:
  assumes "\<forall>(k, f) \<in> set al. File_GetName_older f = k" and "distinct (map fst al)"
  shows "(\<forall>(k, f) \<in> set (building_older al pfs). File_GetName_older f = k)
       \<and> distinct (map fst (building_older al pfs))"
  using assms
proof (induction pfs arbitrary: al)
  case Nil
  then show ?case by simp
next
  case (Cons pf pfs)
  let ?al1 = "AList.update (file_name pf) (parseFile_older pf) al"
  have "\<forall>(k, f) \<in> set ?al1. File_GetName_older f = k"
    using Cons.prems(1) set_update_cases[of _ _ "file_name pf" "parseFile_older pf" al]
    by (fastforce simp: parseFile_older_name)
  moreover have "distinct (map fst ?al1)"
    using Cons.prems(2) by (rule distinct_update)
  ultimately show ?case using Cons.IH[of ?al1] by simp
qed

lemma parseAllImports_older_name:
  "parseAllImports_older f al = Inr f' \<Longrightarrow> File_GetName_older f' = File_GetName_older f"
  by (auto simp: parseAllImports_older_def File_GetName_older_def split: sum.splits)

lemma linking_older_names:
  "linking_older visited rest = Inr linked \<Longrightarrow>
     map (\<lambda>kf. (fst kf, File_GetName_older (snd kf))) linked =
     map (\<lambda>kf. (fst kf, File_GetName_older (snd kf))) (visited @ rest)"
proof (induction rest arbitrary: visited)
  case Nil
  then show ?case by simp
next
  case (Cons kf rest)
  obtain k f where kf: "kf = (k, f)" by (cases kf)
  from Cons.prems obtain f' where p: "parseAllImports_older f (visited @ (k, f) # rest) = Inr f'"
    and l: "linking_older (visited @ [(k, f')]) rest = Inr linked"
    unfolding kf by (auto split: sum.splits)
  from Cons.IH[OF l] parseAllImports_older_name[OF p] show ?case
    by (simp add: kf)
qed

lemma update_same_name:
  assumes "map_of al n = Some f" and "File_GetName_older v = File_GetName_older f"
  shows "map (\<lambda>kf. (fst kf, File_GetName_older (snd kf))) (AList.update n v al) =
         map (\<lambda>kf. (fst kf, File_GetName_older (snd kf))) al"
  using assms by (induction al) (auto split: if_splits)

lemma marking_older_names:
  "marking_older al ns = Inr marked \<Longrightarrow>
     map (\<lambda>kf. (fst kf, File_GetName_older (snd kf))) marked =
     map (\<lambda>kf. (fst kf, File_GetName_older (snd kf))) al"
proof (induction ns arbitrary: al)
  case Nil
  then show ?case by simp
next
  case (Cons n ns)
  from Cons.prems obtain f where f: "map_of al n = Some f"
    and m: "marking_older (AList.update n (f\<lparr>IsFileToGenerate_older := True\<rparr>) al) ns = Inr marked"
    by (auto split: option.splits)
  have "File_GetName_older (f\<lparr>IsFileToGenerate_older := True\<rparr>) = File_GetName_older f"
    by (simp add: File_GetName_older_def)
  from Cons.IH[OF m] update_same_name[OF f this] show ?case
    by simp
qed

lemma returned_in_visit_order:
  assumes "visit_order_older order"
    and "ParseCodeGenRequestAllFiles_older order req = Inr files"
  shows "map File_GetName_older files = map fst (order (building_older [] (ProtoFile req)))"
proof -
  let ?B = "building_older [] (ProtoFile req)"
  let ?phi = "\<lambda>kf. (fst kf, File_GetName_older (snd kf))"
  from assms(2) obtain linked marked where l: "linking_older [] (order ?B) = Inr linked"
    and m: "marking_older linked (FileToGenerate req) = Inr marked" and f: "files = map snd marked"
    unfolding ParseCodeGenRequestAllFiles_older_def by (auto split: sum.splits)
  have "mset (order ?B) = mset ?B" using assms(1) by (simp add: visit_order_older_def)
  then have "set (order ?B) = set ?B" by (rule mset_eq_setD)
  moreover have "\<forall>(k, f) \<in> set ?B. File_GetName_older f = k"
    using building_older_names[of "[]" "ProtoFile req"] by simp
  ultimately have n: "\<forall>kf \<in> set (order ?B). File_GetName_older (snd kf) = fst kf"
    by auto
  have "map ?phi marked = map ?phi (order ?B)"
    using marking_older_names[OF m] linking_older_names[OF l] by simp
  then have "map snd (map ?phi marked) = map snd (map ?phi (order ?B))"
    by (rule arg_cong)
  then have "map File_GetName_older (map snd marked) = map (\<lambda>kf. File_GetName_older (snd kf)) (order ?B)"
    by (simp add: comp_def)
  also have "\<dots> = map fst (order ?B)"
    using n by (simp cong: map_cong)
  finally show ?thesis unfolding f .
qed

text \<open>
  C7, as the code has it. The newer driver sorts: whatever the order in which the
  second loop visits the map, the files that \<open>ParseCodeGenRequestAllFiles\<close> returns are
  in strictly increasing order of their names, and every other order of visit returns
  the same list. The older driver has no sort: the files it returns stand in the order
  in which the second loop visited the map.
\<close>

theorem C7_sorted_by_name:
  "(\<forall>order order' files. visit_order order \<longrightarrow> visit_order order' \<longrightarrow>
      ParseCodeGenRequestAllFiles order req = Inr files \<longrightarrow>
      sorted_wrt (<) (map File_GetName files) \<and>
      ParseCodeGenRequestAllFiles order' req = Inr files) \<and>
   (\<forall>order files. visit_order_older order \<longrightarrow>
      ParseCodeGenRequestAllFiles_older order req = Inr files \<longrightarrow>
      map File_GetName_older files = map fst (order (building_older [] (ProtoFile req))))"
  using sorted_by_name_newer returned_in_visit_order by blast

text \<open>
  A request of two files, the dependency first. The newer driver, visiting in the order
  of the map or in the reverse order, returns \<open>x.proto\<close> before \<open>y.proto\<close>. The older
  driver, visiting in the order of the map, returns the names in that order.
\<close>

theorem C7_sorted_by_name_witness:
  "map File_GetName (projr (ParseCodeGenRequestAllFiles id
      \<lparr>FileToGenerate = [''x.proto''],
       ProtoFile =
        [\<lparr>file_name = ''y.proto'', file_package = ''b'', file_dependency = [],
          file_public_dependency = [], file_message_type = [], file_enum_type = [],
          file_service = [], file_extension = [], file_syntax = ''proto3'',
          file_source_code_info = []\<rparr>,
         \<lparr>file_name = ''x.proto'', file_package = ''a'', file_dependency = [''y.proto''],
          file_public_dependency = [], file_message_type = [], file_enum_type = [],
          file_service = [], file_extension = [], file_syntax = ''proto3'',
          file_source_code_info = []\<rparr>]\<rparr>)) = [''x.proto'', ''y.proto'']
   \<and> sorted_wrt (<) (map File_GetName (projr (ParseCodeGenRequestAllFiles id
      \<lparr>FileToGenerate = [''x.proto''],
       ProtoFile =
        [\<lparr>file_name = ''y.proto'', file_package = ''b'', file_dependency = [],
          file_public_dependency = [], file_message_type = [], file_enum_type = [],
          file_service = [], file_extension = [], file_syntax = ''proto3'',
          file_source_code_info = []\<rparr>,
         \<lparr>file_name = ''x.proto'', file_package = ''a'', file_dependency = [''y.proto''],
          file_public_dependency = [], file_message_type = [], file_enum_type = [],
          file_service = [], file_extension = [], file_syntax = ''proto3'',
          file_source_code_info = []\<rparr>]\<rparr>)))
   \<and> ParseCodeGenRequestAllFiles rev
      \<lparr>FileToGenerate = [''x.proto''],
       ProtoFile =
        [\<lparr>file_name = ''y.proto'', file_package = ''b'', file_dependency = [],
          file_public_dependency = [], file_message_type = [], file_enum_type = [],
          file_service = [], file_extension = [], file_syntax = ''proto3'',
          file_source_code_info = []\<rparr>,
         \<lparr>file_name = ''x.proto'', file_package = ''a'', file_dependency = [''y.proto''],
          file_public_dependency = [], file_message_type = [], file_enum_type = [],
          file_service = [], file_extension = [], file_syntax = ''proto3'',
          file_source_code_info = []\<rparr>]\<rparr>
     = Inr (projr (ParseCodeGenRequestAllFiles id
      \<lparr>FileToGenerate = [''x.proto''],
       ProtoFile =
        [\<lparr>file_name = ''y.proto'', file_package = ''b'', file_dependency = [],
          file_public_dependency = [], file_message_type = [], file_enum_type = [],
          file_service = [], file_extension = [], file_syntax = ''proto3'',
          file_source_code_info = []\<rparr>,
         \<lparr>file_name = ''x.proto'', file_package = ''a'', file_dependency = [''y.proto''],
          file_public_dependency = [], file_message_type = [], file_enum_type = [],
          file_service = [], file_extension = [], file_syntax = ''proto3'',
          file_source_code_info = []\<rparr>]\<rparr>))
   \<and> map File_GetName_older (projr (ParseCodeGenRequestAllFiles_older id
      \<lparr>FileToGenerate = [''x.proto''],
       ProtoFile =
        [\<lparr>file_name = ''y.proto'', file_package = ''b'', file_dependency = [],
          file_public_dependency = [], file_message_type = [], file_enum_type = [],
          file_service = [], file_extension = [], file_syntax = ''proto3'',
          file_source_code_info = []\<rparr>,
         \<lparr>file_name = ''x.proto'', file_package = ''a'', file_dependency = [''y.proto''],
          file_public_dependency = [], file_message_type = [], file_enum_type = [],
          file_service = [], file_extension = [], file_syntax = ''proto3'',
          file_source_code_info = []\<rparr>]\<rparr>))
     = map fst (id (building_older [] (ProtoFile
      \<lparr>FileToGenerate = [''x.proto''],
       ProtoFile =
        [\<lparr>file_name = ''y.proto'', file_package = ''b'', file_dependency = [],
          file_public_dependency = [], file_message_type = [], file_enum_type = [],
          file_service = [], file_extension = [], file_syntax = ''proto3'',
          file_source_code_info = []\<rparr>,
         \<lparr>file_name = ''x.proto'', file_package = ''a'', file_dependency = [''y.proto''],
          file_public_dependency = [], file_message_type = [], file_enum_type = [],
          file_service = [], file_extension = [], file_syntax = ''proto3'',
          file_source_code_info = []\<rparr>]\<rparr>)))"
proof -
  let ?req = "\<lparr>FileToGenerate = [''x.proto''],
       ProtoFile =
        [\<lparr>file_name = ''y.proto'', file_package = ''b'', file_dependency = [],
          file_public_dependency = [], file_message_type = [], file_enum_type = [],
          file_service = [], file_extension = [], file_syntax = ''proto3'',
          file_source_code_info = []\<rparr>,
         \<lparr>file_name = ''x.proto'', file_package = ''a'', file_dependency = [''y.proto''],
          file_public_dependency = [], file_message_type = [], file_enum_type = [],
          file_service = [], file_extension = [], file_syntax = ''proto3'',
          file_source_code_info = []\<rparr>]\<rparr>"
  have o: "visit_order id" "visit_order rev" "visit_order_older id"
    by (simp_all add: visit_order_def visit_order_older_def)
  have "\<not> isl (ParseCodeGenRequestAllFiles id ?req)"
    by code_simp
  then have 1: "ParseCodeGenRequestAllFiles id ?req = Inr (projr (ParseCodeGenRequestAllFiles id ?req))"
    by (rule sum.collapse(2)[symmetric])
  have "\<not> isl (ParseCodeGenRequestAllFiles_older id ?req)"
    by code_simp
  then have 2: "ParseCodeGenRequestAllFiles_older id ?req
      = Inr (projr (ParseCodeGenRequestAllFiles_older id ?req))"
    by (rule sum.collapse(2)[symmetric])
  have 3: "map File_GetName (projr (ParseCodeGenRequestAllFiles id ?req)) = [''x.proto'', ''y.proto'']"
    by code_simp
  note n = C7_sorted_by_name[of ?req, THEN conjunct1, THEN spec, THEN spec, THEN spec,
      THEN mp, OF o(1), THEN mp, OF o(2), THEN mp, OF 1]
  note d = C7_sorted_by_name[of ?req, THEN conjunct2, THEN spec, THEN spec,
      THEN mp, OF o(3), THEN mp, OF 2]
  show ?thesis
    using 3 n[THEN conjunct1] n[THEN conjunct2] d by (intro conjI)
qed

text \<open>
  C7 as the spec words it fails for the older driver: for the same request it returns
  \<open>y.proto\<close> before \<open>x.proto\<close> when the second loop visits the map in the order of its
  entries, and \<open>x.proto\<close> before \<open>y.proto\<close> when it visits in the reverse order.
\<close>

theorem C7_counterexample:
  "map File_GetName_older (projr (ParseCodeGenRequestAllFiles_older id
      \<lparr>FileToGenerate = [''x.proto''],
       ProtoFile =
        [\<lparr>file_name = ''y.proto'', file_package = ''b'', file_dependency = [],
          file_public_dependency = [], file_message_type = [], file_enum_type = [],
          file_service = [], file_extension = [], file_syntax = ''proto3'',
          file_source_code_info = []\<rparr>,
         \<lparr>file_name = ''x.proto'', file_package = ''a'', file_dependency = [''y.proto''],
          file_public_dependency = [], file_message_type = [], file_enum_type = [],
          file_service = [], file_extension = [], file_syntax = ''proto3'',
          file_source_code_info = []\<rparr>]\<rparr>)) = [''y.proto'', ''x.proto'']
   \<and> \<not> sorted_wrt (<) [''y.proto'', ''x.proto'']
   \<and> map File_GetName_older (projr (ParseCodeGenRequestAllFiles_older rev
      \<lparr>FileToGenerate = [''x.proto''],
       ProtoFile =
        [\<lparr>file_name = ''y.proto'', file_package = ''b'', file_dependency = [],
          file_public_dependency = [], file_message_type = [], file_enum_type = [],
          file_service = [], file_extension = [], file_syntax = ''proto3'',
          file_source_code_info = []\<rparr>,
         \<lparr>file_name = ''x.proto'', file_package = ''a'', file_dependency = [''y.proto''],
          file_public_dependency = [], file_message_type = [], file_enum_type = [],
          file_service = [], file_extension = [], file_syntax = ''proto3'',
          file_source_code_info = []\<rparr>]\<rparr>)) = [''x.proto'', ''y.proto'']"
  by code_simp

section \<open>Marking the files to generate\<close>

lemma driver_after_linking:
  assumes "visit_order order" and "building [] (ProtoFile req) = Inr built"
    and "linking [] (order built) = Inr linked"
  shows "marking linked (FileToGenerate req) =
     (if set (FileToGenerate req) \<subseteq> file_name ` set (ProtoFile req)
      then Inr (map (\<lambda>(k, f). (k, if k \<in> set (FileToGenerate req)
                                   then f\<lparr>IsFileToGenerate := True\<rparr> else f)) linked)
      else Inl NilPointerDereference)"
    and "ParseCodeGenRequestAllFiles order req =
     (if set (FileToGenerate req) \<subseteq> file_name ` set (ProtoFile req)
      then Inr (sort_key File_GetName (map (finished built (FileToGenerate req)) built))
      else Inl NilPointerDereference)"
proof -
  have bf: "built_from (ProtoFile req) built" using assms(2) by (rule building_built)
  then have wf: "wf_files built" and keys: "fst ` set built = file_name ` set (ProtoFile req)"
    by (simp_all add: built_from_def)
  have c1: "\<forall>(k, f) \<in> set built. \<not> isl (imports_in built f)"
    using assms(3) loops_char(1)[OF assms(1) wf] by (simp split: if_splits)
  then have l: "linked = map (\<lambda>(k, f). (k, f\<lparr>Imports := projr (imports_in built f)\<rparr>)) (order built)"
    using assms(3) loops_char(1)[OF assms(1) wf] by (simp only: if_P sum.inject)
  show "marking linked (FileToGenerate req) =
     (if set (FileToGenerate req) \<subseteq> file_name ` set (ProtoFile req)
      then Inr (map (\<lambda>(k, f). (k, if k \<in> set (FileToGenerate req)
                                   then f\<lparr>IsFileToGenerate := True\<rparr> else f)) linked)
      else Inl NilPointerDereference)"
    unfolding l keys[symmetric] by (rule loops_char(2)[OF assms(1) wf])
  show "ParseCodeGenRequestAllFiles order req =
     (if set (FileToGenerate req) \<subseteq> file_name ` set (ProtoFile req)
      then Inr (sort_key File_GetName (map (finished built (FileToGenerate req)) built))
      else Inl NilPointerDereference)"
    unfolding driver_char[OF assms(1)] assms(2) keys[symmetric] using c1 by simp
qed

lemma driver_missing_name:
  assumes "visit_order order"
    and "\<not> set (FileToGenerate req) \<subseteq> file_name ` set (ProtoFile req)"
  shows "\<exists>p. ParseCodeGenRequestAllFiles order req = Inl p"
proof (cases "building [] (ProtoFile req)")
  case (Inl e)
  then show ?thesis by (simp add: driver_char[OF assms(1)])
next
  case (Inr B)
  have "fst ` set B = file_name ` set (ProtoFile req)"
    using building_built[OF Inr] by (simp add: built_from_def)
  then show ?thesis using Inr assms(2) by (simp add: driver_char[OF assms(1)])
qed

text \<open>
  C10. When a name to generate is not the name of a file of the request, the driver
  ends in a panic and returns no error value: once the first two loops have completed,
  the third loop dereferences the \<open>nil\<close> entry of the map. When every name to generate
  is the name of a file of the request and the first two loops have completed, the third
  loop completes, the driver returns one file for each name of the request, and exactly
  the files named in \<open>FileToGenerate\<close> are marked.
\<close>

theorem C10_marking:
  assumes "visit_order order"
  shows "((\<exists>n\<in>set (FileToGenerate req). n \<notin> file_name ` set (ProtoFile req)) \<longrightarrow>
            (\<exists>p. ParseCodeGenRequestAllFiles order req = Inl p) \<and>
            (\<forall>built linked. building [] (ProtoFile req) = Inr built \<longrightarrow>
               linking [] (order built) = Inr linked \<longrightarrow>
               marking linked (FileToGenerate req) = Inl NilPointerDereference \<and>
               ParseCodeGenRequestAllFiles order req = Inl NilPointerDereference)) \<and>
         (set (FileToGenerate req) \<subseteq> file_name ` set (ProtoFile req) \<longrightarrow>
            (\<forall>built linked. building [] (ProtoFile req) = Inr built \<longrightarrow>
               linking [] (order built) = Inr linked \<longrightarrow>
               (\<exists>marked files. marking linked (FileToGenerate req) = Inr marked \<and>
                  ParseCodeGenRequestAllFiles order req = Inr files \<and>
                  File_GetName ` set files = file_name ` set (ProtoFile req) \<and>
                  (\<forall>F\<in>set files.
                     IsFileToGenerate F \<longleftrightarrow> File_GetName F \<in> set (FileToGenerate req)))))"
proof (intro conjI impI allI)
  assume "\<exists>n\<in>set (FileToGenerate req). n \<notin> file_name ` set (ProtoFile req)"
  then have n: "\<not> set (FileToGenerate req) \<subseteq> file_name ` set (ProtoFile req)" by blast
  then show "\<exists>p. ParseCodeGenRequestAllFiles order req = Inl p"
    by (rule driver_missing_name[OF assms])
  fix built linked
  assume b: "building [] (ProtoFile req) = Inr built" and l: "linking [] (order built) = Inr linked"
  show "marking linked (FileToGenerate req) = Inl NilPointerDereference"
    using driver_after_linking(1)[OF assms b l] unfolding if_not_P[OF n] .
  show "ParseCodeGenRequestAllFiles order req = Inl NilPointerDereference"
    using driver_after_linking(2)[OF assms b l] unfolding if_not_P[OF n] .
next
  fix built linked
  assume s: "set (FileToGenerate req) \<subseteq> file_name ` set (ProtoFile req)"
    and b: "building [] (ProtoFile req) = Inr built" and l: "linking [] (order built) = Inr linked"
  let ?files = "sort_key File_GetName (map (finished built (FileToGenerate req)) built)"
  have bf: "built_from (ProtoFile req) built" using b by (rule building_built)
  then have wf: "wf_files built" and keys: "fst ` set built = file_name ` set (ProtoFile req)"
    by (simp_all add: built_from_def)
  have names: "File_GetName (finished built (FileToGenerate req) kf) = fst kf"
    if "kf \<in> set built" for kf
    using that wf by (cases kf) (auto simp: wf_files_def)
  have m: "marking linked (FileToGenerate req) =
      Inr (map (\<lambda>(k, f). (k, if k \<in> set (FileToGenerate req)
                                   then f\<lparr>IsFileToGenerate := True\<rparr> else f)) linked)"
    using driver_after_linking(1)[OF assms b l] unfolding if_P[OF s] .
  have p: "ParseCodeGenRequestAllFiles order req = Inr ?files"
    using driver_after_linking(2)[OF assms b l] unfolding if_P[OF s] .
  have sf: "set ?files = finished built (FileToGenerate req) ` set built"
    by simp
  have "File_GetName ` set ?files =
        (\<lambda>kf. File_GetName (finished built (FileToGenerate req) kf)) ` set built"
    unfolding sf by (simp only: image_image)
  also have "\<dots> = fst ` set built"
    by (rule image_cong) (simp_all only: names)
  finally have n: "File_GetName ` set ?files = file_name ` set (ProtoFile req)"
    unfolding keys .
  have f: "\<forall>F\<in>set ?files. IsFileToGenerate F \<longleftrightarrow> File_GetName F \<in> set (FileToGenerate req)"
  proof
    fix F assume "F \<in> set ?files"
    then obtain kf where kf: "kf \<in> set built" "F = finished built (FileToGenerate req) kf"
      unfolding sf by blast
    show "IsFileToGenerate F \<longleftrightarrow> File_GetName F \<in> set (FileToGenerate req)"
      unfolding kf(2) names[OF kf(1)] by (simp only: finished_sel)
  qed
  show "\<exists>marked files. marking linked (FileToGenerate req) = Inr marked \<and>
                  ParseCodeGenRequestAllFiles order req = Inr files \<and>
                  File_GetName ` set files = file_name ` set (ProtoFile req) \<and>
                  (\<forall>F\<in>set files.
                     IsFileToGenerate F \<longleftrightarrow> File_GetName F \<in> set (FileToGenerate req))"
    using m p n f by blast
qed

text \<open>
  The scenario of the spec, a batch of \<open>x.proto\<close> and \<open>y.proto\<close>: asked to generate
  \<open>z.proto\<close> the driver panics on the \<open>nil\<close> entry; asked to generate \<open>x.proto\<close> it
  marks \<open>x.proto\<close> and leaves \<open>y.proto\<close> unmarked.
\<close>

theorem C10_marking_witness:
  "ParseCodeGenRequestAllFiles id
      \<lparr>FileToGenerate = [''z.proto''],
       ProtoFile =
        [\<lparr>file_name = ''x.proto'', file_package = ''a'', file_dependency = [],
          file_public_dependency = [], file_message_type = [], file_enum_type = [],
          file_service = [], file_extension = [], file_syntax = ''proto3'',
          file_source_code_info = []\<rparr>,
         \<lparr>file_name = ''y.proto'', file_package = ''b'', file_dependency = [],
          file_public_dependency = [], file_message_type = [], file_enum_type = [],
          file_service = [], file_extension = [], file_syntax = ''proto3'',
          file_source_code_info = []\<rparr>]\<rparr> = Inl NilPointerDereference
   \<and> map File_GetName (projr (ParseCodeGenRequestAllFiles id
      \<lparr>FileToGenerate = [''x.proto''],
       ProtoFile =
        [\<lparr>file_name = ''x.proto'', file_package = ''a'', file_dependency = [],
          file_public_dependency = [], file_message_type = [], file_enum_type = [],
          file_service = [], file_extension = [], file_syntax = ''proto3'',
          file_source_code_info = []\<rparr>,
         \<lparr>file_name = ''y.proto'', file_package = ''b'', file_dependency = [],
          file_public_dependency = [], file_message_type = [], file_enum_type = [],
          file_service = [], file_extension = [], file_syntax = ''proto3'',
          file_source_code_info = []\<rparr>]\<rparr>)) = [''x.proto'', ''y.proto'']
   \<and> IsFileToGenerate (projr (ParseCodeGenRequestAllFiles id
      \<lparr>FileToGenerate = [''x.proto''],
       ProtoFile =
        [\<lparr>file_name = ''x.proto'', file_package = ''a'', file_dependency = [],
          file_public_dependency = [], file_message_type = [], file_enum_type = [],
          file_service = [], file_extension = [], file_syntax = ''proto3'',
          file_source_code_info = []\<rparr>,
         \<lparr>file_name = ''y.proto'', file_package = ''b'', file_dependency = [],
          file_public_dependency = [], file_message_type = [], file_enum_type = [],
          file_service = [], file_extension = [], file_syntax = ''proto3'',
          file_source_code_info = []\<rparr>]\<rparr>) ! 0)
   \<and> \<not> IsFileToGenerate (projr (ParseCodeGenRequestAllFiles id
      \<lparr>FileToGenerate = [''x.proto''],
       ProtoFile =
        [\<lparr>file_name = ''x.proto'', file_package = ''a'', file_dependency = [],
          file_public_dependency = [], file_message_type = [], file_enum_type = [],
          file_service = [], file_extension = [], file_syntax = ''proto3'',
          file_source_code_info = []\<rparr>,
         \<lparr>file_name = ''y.proto'', file_package = ''b'', file_dependency = [],
          file_public_dependency = [], file_message_type = [], file_enum_type = [],
          file_service = [], file_extension = [], file_syntax = ''proto3'',
          file_source_code_info = []\<rparr>]\<rparr>) ! 1)"
proof -
  let ?pfs = "[\<lparr>file_name = ''x.proto'', file_package = ''a'', file_dependency = [],
          file_public_dependency = [], file_message_type = [], file_enum_type = [],
          file_service = [], file_extension = [], file_syntax = ''proto3'',
          file_source_code_info = []\<rparr>,
         \<lparr>file_name = ''y.proto'', file_package = ''b'', file_dependency = [],
          file_public_dependency = [], file_message_type = [], file_enum_type = [],
          file_service = [], file_extension = [], file_syntax = ''proto3'',
          file_source_code_info = []\<rparr>]"
  let ?bad = "\<lparr>FileToGenerate = [''z.proto''], ProtoFile = ?pfs\<rparr>"
  let ?good = "\<lparr>FileToGenerate = [''x.proto''], ProtoFile = ?pfs\<rparr>"
  let ?built = "projr (building [] ?pfs)"
  let ?linked = "projr (linking [] (id ?built))"
  let ?files = "projr (ParseCodeGenRequestAllFiles id ?good)"
  have o: "visit_order id"
    by (simp add: visit_order_def)
  have "\<not> isl (building [] ?pfs)"
    by code_simp
  then have b: "building [] ?pfs = Inr ?built"
    by simp
  have "\<not> isl (linking [] (id ?built))"
    by code_simp
  then have l: "linking [] (id ?built) = Inr ?linked"
    by simp
  have miss: "\<exists>n\<in>set (FileToGenerate ?bad). n \<notin> file_name ` set (ProtoFile ?bad)"
    by simp
  have sub: "set (FileToGenerate ?good) \<subseteq> file_name ` set (ProtoFile ?good)"
    by simp
  have b1: "building [] (ProtoFile ?bad) = Inr ?built" and b2: "building [] (ProtoFile ?good) = Inr ?built"
    using b by simp_all
  note bad = C10_marking[OF o, of ?bad, THEN conjunct1, THEN mp, OF miss, THEN conjunct2,
      THEN spec, THEN spec, THEN mp, OF b1, THEN mp, OF l, THEN conjunct2]
  note good = C10_marking[OF o, of ?good, THEN conjunct2, THEN mp, OF sub,
      THEN spec, THEN spec, THEN mp, OF b2, THEN mp, OF l]
  then obtain marked files where p: "ParseCodeGenRequestAllFiles id ?good = Inr files"
    and f: "\<forall>F\<in>set files. IsFileToGenerate F \<longleftrightarrow> File_GetName F \<in> set (FileToGenerate ?good)"
    by (elim exE conjE)
  have files: "files = ?files"
    using arg_cong[OF p, of projr] by (simp only: sum.sel)
  have n: "map File_GetName ?files = [''x.proto'', ''y.proto'']"
    by code_simp
  have len: "0 < length ?files" "1 < length ?files"
    by code_simp+
  have n0: "File_GetName (?files ! 0) = ''x.proto''" and n1: "File_GetName (?files ! 1) = ''y.proto''"
    by code_simp+
  have m0: "?files ! 0 \<in> set files" and m1: "?files ! 1 \<in> set files"
    unfolding files by (rule nth_mem[OF len(1)], rule nth_mem[OF len(2)])
  have g0: "''x.proto'' \<in> set (FileToGenerate ?good)" and g1: "''y.proto'' \<notin> set (FileToGenerate ?good)"
    by simp_all
  have f0: "IsFileToGenerate (?files ! 0)"
    using f[THEN bspec, OF m0, unfolded n0] g0 by (rule iffD2)
  have f1: "\<not> IsFileToGenerate (?files ! 1)"
  proof
    assume a: "IsFileToGenerate (?files ! 1)"
    from g1 iffD1[OF f[THEN bspec, OF m1, unfolded n1] a] show False
      by (rule notE)
  qed
  show ?thesis
    using bad n f0 f1 by (intro conjI)
qed

section \<open>Dependency pointers\<close>

lemma parsePublicDependencies_char:
  "parsePublicDependencies al deps ds acc =
     (if \<forall>d \<in> set ds. 0 \<le> d \<and> nat d < length deps
      then Inr (acc @ map (\<lambda>d. file_pointer al (deps ! nat d)) ds)
      else Inl IndexOutOfRange)"
  by (induction ds arbitrary: acc) auto

lemma parseFile_public:
  assumes "parseFile al fd = Inr F"
  shows "PublicDependencies F =
           map (\<lambda>d. file_pointer al (file_dependency fd ! nat d)) (file_public_dependency fd)"
    and "\<forall>d \<in> set (file_public_dependency fd). 0 \<le> d \<and> nat d < length (file_dependency fd)"
  using assms unfolding parseFile_def Let_def parsePublicDependencies_char
  by (auto split: if_splits)

text \<open>
  C4, as the code has it. \<open>parseFile\<close> resolves the dependency pointers while the
  files are being built, against the map as filled so far. A returned file was parsed
  from the proto at some index \<open>j\<close> of the request; its \<open>Dependencies\<close> and
  \<open>PublicDependencies\<close> have one entry for each declared dependency and public
  dependency, and the entry is the pointer to the assembled file of that name when a
  proto of that name stands before index \<open>j\<close> in the request, and \<open>nil\<close> otherwise.
  Every pointer that is not \<open>nil\<close> names a returned file.
\<close>

theorem C4_dependency_pointers:
  assumes "visit_order order" and "ParseCodeGenRequestAllFiles order req = Inr files"
    and "F \<in> set files"
  shows "\<exists>j<length (ProtoFile req). desc F = ProtoFile req ! j \<and>
     length (Dependencies F) = length (file_dependency (desc F)) \<and>
     (\<forall>i<length (file_dependency (desc F)).
        Dependencies F ! i =
          (if file_dependency (desc F) ! i \<in> file_name ` set (take j (ProtoFile req))
           then Some (file_dependency (desc F) ! i) else None)) \<and>
     length (PublicDependencies F) = length (file_public_dependency (desc F)) \<and>
     (\<forall>i<length (file_public_dependency (desc F)).
        0 \<le> file_public_dependency (desc F) ! i \<and>
        nat (file_public_dependency (desc F) ! i) < length (file_dependency (desc F)) \<and>
        PublicDependencies F ! i =
          (if file_dependency (desc F) ! nat (file_public_dependency (desc F) ! i)
                \<in> file_name ` set (take j (ProtoFile req))
           then Some (file_dependency (desc F) ! nat (file_public_dependency (desc F) ! i))
           else None)) \<and>
     (\<forall>d. Some d \<in> set (Dependencies F) \<union> set (PublicDependencies F) \<longrightarrow>
        (\<exists>D\<in>set files. File_GetName D = d))"
proof -
  let ?pfs = "ProtoFile req"
  from returned_file[OF assms] obtain B k f where
    bf: "built_from ?pfs B" and sf: "set files = finished B (FileToGenerate req) ` set B"
    and kf: "(k, f) \<in> set B" and F: "F = finished B (FileToGenerate req) (k, f)"
    by blast
  from bf kf obtain j prev where j: "j < length ?pfs" and p: "parseFile prev (?pfs ! j) = Inr f"
    and wfp: "wf_files prev" and keysp: "fst ` set prev = file_name ` set (take j ?pfs)"
    unfolding built_from_def by blast
  have wf: "wf_files B" and keys: "fst ` set B = file_name ` set ?pfs"
    using bf by (simp_all add: built_from_def)
  note e = parseFile_entities[OF p] parseFile_public[OF p]
  have ptr: "file_pointer prev d =
      (if d \<in> file_name ` set (take j ?pfs) then Some d else None)" for d
    using file_pointer_wf[OF wfp, of d] keysp by simp
  have d: "desc F = ?pfs ! j" "Dependencies F = Dependencies f"
    "PublicDependencies F = PublicDependencies f"
    unfolding F by (simp_all add: e(1))
  have deps: "Dependencies F = map (\<lambda>d. if d \<in> file_name ` set (take j ?pfs) then Some d else None)
      (file_dependency (?pfs ! j))"
    unfolding d(2) e(7) by (simp add: ptr)
  have pubs: "PublicDependencies F =
      map (\<lambda>i. if file_dependency (?pfs ! j) ! nat i \<in> file_name ` set (take j ?pfs)
                then Some (file_dependency (?pfs ! j) ! nat i) else None)
          (file_public_dependency (?pfs ! j))"
    unfolding d(3) e(10) by (simp add: ptr)
  have target: "\<exists>D\<in>set files. File_GetName D = n" if "n \<in> file_name ` set (take j ?pfs)" for n
  proof -
    have "n \<in> file_name ` set ?pfs" using that by (meson image_mono in_mono set_take_subset)
    then obtain g where g: "(n, g) \<in> set B" using keys by force
    then have "File_GetName g = n" using wf by (auto simp: wf_files_def)
    then have "File_GetName (finished B (FileToGenerate req) (n, g)) = n" by simp
    moreover have "finished B (FileToGenerate req) (n, g) \<in> set files"
      unfolding sf using g by (rule imageI)
    ultimately show ?thesis by blast
  qed
  have t: "\<forall>d. Some d \<in> set (Dependencies F) \<union> set (PublicDependencies F) \<longrightarrow>
        (\<exists>D\<in>set files. File_GetName D = d)"
    unfolding deps pubs using target by (auto split: if_splits)
  show ?thesis
    using j d(1) e(11) t unfolding deps pubs d(1)
    by (intro exI[of _ j]) (simp)
qed

text \<open>
  A request in the order \<open>protoc\<close> sends, the dependency first: \<open>x.proto\<close> gets the
  pointer to \<open>y.proto\<close> as its dependency and as its public dependency.
\<close>

theorem C4_dependency_pointers_witness:
  "Dependencies (projr (ParseCodeGenRequestAllFiles id
      \<lparr>FileToGenerate = [''x.proto''],
       ProtoFile =
        [\<lparr>file_name = ''y.proto'', file_package = ''b'', file_dependency = [],
          file_public_dependency = [], file_message_type = [], file_enum_type = [],
          file_service = [], file_extension = [], file_syntax = ''proto3'',
          file_source_code_info = []\<rparr>,
         \<lparr>file_name = ''x.proto'', file_package = ''a'', file_dependency = [''y.proto''],
          file_public_dependency = [0], file_message_type = [], file_enum_type = [],
          file_service = [], file_extension = [], file_syntax = ''proto3'',
          file_source_code_info = []\<rparr>]\<rparr>) ! 0) = [Some ''y.proto'']
   \<and> PublicDependencies (projr (ParseCodeGenRequestAllFiles id
      \<lparr>FileToGenerate = [''x.proto''],
       ProtoFile =
        [\<lparr>file_name = ''y.proto'', file_package = ''b'', file_dependency = [],
          file_public_dependency = [], file_message_type = [], file_enum_type = [],
          file_service = [], file_extension = [], file_syntax = ''proto3'',
          file_source_code_info = []\<rparr>,
         \<lparr>file_name = ''x.proto'', file_package = ''a'', file_dependency = [''y.proto''],
          file_public_dependency = [0], file_message_type = [], file_enum_type = [],
          file_service = [], file_extension = [], file_syntax = ''proto3'',
          file_source_code_info = []\<rparr>]\<rparr>) ! 0) = [Some ''y.proto'']
   \<and> length (Dependencies (projr (ParseCodeGenRequestAllFiles id
      \<lparr>FileToGenerate = [''x.proto''],
       ProtoFile =
        [\<lparr>file_name = ''y.proto'', file_package = ''b'', file_dependency = [],
          file_public_dependency = [], file_message_type = [], file_enum_type = [],
          file_service = [], file_extension = [], file_syntax = ''proto3'',
          file_source_code_info = []\<rparr>,
         \<lparr>file_name = ''x.proto'', file_package = ''a'', file_dependency = [''y.proto''],
          file_public_dependency = [0], file_message_type = [], file_enum_type = [],
          file_service = [], file_extension = [], file_syntax = ''proto3'',
          file_source_code_info = []\<rparr>]\<rparr>) ! 0))
     = length (file_dependency (desc (projr (ParseCodeGenRequestAllFiles id
      \<lparr>FileToGenerate = [''x.proto''],
       ProtoFile =
        [\<lparr>file_name = ''y.proto'', file_package = ''b'', file_dependency = [],
          file_public_dependency = [], file_message_type = [], file_enum_type = [],
          file_service = [], file_extension = [], file_syntax = ''proto3'',
          file_source_code_info = []\<rparr>,
         \<lparr>file_name = ''x.proto'', file_package = ''a'', file_dependency = [''y.proto''],
          file_public_dependency = [0], file_message_type = [], file_enum_type = [],
          file_service = [], file_extension = [], file_syntax = ''proto3'',
          file_source_code_info = []\<rparr>]\<rparr>) ! 0)))"
proof -
  let ?req = "\<lparr>FileToGenerate = [''x.proto''],
       ProtoFile =
        [\<lparr>file_name = ''y.proto'', file_package = ''b'', file_dependency = [],
          file_public_dependency = [], file_message_type = [], file_enum_type = [],
          file_service = [], file_extension = [], file_syntax = ''proto3'',
          file_source_code_info = []\<rparr>,
         \<lparr>file_name = ''x.proto'', file_package = ''a'', file_dependency = [''y.proto''],
          file_public_dependency = [0], file_message_type = [], file_enum_type = [],
          file_service = [], file_extension = [], file_syntax = ''proto3'',
          file_source_code_info = []\<rparr>]\<rparr>"
  let ?files = "projr (ParseCodeGenRequestAllFiles id ?req)"
  have o: "visit_order id"
    by (simp add: visit_order_def)
  have "\<not> isl (ParseCodeGenRequestAllFiles id ?req)"
    by code_simp
  then have 1: "ParseCodeGenRequestAllFiles id ?req = Inr ?files"
    by (rule sum.collapse(2)[symmetric])
  have "0 < length ?files"
    by code_simp
  then have 2: "?files ! 0 \<in> set ?files"
    by (rule nth_mem)
  have 3: "Dependencies (?files ! 0) = [Some ''y.proto'']"
    and 4: "PublicDependencies (?files ! 0) = [Some ''y.proto'']"
    by code_simp+
  from C4_dependency_pointers[OF o 1 2]
  have 5: "length (Dependencies (?files ! 0)) = length (file_dependency (desc (?files ! 0)))"
    by (elim exE conjE)
  show ?thesis
    using 3 4 5 by (intro conjI)
qed

text \<open>
  C4 as the spec words it fails when a file stands before its dependency in the
  request: both files are returned, and the dependency pointers of \<open>x.proto\<close> are \<open>nil\<close>.
\<close>

theorem C4_counterexample:
  "map File_GetName (projr (ParseCodeGenRequestAllFiles id
      \<lparr>FileToGenerate = [''x.proto''],
       ProtoFile =
        [\<lparr>file_name = ''x.proto'', file_package = ''a'', file_dependency = [''y.proto''],
          file_public_dependency = [0], file_message_type = [], file_enum_type = [],
          file_service = [], file_extension = [], file_syntax = ''proto3'',
          file_source_code_info = []\<rparr>,
         \<lparr>file_name = ''y.proto'', file_package = ''b'', file_dependency = [],
          file_public_dependency = [], file_message_type = [], file_enum_type = [],
          file_service = [], file_extension = [], file_syntax = ''proto3'',
          file_source_code_info = []\<rparr>]\<rparr>)) = [''x.proto'', ''y.proto'']
   \<and> map Dependencies (projr (ParseCodeGenRequestAllFiles id
      \<lparr>FileToGenerate = [''x.proto''],
       ProtoFile =
        [\<lparr>file_name = ''x.proto'', file_package = ''a'', file_dependency = [''y.proto''],
          file_public_dependency = [0], file_message_type = [], file_enum_type = [],
          file_service = [], file_extension = [], file_syntax = ''proto3'',
          file_source_code_info = []\<rparr>,
         \<lparr>file_name = ''y.proto'', file_package = ''b'', file_dependency = [],
          file_public_dependency = [], file_message_type = [], file_enum_type = [],
          file_service = [], file_extension = [], file_syntax = ''proto3'',
          file_source_code_info = []\<rparr>]\<rparr>)) = [[None], []]
   \<and> map PublicDependencies (projr (ParseCodeGenRequestAllFiles id
      \<lparr>FileToGenerate = [''x.proto''],
       ProtoFile =
        [\<lparr>file_name = ''x.proto'', file_package = ''a'', file_dependency = [''y.proto''],
          file_public_dependency = [0], file_message_type = [], file_enum_type = [],
          file_service = [], file_extension = [], file_syntax = ''proto3'',
          file_source_code_info = []\<rparr>,
         \<lparr>file_name = ''y.proto'', file_package = ''b'', file_dependency = [],
          file_public_dependency = [], file_message_type = [], file_enum_type = [],
          file_service = [], file_extension = [], file_syntax = ''proto3'',
          file_source_code_info = []\<rparr>]\<rparr>)) = [[None], []]"
  by code_simp

section \<open>Input and output types of methods\<close>

lemma find_Some_ex: "(\<exists>y. find P xs = Some y) \<longleftrightarrow> (\<exists>x \<in> set xs. P x)"
  by (induction xs) auto

text \<open>
  C3, as the code has it. The input and output types of a method are resolved when the
  method is built, by \<open>GetMessage\<close> of the file that owns it: the result is the first
  top-level message of that file whose name, long name or full name is the declared type
  name, and \<open>nil\<close> when that file has no such top-level message. The other files of
  the batch and the nested messages are not searched.
\<close>

theorem C3_method_types:
  assumes "visit_order order" and "ParseCodeGenRequestAllFiles order req = Inr files"
    and "F \<in> set files" and "S \<in> set (Services F)" and "m \<in> set (svc_Methods S)"
  shows "GetInputType m = File_GetMessage F (mdp_input_type (mth_desc m)) \<and>
     GetOutputType m = File_GetMessage F (mdp_output_type (mth_desc m)) \<and>
     (GetInputType m \<noteq> None \<longleftrightarrow>
        (\<exists>M\<in>set (Messages F).
           Message_GetName M = mdp_input_type (mth_desc m) \<or>
           GetLongName (msg_common M) = mdp_input_type (mth_desc m) \<or>
           GetFullName (msg_common M) = mdp_input_type (mth_desc m))) \<and>
     (GetOutputType m \<noteq> None \<longleftrightarrow>
        (\<exists>M\<in>set (Messages F).
           Message_GetName M = mdp_output_type (mth_desc m) \<or>
           GetLongName (msg_common M) = mdp_output_type (mth_desc m) \<or>
           GetFullName (msg_common M) = mdp_output_type (mth_desc m)))"
proof -
  from returned_file[OF assms(1,2,3)] obtain B k f where
    bf: "built_from (ProtoFile req) B" and kf: "(k, f) \<in> set B"
    and F: "F = finished B (FileToGenerate req) (k, f)"
    by blast
  from bf kf obtain j prev where p: "parseFile prev (ProtoFile req ! j) = Inr f"
    unfolding built_from_def by blast
  from parseFile_entities(6)[OF p] obtain f3 where
    f3: "Messages f3 = Messages f" "Services f = parseServices f3 (file_service (ProtoFile req ! j))"
    by blast
  have FM: "Messages F = Messages f3" and FS: "Services F = Services f"
    unfolding F by (simp_all add: f3(1))
  from assms(4) obtain a where a: "a < length (file_service (ProtoFile req ! j))"
    and S: "S = parseServices f3 (file_service (ProtoFile req ! j)) ! a"
    unfolding FS f3(2) by (metis in_set_conv_nth length_builders(6))
  from assms(5) obtain b where b: "b < length (sdp_method (file_service (ProtoFile req ! j) ! a))"
    and m: "m = parseServiceMethods f3
                 (svc_common (parseServices f3 (file_service (ProtoFile req ! j)) ! a))
                 (sdp_method (file_service (ProtoFile req ! j) ! a)) ! b"
    unfolding S parseServices_nth(4)[OF a] by (metis in_set_conv_nth length_builders(5))
  have g: "File_GetMessage f3 n = File_GetMessage F n" for n
    by (simp add: File_GetMessage_def FM)
  have i: "GetInputType m = File_GetMessage F (mdp_input_type (mth_desc m))"
    and o: "GetOutputType m = File_GetMessage F (mdp_output_type (mth_desc m))"
    unfolding m GetInputType_def GetOutputType_def
    by (simp_all add: parseServiceMethods_nth[OF b] g)
  show ?thesis
    unfolding i o by (simp add: File_GetMessage_def find_Some_ex)
qed

text \<open>
  A method whose types name the top-level message \<open>.x.Local\<close> of its own file: the input
  type is that message.
\<close>

theorem C3_method_types_witness:
  "GetInputType (hd (svc_Methods (hd (Services (projr (ParseCodeGenRequestAllFiles id
      \<lparr>FileToGenerate = [''x.proto''],
       ProtoFile =
        [\<lparr>file_name = ''y.proto'', file_package = ''y'', file_dependency = [],
          file_public_dependency = [],
          file_message_type = [DescriptorProto ''Req'' [] [] [] [] False],
          file_enum_type = [], file_service = [], file_extension = [],
          file_syntax = ''proto3'', file_source_code_info = []\<rparr>,
         \<lparr>file_name = ''x.proto'', file_package = ''x'', file_dependency = [''y.proto''],
          file_public_dependency = [],
          file_message_type = [DescriptorProto ''Local'' []
             [DescriptorProto ''Nested'' [] [] [] [] False] [] [] False],
          file_enum_type = [],
          file_service = [\<lparr>sdp_name = ''S'', sdp_method =
             [\<lparr>mdp_name = ''m'', mdp_input_type = ''.x.Local'',
               mdp_output_type = ''.x.Local''\<rparr>]\<rparr>],
          file_extension = [], file_syntax = ''proto3'', file_source_code_info = []\<rparr>]\<rparr>) ! 0)))))
     = File_GetMessage (projr (ParseCodeGenRequestAllFiles id
      \<lparr>FileToGenerate = [''x.proto''],
       ProtoFile =
        [\<lparr>file_name = ''y.proto'', file_package = ''y'', file_dependency = [],
          file_public_dependency = [],
          file_message_type = [DescriptorProto ''Req'' [] [] [] [] False],
          file_enum_type = [], file_service = [], file_extension = [],
          file_syntax = ''proto3'', file_source_code_info = []\<rparr>,
         \<lparr>file_name = ''x.proto'', file_package = ''x'', file_dependency = [''y.proto''],
          file_public_dependency = [],
          file_message_type = [DescriptorProto ''Local'' []
             [DescriptorProto ''Nested'' [] [] [] [] False] [] [] False],
          file_enum_type = [],
          file_service = [\<lparr>sdp_name = ''S'', sdp_method =
             [\<lparr>mdp_name = ''m'', mdp_input_type = ''.x.Local'',
               mdp_output_type = ''.x.Local''\<rparr>]\<rparr>],
          file_extension = [], file_syntax = ''proto3'', file_source_code_info = []\<rparr>]\<rparr>) ! 0)
         (mdp_input_type (mth_desc (hd (svc_Methods (hd (Services (projr (ParseCodeGenRequestAllFiles id
      \<lparr>FileToGenerate = [''x.proto''],
       ProtoFile =
        [\<lparr>file_name = ''y.proto'', file_package = ''y'', file_dependency = [],
          file_public_dependency = [],
          file_message_type = [DescriptorProto ''Req'' [] [] [] [] False],
          file_enum_type = [], file_service = [], file_extension = [],
          file_syntax = ''proto3'', file_source_code_info = []\<rparr>,
         \<lparr>file_name = ''x.proto'', file_package = ''x'', file_dependency = [''y.proto''],
          file_public_dependency = [],
          file_message_type = [DescriptorProto ''Local'' []
             [DescriptorProto ''Nested'' [] [] [] [] False] [] [] False],
          file_enum_type = [],
          file_service = [\<lparr>sdp_name = ''S'', sdp_method =
             [\<lparr>mdp_name = ''m'', mdp_input_type = ''.x.Local'',
               mdp_output_type = ''.x.Local''\<rparr>]\<rparr>],
          file_extension = [], file_syntax = ''proto3'', file_source_code_info = []\<rparr>]\<rparr>) ! 0)))))))
   \<and> map_option Message_GetName (GetInputType (hd (svc_Methods (hd (Services (projr (ParseCodeGenRequestAllFiles id
      \<lparr>FileToGenerate = [''x.proto''],
       ProtoFile =
        [\<lparr>file_name = ''y.proto'', file_package = ''y'', file_dependency = [],
          file_public_dependency = [],
          file_message_type = [DescriptorProto ''Req'' [] [] [] [] False],
          file_enum_type = [], file_service = [], file_extension = [],
          file_syntax = ''proto3'', file_source_code_info = []\<rparr>,
         \<lparr>file_name = ''x.proto'', file_package = ''x'', file_dependency = [''y.proto''],
          file_public_dependency = [],
          file_message_type = [DescriptorProto ''Local'' []
             [DescriptorProto ''Nested'' [] [] [] [] False] [] [] False],
          file_enum_type = [],
          file_service = [\<lparr>sdp_name = ''S'', sdp_method =
             [\<lparr>mdp_name = ''m'', mdp_input_type = ''.x.Local'',
               mdp_output_type = ''.x.Local''\<rparr>]\<rparr>],
          file_extension = [], file_syntax = ''proto3'', file_source_code_info = []\<rparr>]\<rparr>) ! 0)))))) = Some ''Local''"
proof -
  let ?req = "\<lparr>FileToGenerate = [''x.proto''],
       ProtoFile =
        [\<lparr>file_name = ''y.proto'', file_package = ''y'', file_dependency = [],
          file_public_dependency = [],
          file_message_type = [DescriptorProto ''Req'' [] [] [] [] False],
          file_enum_type = [], file_service = [], file_extension = [],
          file_syntax = ''proto3'', file_source_code_info = []\<rparr>,
         \<lparr>file_name = ''x.proto'', file_package = ''x'', file_dependency = [''y.proto''],
          file_public_dependency = [],
          file_message_type = [DescriptorProto ''Local'' []
             [DescriptorProto ''Nested'' [] [] [] [] False] [] [] False],
          file_enum_type = [],
          file_service = [\<lparr>sdp_name = ''S'', sdp_method =
             [\<lparr>mdp_name = ''m'', mdp_input_type = ''.x.Local'',
               mdp_output_type = ''.x.Local''\<rparr>]\<rparr>],
          file_extension = [], file_syntax = ''proto3'', file_source_code_info = []\<rparr>]\<rparr>"
  let ?files = "projr (ParseCodeGenRequestAllFiles id ?req)"
  let ?S = "hd (Services (?files ! 0))"
  let ?m = "hd (svc_Methods ?S)"
  have o: "visit_order id"
    by (simp add: visit_order_def)
  have "\<not> isl (ParseCodeGenRequestAllFiles id ?req)"
    by code_simp
  then have 1: "ParseCodeGenRequestAllFiles id ?req = Inr ?files"
    by (rule sum.collapse(2)[symmetric])
  have "0 < length ?files"
    by code_simp
  then have 2: "?files ! 0 \<in> set ?files"
    by (rule nth_mem)
  have 3: "?S \<in> set (Services (?files ! 0))" and 4: "?m \<in> set (svc_Methods ?S)"
    by code_simp+
  have 5: "map_option Message_GetName (GetInputType ?m) = Some ''Local''"
    by code_simp
  note t = C3_method_types[OF o 1 2 3 4, THEN conjunct1]
  show ?thesis
    using t 5 by (intro conjI)
qed

text \<open>
  C3 as the spec words it fails: the method \<open>m\<close> of \<open>x.proto\<close> takes the nested
  message \<open>.x.Local.Nested\<close> of its own file and returns the message \<open>.y.Req\<close> of the
  file it depends on; both messages are in the batch, and both types resolve to \<open>nil\<close>.
\<close>

theorem C3_counterexample:
  "map GetInputType (svc_Methods (hd (Services (projr (ParseCodeGenRequestAllFiles id
      \<lparr>FileToGenerate = [''x.proto''],
       ProtoFile =
        [\<lparr>file_name = ''y.proto'', file_package = ''y'', file_dependency = [],
          file_public_dependency = [],
          file_message_type = [DescriptorProto ''Req'' [] [] [] [] False],
          file_enum_type = [], file_service = [], file_extension = [],
          file_syntax = ''proto3'', file_source_code_info = []\<rparr>,
         \<lparr>file_name = ''x.proto'', file_package = ''x'', file_dependency = [''y.proto''],
          file_public_dependency = [],
          file_message_type = [DescriptorProto ''Local'' []
             [DescriptorProto ''Nested'' [] [] [] [] False] [] [] False],
          file_enum_type = [],
          file_service = [\<lparr>sdp_name = ''S'', sdp_method =
             [\<lparr>mdp_name = ''m'', mdp_input_type = ''.x.Local.Nested'',
               mdp_output_type = ''.y.Req''\<rparr>]\<rparr>],
          file_extension = [], file_syntax = ''proto3'', file_source_code_info = []\<rparr>]\<rparr>) ! 0)))) = [None]
   \<and> map GetOutputType (svc_Methods (hd (Services (projr (ParseCodeGenRequestAllFiles id
      \<lparr>FileToGenerate = [''x.proto''],
       ProtoFile =
        [\<lparr>file_name = ''y.proto'', file_package = ''y'', file_dependency = [],
          file_public_dependency = [],
          file_message_type = [DescriptorProto ''Req'' [] [] [] [] False],
          file_enum_type = [], file_service = [], file_extension = [],
          file_syntax = ''proto3'', file_source_code_info = []\<rparr>,
         \<lparr>file_name = ''x.proto'', file_package = ''x'', file_dependency = [''y.proto''],
          file_public_dependency = [],
          file_message_type = [DescriptorProto ''Local'' []
             [DescriptorProto ''Nested'' [] [] [] [] False] [] [] False],
          file_enum_type = [],
          file_service = [\<lparr>sdp_name = ''S'', sdp_method =
             [\<lparr>mdp_name = ''m'', mdp_input_type = ''.x.Local.Nested'',
               mdp_output_type = ''.y.Req''\<rparr>]\<rparr>],
          file_extension = [], file_syntax = ''proto3'', file_source_code_info = []\<rparr>]\<rparr>) ! 0)))) = [None]
   \<and> map FullName (map msg_common (file_messages (projr (ParseCodeGenRequestAllFiles id
      \<lparr>FileToGenerate = [''x.proto''],
       ProtoFile =
        [\<lparr>file_name = ''y.proto'', file_package = ''y'', file_dependency = [],
          file_public_dependency = [],
          file_message_type = [DescriptorProto ''Req'' [] [] [] [] False],
          file_enum_type = [], file_service = [], file_extension = [],
          file_syntax = ''proto3'', file_source_code_info = []\<rparr>,
         \<lparr>file_name = ''x.proto'', file_package = ''x'', file_dependency = [''y.proto''],
          file_public_dependency = [],
          file_message_type = [DescriptorProto ''Local'' []
             [DescriptorProto ''Nested'' [] [] [] [] False] [] [] False],
          file_enum_type = [],
          file_service = [\<lparr>sdp_name = ''S'', sdp_method =
             [\<lparr>mdp_name = ''m'', mdp_input_type = ''.x.Local.Nested'',
               mdp_output_type = ''.y.Req''\<rparr>]\<rparr>],
          file_extension = [], file_syntax = ''proto3'', file_source_code_info = []\<rparr>]\<rparr>) ! 0)))
       = [''.x.Local'', ''.x.Local.Nested'']
   \<and> map FullName (map msg_common (file_messages (projr (ParseCodeGenRequestAllFiles id
      \<lparr>FileToGenerate = [''x.proto''],
       ProtoFile =
        [\<lparr>file_name = ''y.proto'', file_package = ''y'', file_dependency = [],
          file_public_dependency = [],
          file_message_type = [DescriptorProto ''Req'' [] [] [] [] False],
          file_enum_type = [], file_service = [], file_extension = [],
          file_syntax = ''proto3'', file_source_code_info = []\<rparr>,
         \<lparr>file_name = ''x.proto'', file_package = ''x'', file_dependency = [''y.proto''],
          file_public_dependency = [],
          file_message_type = [DescriptorProto ''Local'' []
             [DescriptorProto ''Nested'' [] [] [] [] False] [] [] False],
          file_enum_type = [],
          file_service = [\<lparr>sdp_name = ''S'', sdp_method =
             [\<lparr>mdp_name = ''m'', mdp_input_type = ''.x.Local.Nested'',
               mdp_output_type = ''.y.Req''\<rparr>]\<rparr>],
          file_extension = [], file_syntax = ''proto3'', file_source_code_info = []\<rparr>]\<rparr>) ! 1))) = [''.y.Req'']"
  by code_simp

section \<open>Imports\<close>

lemma parseFile_descs:
  assumes "parseFile al fd = Inr F"
  shows "map msg_desc (Messages F) = file_message_type fd"
    and "map enum_desc (Enums F) = file_enum_type fd"
    and "map ext_desc (Extensions F) = file_extension fd"
proof -
  note e = parseFile_entities[OF assms]
  from e(5) obtain f where m: "Messages F = parseMessages_from f None 0 (file_message_type fd)"
    by blast
  show "map msg_desc (Messages F) = file_message_type fd"
    unfolding m by (rule nth_equalityI) (simp_all add: nth_parseMessages_from parseMessage_sel(2))
  from e(3) obtain f where n: "Enums F = parseEnums f None (file_enum_type fd)" by blast
  show "map enum_desc (Enums F) = file_enum_type fd"
    unfolding n by (rule nth_equalityI) (simp_all add: parseEnums_nth(5))
  from e(4) obtain f where x: "Extensions F = parseExtensions f None (file_extension fd)" by blast
  show "map ext_desc (Extensions F) = file_extension fd"
    unfolding x by (rule nth_equalityI) (simp_all add: parseExtensions_nth(4))
qed

text \<open>
  C2, as the code has it. The import list of a returned file is, for each file of its
  declared dependency list in the declared order, the commons of the top-level messages
  of that file that are not map entries, then of its top-level enums, then of its
  top-level extensions. The top-level messages, enums and extensions of a file stand in
  the order of their declarations. What is nested in a message is not imported.
\<close>

theorem C2_imports:
  assumes "visit_order order" and "ParseCodeGenRequestAllFiles order req = Inr files"
    and "F \<in> set files"
  shows "(\<exists>Ds. length Ds = length (file_dependency (desc F)) \<and>
       (\<forall>i<length Ds. Ds ! i \<in> set files \<and>
          File_GetName (Ds ! i) = file_dependency (desc F) ! i) \<and>
       Imports F =
         concat (map (\<lambda>D. map msg_common (filter (\<lambda>m. \<not> dp_map_entry (msg_desc m)) (Messages D))
                           @ map enum_common (Enums D) @ map ext_common (Extensions D)) Ds)) \<and>
     (\<forall>D\<in>set files.
        map msg_desc (Messages D) = file_message_type (desc D) \<and>
        map enum_desc (Enums D) = file_enum_type (desc D) \<and>
        map ext_desc (Extensions D) = file_extension (desc D))"
proof
  let ?ns = "FileToGenerate req"
  from returned_file[OF assms] obtain B k f where
    bf: "built_from (ProtoFile req) B" and ok: "\<forall>(k, f) \<in> set B. \<not> isl (imports_in B f)"
    and sf: "set files = finished B ?ns ` set B"
    and kf: "(k, f) \<in> set B" and F: "F = finished B ?ns (k, f)"
    by blast
  have wf: "wf_files B" using bf by (simp add: built_from_def)
  let ?deps = "file_dependency (desc F)"
  let ?Ds = "map (\<lambda>d. finished B ?ns (d, the (map_of B d))) ?deps"
  have dF: "desc F = desc f" unfolding F by simp
  have ni: "\<not> isl (imports_in B f)" using ok kf by blast
  have all: "\<forall>d \<in> set (file_dependency (desc f)). map_of B d \<noteq> None"
  proof (rule ccontr)
    assume n: "\<not> (\<forall>d \<in> set (file_dependency (desc f)). map_of B d \<noteq> None)"
    have "imports_in B f = Inl NilPointerDereference"
      unfolding imports_in_char by (simp only: if_not_P[OF n])
    with ni show False by simp
  qed
  have imps: "imports_in B f =
      Inr (concat (map (\<lambda>d. exports (the (map_of B d))) (file_dependency (desc f))))"
    unfolding imports_in_char by (simp only: if_P[OF all])
  have mem: "(d, the (map_of B d)) \<in> set B" if "d \<in> set ?deps" for d
  proof -
    from all that obtain g where g: "map_of B d = Some g" unfolding dF by blast
    then have "(d, g) \<in> set B" by (rule map_of_SomeD)
    then show ?thesis by (simp add: g)
  qed
  have 1: "length ?Ds = length ?deps" by simp
  have wf': "\<forall>kf \<in> set B. File_GetName (snd kf) = fst kf"
    using wf by (auto simp: wf_files_def)
  have 2: "\<forall>i<length ?Ds. ?Ds ! i \<in> set files \<and> File_GetName (?Ds ! i) = ?deps ! i"
  proof (intro allI impI)
    fix i assume "i < length ?Ds"
    then have i: "i < length ?deps" by (simp only: length_map)
    have m: "(?deps ! i, the (map_of B (?deps ! i))) \<in> set B"
      by (rule mem[OF nth_mem[OF i]])
    have nm: "File_GetName (the (map_of B (?deps ! i))) = ?deps ! i"
      using bspec[OF wf' m] by (simp only: fst_conv snd_conv)
    have Di: "?Ds ! i = finished B ?ns (?deps ! i, the (map_of B (?deps ! i)))"
      using i by (rule nth_map)
    have a: "?Ds ! i \<in> set files"
      unfolding Di sf using m by (rule imageI)
    have b: "File_GetName (?Ds ! i) = ?deps ! i"
      unfolding Di finished_name by (rule nm)
    from a b show "?Ds ! i \<in> set files \<and> File_GetName (?Ds ! i) = ?deps ! i"
      by (rule conjI)
  qed
  have "Imports F = concat (map (\<lambda>d. exports (the (map_of B d))) ?deps)"
    unfolding dF unfolding F by (simp add: imps)
  also have "\<dots> = concat (map exports ?Ds)"
    by (simp add: comp_def)
  finally have 3: "Imports F =
         concat (map (\<lambda>D. map msg_common (filter (\<lambda>m. \<not> dp_map_entry (msg_desc m)) (Messages D))
                           @ map enum_common (Enums D) @ map ext_common (Extensions D)) ?Ds)"
    unfolding exports_def .
  from 1 2 3 show "\<exists>Ds. length Ds = length ?deps \<and>
       (\<forall>i<length Ds. Ds ! i \<in> set files \<and> File_GetName (Ds ! i) = ?deps ! i) \<and>
       Imports F =
         concat (map (\<lambda>D. map msg_common (filter (\<lambda>m. \<not> dp_map_entry (msg_desc m)) (Messages D))
                           @ map enum_common (Enums D) @ map ext_common (Extensions D)) Ds)"
    by (intro exI[of _ ?Ds] conjI)
  show "\<forall>D\<in>set files.
        map msg_desc (Messages D) = file_message_type (desc D) \<and>
        map enum_desc (Enums D) = file_enum_type (desc D) \<and>
        map ext_desc (Extensions D) = file_extension (desc D)"
  proof
    fix D assume "D \<in> set files"
    then obtain k' g where g: "(k', g) \<in> set B" and D: "D = finished B ?ns (k', g)"
      unfolding sf by auto
    from bf g obtain j prev where p: "parseFile prev (ProtoFile req ! j) = Inr g"
      unfolding built_from_def by blast
    have "desc g = ProtoFile req ! j" using p by (simp add: parseFile_entities(1))
    then show "map msg_desc (Messages D) = file_message_type (desc D) \<and>
        map enum_desc (Enums D) = file_enum_type (desc D) \<and>
        map ext_desc (Extensions D) = file_extension (desc D)"
      unfolding D using parseFile_descs[OF p] by simp
  qed
qed

text \<open>
  The scenario of the spec: \<open>x.proto\<close> depends on \<open>y.proto\<close>, which defines the enum
  \<open>Color\<close>, the map-entry message \<open>MapEntry\<close> and the message \<open>Point\<close>. The import list
  of \<open>x.proto\<close> holds \<open>Point\<close> and \<open>Color\<close> and not \<open>MapEntry\<close>.
\<close>

theorem C2_imports_witness:
  "map FullName (Imports (projr (ParseCodeGenRequestAllFiles id
      \<lparr>FileToGenerate = [''x.proto''],
       ProtoFile =
        [\<lparr>file_name = ''y.proto'', file_package = ''y'', file_dependency = [],
          file_public_dependency = [],
          file_message_type = [DescriptorProto ''MapEntry'' [] [] [] [] True,
                               DescriptorProto ''Point'' [] [] [] [] False],
          file_enum_type = [\<lparr>edp_name = ''Color'', edp_value = []\<rparr>],
          file_service = [], file_extension = [], file_syntax = ''proto3'',
          file_source_code_info = []\<rparr>,
         \<lparr>file_name = ''x.proto'', file_package = ''x'', file_dependency = [''y.proto''],
          file_public_dependency = [], file_message_type = [], file_enum_type = [],
          file_service = [], file_extension = [], file_syntax = ''proto3'',
          file_source_code_info = []\<rparr>]\<rparr>) ! 0)) = [''.y.Point'', ''.y.Color'']
   \<and> (\<exists>Ds :: PKFileDescriptor list. length Ds = length (file_dependency (desc (projr (ParseCodeGenRequestAllFiles id
      \<lparr>FileToGenerate = [''x.proto''],
       ProtoFile =
        [\<lparr>file_name = ''y.proto'', file_package = ''y'', file_dependency = [],
          file_public_dependency = [],
          file_message_type = [DescriptorProto ''MapEntry'' [] [] [] [] True,
                               DescriptorProto ''Point'' [] [] [] [] False],
          file_enum_type = [\<lparr>edp_name = ''Color'', edp_value = []\<rparr>],
          file_service = [], file_extension = [], file_syntax = ''proto3'',
          file_source_code_info = []\<rparr>,
         \<lparr>file_name = ''x.proto'', file_package = ''x'', file_dependency = [''y.proto''],
          file_public_dependency = [], file_message_type = [], file_enum_type = [],
          file_service = [], file_extension = [], file_syntax = ''proto3'',
          file_source_code_info = []\<rparr>]\<rparr>) ! 0))) \<and>
        Imports (projr (ParseCodeGenRequestAllFiles id
      \<lparr>FileToGenerate = [''x.proto''],
       ProtoFile =
        [\<lparr>file_name = ''y.proto'', file_package = ''y'', file_dependency = [],
          file_public_dependency = [],
          file_message_type = [DescriptorProto ''MapEntry'' [] [] [] [] True,
                               DescriptorProto ''Point'' [] [] [] [] False],
          file_enum_type = [\<lparr>edp_name = ''Color'', edp_value = []\<rparr>],
          file_service = [], file_extension = [], file_syntax = ''proto3'',
          file_source_code_info = []\<rparr>,
         \<lparr>file_name = ''x.proto'', file_package = ''x'', file_dependency = [''y.proto''],
          file_public_dependency = [], file_message_type = [], file_enum_type = [],
          file_service = [], file_extension = [], file_syntax = ''proto3'',
          file_source_code_info = []\<rparr>]\<rparr>) ! 0) =
         concat (map (\<lambda>D. map msg_common (filter (\<lambda>m. \<not> dp_map_entry (msg_desc m)) (Messages D))
                           @ map enum_common (Enums D) @ map ext_common (Extensions D)) Ds))"
proof -
  let ?req = "\<lparr>FileToGenerate = [''x.proto''],
       ProtoFile =
        [\<lparr>file_name = ''y.proto'', file_package = ''y'', file_dependency = [],
          file_public_dependency = [],
          file_message_type = [DescriptorProto ''MapEntry'' [] [] [] [] True,
                               DescriptorProto ''Point'' [] [] [] [] False],
          file_enum_type = [\<lparr>edp_name = ''Color'', edp_value = []\<rparr>],
          file_service = [], file_extension = [], file_syntax = ''proto3'',
          file_source_code_info = []\<rparr>,
         \<lparr>file_name = ''x.proto'', file_package = ''x'', file_dependency = [''y.proto''],
          file_public_dependency = [], file_message_type = [], file_enum_type = [],
          file_service = [], file_extension = [], file_syntax = ''proto3'',
          file_source_code_info = []\<rparr>]\<rparr>"
  let ?files = "projr (ParseCodeGenRequestAllFiles id ?req)"
  have o: "visit_order id"
    by (simp add: visit_order_def)
  have "\<not> isl (ParseCodeGenRequestAllFiles id ?req)"
    by code_simp
  then have 1: "ParseCodeGenRequestAllFiles id ?req = Inr ?files"
    by (rule sum.collapse(2)[symmetric])
  have "0 < length ?files"
    by code_simp
  then have 2: "?files ! 0 \<in> set ?files"
    by (rule nth_mem)
  have 3: "map FullName (Imports (?files ! 0)) = [''.y.Point'', ''.y.Color'']"
    by code_simp
  from C2_imports[OF o 1 2, THEN conjunct1]
  obtain Ds where a: "length Ds = length (file_dependency (desc (?files ! 0)))"
    and "\<forall>i<length Ds. Ds ! i \<in> set ?files \<and>
               File_GetName (Ds ! i) = file_dependency (desc (?files ! 0)) ! i"
    and c: "Imports (?files ! 0) =
         concat (map (\<lambda>D. map msg_common (filter (\<lambda>m. \<not> dp_map_entry (msg_desc m)) (Messages D))
                           @ map enum_common (Enums D) @ map ext_common (Extensions D)) Ds)"
    by (elim exE conjE)
  have 4: "\<exists>Ds :: PKFileDescriptor list. length Ds = length (file_dependency (desc (?files ! 0))) \<and>
        Imports (?files ! 0) =
         concat (map (\<lambda>D. map msg_common (filter (\<lambda>m. \<not> dp_map_entry (msg_desc m)) (Messages D))
                           @ map enum_common (Enums D) @ map ext_common (Extensions D)) Ds)"
    (is "\<exists>Ds. ?P Ds")
  proof (rule exI[of ?P Ds])
    from a c show "?P Ds"
      by (rule conjI)
  qed
  from 3 4 show ?thesis
    by (rule conjI)
qed

text \<open>
  C2 as the spec words it fails for a nested message: \<open>y.proto\<close> defines \<open>Outer\<close> with the
  nested message \<open>Inner\<close> and the nested enum \<open>Kind\<close>; the import list of \<open>x.proto\<close>,
  which depends on it, holds \<open>Outer\<close> alone.
\<close>

theorem C2_counterexample:
  "map FullName (Imports (projr (ParseCodeGenRequestAllFiles id
      \<lparr>FileToGenerate = [''x.proto''],
       ProtoFile =
        [\<lparr>file_name = ''y.proto'', file_package = ''y'', file_dependency = [],
          file_public_dependency = [],
          file_message_type = [DescriptorProto ''Outer'' []
             [DescriptorProto ''Inner'' [] [] [] [] False]
             [\<lparr>edp_name = ''Kind'', edp_value = []\<rparr>] [] False],
          file_enum_type = [],
          file_service = [], file_extension = [], file_syntax = ''proto3'',
          file_source_code_info = []\<rparr>,
         \<lparr>file_name = ''x.proto'', file_package = ''x'', file_dependency = [''y.proto''],
          file_public_dependency = [], file_message_type = [], file_enum_type = [],
          file_service = [], file_extension = [], file_syntax = ''proto3'',
          file_source_code_info = []\<rparr>]\<rparr>) ! 0)) = [''.y.Outer'']
   \<and> map FullName (map msg_common (file_messages (projr (ParseCodeGenRequestAllFiles id
      \<lparr>FileToGenerate = [''x.proto''],
       ProtoFile =
        [\<lparr>file_name = ''y.proto'', file_package = ''y'', file_dependency = [],
          file_public_dependency = [],
          file_message_type = [DescriptorProto ''Outer'' []
             [DescriptorProto ''Inner'' [] [] [] [] False]
             [\<lparr>edp_name = ''Kind'', edp_value = []\<rparr>] [] False],
          file_enum_type = [],
          file_service = [], file_extension = [], file_syntax = ''proto3'',
          file_source_code_info = []\<rparr>,
         \<lparr>file_name = ''x.proto'', file_package = ''x'', file_dependency = [''y.proto''],
          file_public_dependency = [], file_message_type = [], file_enum_type = [],
          file_service = [], file_extension = [], file_syntax = ''proto3'',
          file_source_code_info = []\<rparr>]\<rparr>) ! 1))) = [''.y.Outer'', ''.y.Outer.Inner'']
   \<and> map dp_map_entry (map msg_desc (file_messages (projr (ParseCodeGenRequestAllFiles id
      \<lparr>FileToGenerate = [''x.proto''],
       ProtoFile =
        [\<lparr>file_name = ''y.proto'', file_package = ''y'', file_dependency = [],
          file_public_dependency = [],
          file_message_type = [DescriptorProto ''Outer'' []
             [DescriptorProto ''Inner'' [] [] [] [] False]
             [\<lparr>edp_name = ''Kind'', edp_value = []\<rparr>] [] False],
          file_enum_type = [],
          file_service = [], file_extension = [], file_syntax = ''proto3'',
          file_source_code_info = []\<rparr>,
         \<lparr>file_name = ''x.proto'', file_package = ''x'', file_dependency = [''y.proto''],
          file_public_dependency = [], file_message_type = [], file_enum_type = [],
          file_service = [], file_extension = [], file_syntax = ''proto3'',
          file_source_code_info = []\<rparr>]\<rparr>) ! 1))) = [False, False]
   \<and> map FullName (map enum_common (file_enums (projr (ParseCodeGenRequestAllFiles id
      \<lparr>FileToGenerate = [''x.proto''],
       ProtoFile =
        [\<lparr>file_name = ''y.proto'', file_package = ''y'', file_dependency = [],
          file_public_dependency = [],
          file_message_type = [DescriptorProto ''Outer'' []
             [DescriptorProto ''Inner'' [] [] [] [] False]
             [\<lparr>edp_name = ''Kind'', edp_value = []\<rparr>] [] False],
          file_enum_type = [],
          file_service = [], file_extension = [], file_syntax = ''proto3'',
          file_source_code_info = []\<rparr>,
         \<lparr>file_name = ''x.proto'', file_package = ''x'', file_dependency = [''y.proto''],
          file_public_dependency = [], file_message_type = [], file_enum_type = [],
          file_service = [], file_extension = [], file_syntax = ''proto3'',
          file_source_code_info = []\<rparr>]\<rparr>) ! 1))) = [''.y.Outer.Kind'']"
  by code_simp

end
